theory Spec2Isabelle
  imports Main
begin

section \<open>The IR that the lowering patterns of Linear.cpp build\<close>

text \<open>
  The patterns of \<^verbatim>\<open>lib/Conversion/TorchToLinalg/Linear.cpp\<close> read the types of the
  operands of one Torch operator and ask a rewriter to create operations. The model keeps
  what the patterns read and what they create:
  \<^item> a type is a value of \<open>mtype\<close>; a ranked tensor type has a shape, a list of extents in
    which \<open>kDynamic\<close> stands for an extent only known at run time;
  \<^item> a value is a tree: an operand of the operator, a block argument of a region, or the
    result of a created operation with its attributes, its operands and the operations of
    its region;
  \<^item> a pattern returns either a failure or the list of the operations it created, in the
    order of creation, with the value that replaces the operator.
\<close>

datatype signedness = Signless | Signed | Unsigned

datatype mtype =
    IntegerType nat signedness
  | FloatType nat
  | IndexType
  | TorchNoneType
  | OtherType string
  | RankedTensorType "int list" mtype

datatype iterator_type = parallel | reduction

datatype attr =
    IntegerAttr int
  | IndexAttr int
  | ZeroAttr mtype
  | StringAttr string
  | TypeAttr mtype
  | I64VectorAttr "int list"
  | ShapeAttr "int list"
  | ReassociationAttr "nat list list"
  | PermutationAttr "int list"
  | DimensionsAttr "int list"
  | AffineMapsAttr "nat list list"
  | IteratorTypesAttr "iterator_type list"
  | CmpIPredicate_eq
  | TypeFn_cast_unsigned

text \<open>
  An operation is named by its MLIR name (\<open>tensor.dim\<close> for \<^verbatim>\<open>tensor::DimOp\<close>). A call
  of a helper of the repository that is declared outside this file is kept as a node too,
  named by the helper (\<open>getDimOp\<close>), with the arguments of the call.
\<close>

type_synonym opname = string

text \<open>
  \<open>Op k ty attrs operands region\<close>: the type \<open>ty\<close> is \<open>Some t\<close> when the source gives the
  result type to the builder, or when the operation's definition fixes it from what the
  source passes (the result of \<open>arith.addi\<close> has the type of its operands, an
  \<open>arith.constant\<close> the type of its attribute); it is \<open>None\<close> when the type is computed
  by code outside this file.
\<close>

datatype val =
    Operand string mtype
  | BlockArgument nat
  | Op opname "mtype option" "attr list" "val list" "val list"

datatype failure =
    Failure
  | MatchFailure string
  | EmitError string
  | Crash string

record rewrite =
  created :: "val list"
  replacement :: val

text \<open>
  What the file takes from the rest of the repository (\<^verbatim>\<open>Utils.h\<close>, the type converter,
  the rewriter's context) and that is not defined in it. \<open>inferredType\<close> answers
  \<^verbatim>\<open>Value::getType()\<close> for a value whose type was computed outside this file.
\<close>

record env =
  verifyLinalgCompatibleTypes :: bool
  isAssumingStrictSymbolicShapes :: bool
  isUnsignedTorchType :: "mtype \<Rightarrow> bool"
  getDefaultAccType :: "mtype \<Rightarrow> mtype"
  broadcastToGivenShape :: "val \<Rightarrow> val list \<Rightarrow> mtype \<Rightarrow> bool"
  inferredType :: "val \<Rightarrow> mtype"

definition kDynamic :: int where
  "kDynamic = - (2 ^ 63)"

definition kUnknownSize :: int where
  "kUnknownSize = - 1"

definition i32 :: mtype where
  "i32 = IntegerType 32 Signless"

fun getType :: "env \<Rightarrow> val \<Rightarrow> mtype" where
  "getType e (Operand n t) = t"
| "getType e (BlockArgument i) = inferredType e (BlockArgument i)"
| "getType e (Op k (Some t) as vs r) = t"
| "getType e (Op k None as vs r) = inferredType e (Op k None as vs r)"

text \<open>\<^verbatim>\<open>Type::isInteger(width)\<close>: an integer type of that width, of any signedness.\<close>

fun isInteger :: "mtype \<Rightarrow> nat \<Rightarrow> bool" where
  "isInteger (IntegerType w s) n = (w = n)"
| "isInteger t n = False"

fun isIntegerType :: "mtype \<Rightarrow> bool" where
  "isIntegerType (IntegerType w s) = True"
| "isIntegerType t = False"

fun isFloatType :: "mtype \<Rightarrow> bool" where
  "isFloatType (FloatType w) = True"
| "isFloatType t = False"

definition isAssertOp :: "val \<Rightarrow> bool" where
  "isAssertOp v = (case v of Op k ty as vs r \<Rightarrow> k = ''cf.assert'' | _ \<Rightarrow> False)"

subsection \<open>Operands that may come from a quantized-tensor construction\<close>

text \<open>
  \<open>ta_value\<close> is the adaptor's (converted) operand, \<open>ta_dtype\<close> the dtype of the Torch
  tensor type of the original operand, and \<open>ta_make\<close> the
  \<^verbatim>\<open>Aten_MakePerTensorQuantizedTensorOp\<close> that defines the original operand, when one does:
  its \<^verbatim>\<open>getSelf()\<close> and \<^verbatim>\<open>getZeroPoint()\<close>, each with the type the type converter
  gives it.
\<close>

record make_quantized =
  mq_self :: val
  mq_self_type :: mtype
  mq_zero_point :: val
  mq_zero_point_type :: mtype

record tensor_arg =
  ta_value :: val
  ta_dtype :: mtype
  ta_make :: "make_quantized option"

text \<open>
  \<^verbatim>\<open>getZeroPoint(value, zeropoint)\<close> assigns the zero-point only when the value is defined
  by a make-per-tensor-quantized-tensor operation; the caller's variable starts null.
\<close>

definition getZeroPoint :: "tensor_arg \<Rightarrow> val option" where
  "getZeroPoint a = (case ta_make a of Some mk \<Rightarrow> Some (mq_zero_point mk) | None \<Rightarrow> None)"

subsection \<open>signShift\<close>

text \<open>
  \<^verbatim>\<open>int64_t minSI = -(1 << (numBits - 1));\<close> The literal \<^verbatim>\<open>1\<close> is a C++ \<^verbatim>\<open>int\<close>
  (32 bits), so the shift is defined for a count from 0 to 30 only; for any other count
  the expression has no defined value.
\<close>

definition minSI :: "int \<Rightarrow> int option" where
  "minSI numBits =
     (if 0 \<le> numBits - 1 \<and> numBits - 1 \<le> 30 then Some (- (2 ^ nat (numBits - 1))) else None)"

text \<open>
  \<open>signShift e arg zp isUnsignedType numBits\<close> returns the new \<open>arg\<close>, the new \<open>zp\<close>
  (both are reference parameters in the source) and the operations created.
\<close>

definition signShift ::
  "env \<Rightarrow> val \<Rightarrow> val option \<Rightarrow> bool \<Rightarrow> int \<Rightarrow> failure + (val \<times> val option \<times> val list)" where
  "signShift e arg zp isUnsignedType numBits =
     (if \<not> isUnsignedType then Inr (arg, zp, [])
      else case minSI numBits of
        None \<Rightarrow> Inl (Crash ''signShift: shift count out of range for int'')
      | Some m \<Rightarrow>
         (case zp of
            None \<Rightarrow> Inl (Crash ''signShift: zp is null'')
          | Some z \<Rightarrow>
             (case getType e z of
                IntegerType w s \<Rightarrow>
                  (case getType e arg of
                     RankedTensorType shape elem \<Rightarrow>
                       let minSIValue = Op ''arith.constant_int'' (Some (IntegerType w Signless))
                                          [IntegerAttr m, IntegerAttr (int w)] [] [];
                           zp' = Op ''arith.addi'' (Some (getType e z)) [] [z, minSIValue] [];
                           minSIValue' = Op ''arith.constant_int''
                                          (Some (IntegerType (nat numBits) Signless))
                                          [IntegerAttr m, IntegerAttr numBits] [] [];
                           result = Op ''arith.addi'' (Some elem) [] [BlockArgument 0, minSIValue'] [];
                           arg' = Op ''createElementwiseLinalgGeneric'' None [TypeAttr elem] [arg]
                                    [result, Op ''linalg.yield'' None [] [result] []]
                       in Inr (arg', Some zp', [minSIValue, zp', minSIValue', arg'])
                   | _ \<Rightarrow> Inl (Crash ''signShift: arg is not a tensor''))
              | _ \<Rightarrow> Inl (Crash ''signShift: zp is not an integer''))))"

subsection \<open>ConvertAtenMmOp\<close>

record mm_op =
  mm_self :: tensor_arg
  mm_mat2 :: tensor_arg
  mm_resultType :: mtype

text \<open>
  The zero-points of a quantized \<^verbatim>\<open>aten.mm\<close> or \<^verbatim>\<open>aten.matmul\<close>: each is converted to the
  target type, truncated to \<open>i32\<close>, and the two operands are shifted to the signed domain.
  Returns the new lhs, rhs and zero-points and the operations created.
\<close>

definition prepareZeroPoints ::
  "env \<Rightarrow> tensor_arg \<Rightarrow> tensor_arg \<Rightarrow> val \<Rightarrow> val \<Rightarrow> mtype \<Rightarrow> mtype \<Rightarrow> make_quantized \<Rightarrow>
   make_quantized \<Rightarrow> failure + (val \<times> val \<times> val \<times> val \<times> val list)" where
  "prepareZeroPoints e self other lhs rhs lhsElem rhsElem lmake rmake =
     (let isUnsigned = isUnsignedTorchType e (ta_dtype self);
          isUnsignedR = isUnsignedTorchType e (ta_dtype other);
          lhsZp1 = Op ''materializeTargetConversion'' (Some (mq_zero_point_type lmake)) []
                     [mq_zero_point lmake] [];
          rhsZp1 = Op ''materializeTargetConversion'' (Some (mq_zero_point_type rmake)) []
                     [mq_zero_point rmake] [];
          lhsZp2 = Op ''arith.trunci'' (Some i32) [] [lhsZp1] [];
          rhsZp2 = Op ''arith.trunci'' (Some i32) [] [rhsZp1] []
      in case lhsElem of
           IntegerType lw ls \<Rightarrow>
             (case signShift e lhs (Some lhsZp2) isUnsigned (int lw) of
                Inl f \<Rightarrow> Inl f
              | Inr (lhs', lhsZp3, c1) \<Rightarrow>
                 (case rhsElem of
                    IntegerType rw rs \<Rightarrow>
                      (case signShift e rhs (Some rhsZp2) isUnsignedR (int rw) of
                         Inl f \<Rightarrow> Inl f
                       | Inr (rhs', rhsZp3, c2) \<Rightarrow>
                          (case (lhsZp3, rhsZp3) of
                             (Some lz, Some rz) \<Rightarrow>
                               Inr (lhs', rhs', lz, rz,
                                    [lhsZp1, rhsZp1, lhsZp2, rhsZp2] @ c1 @ c2)
                           | _ \<Rightarrow> Inl (Crash ''null zero-point'')))
                  | _ \<Rightarrow> Inl (Crash ''cast<IntegerType>(rhs element type)'')))
         | _ \<Rightarrow> Inl (Crash ''cast<IntegerType>(lhs element type)''))"

definition mmContractingDimCheck :: "env \<Rightarrow> val \<Rightarrow> val \<Rightarrow> val list" where
  "mmContractingDimCheck e lhs rhs =
     (if \<not> isAssumingStrictSymbolicShapes e then
        let lhsDim1 = Op ''tensor.dim'' (Some IndexType) [IndexAttr 1] [lhs] [];
            rhsDim0 = Op ''tensor.dim'' (Some IndexType) [IndexAttr 0] [rhs] [];
            contractingDimEqual = Op ''arith.cmpi'' None [CmpIPredicate_eq] [lhsDim1, rhsDim0] []
        in [lhsDim1, rhsDim0, contractingDimEqual,
            Op ''cf.assert'' None
              [StringAttr ''mismatching contracting dimension for torch.aten.mm'']
              [contractingDimEqual] []]
      else [])"

definition ConvertAtenMmOp :: "env \<Rightarrow> mm_op \<Rightarrow> failure + rewrite" where
  "ConvertAtenMmOp e op =
     (let lhs = ta_value (mm_self op); rhs = ta_value (mm_mat2 op) in
      if \<not> verifyLinalgCompatibleTypes e then Inl Failure
      else case getType e lhs of
        RankedTensorType lhsShape lhsElem \<Rightarrow>
         (case getType e rhs of
            RankedTensorType rhsShape rhsElem \<Rightarrow>
              if length lhsShape \<noteq> 2 \<or> length rhsShape \<noteq> 2
              then Inl (MatchFailure ''expected both operands to aten.mm to be rank 2'')
              else if (getZeroPoint (mm_self op) \<noteq> None) \<noteq> (getZeroPoint (mm_mat2 op) \<noteq> None)
              then Inl (MatchFailure ''unsupported: aten.mm with mixed quantization'')
              else if ta_dtype (mm_self op) \<noteq> ta_dtype (mm_mat2 op)
                      \<and> getZeroPoint (mm_self op) = None
              then Inl (MatchFailure ''unsupported: aten.mm with different input element types'')
              else
               (let isUnsigned = isUnsignedTorchType e (ta_dtype (mm_self op));
                    lhsDim0 = Op ''tensor.dim'' (Some IndexType) [IndexAttr 0] [lhs] [];
                    rhsDim1 = Op ''tensor.dim'' (Some IndexType) [IndexAttr 1] [rhs] [];
                    check = mmContractingDimCheck e lhs rhs
                in case mm_resultType op of
                  RankedTensorType resultShape resultElem \<Rightarrow>
                   (let accumulatorDType = getDefaultAccType e lhsElem;
                        elementType = (if accumulatorDType \<noteq> resultElem then accumulatorDType
                                       else resultElem);
                        zeroFill = Op ''createZeroInitTensor'' None [TypeAttr elementType]
                                     [lhsDim0, rhsDim1] [];
                        finish = (\<lambda>matmulOps matmul.
                          let conv = (if accumulatorDType \<noteq> resultElem
                                      then [Op ''convertTensorToElementType'' None
                                              [TypeAttr resultElem] [matmul] []]
                                      else []);
                              matmul' = (if accumulatorDType \<noteq> resultElem then hd conv
                                         else matmul);
                              cast = Op ''tensor.cast'' (Some (mm_resultType op)) [] [matmul'] []
                          in Inr \<lparr> created = [lhsDim0, rhsDim1] @ check @ [zeroFill]
                                              @ matmulOps @ conv @ [cast],
                                   replacement = cast \<rparr>)
                    in case (ta_make (mm_self op), ta_make (mm_mat2 op)) of
                         (Some lmake, Some rmake) \<Rightarrow>
                           (case prepareZeroPoints e (mm_self op) (mm_mat2 op) lhs rhs
                                   lhsElem rhsElem lmake rmake of
                              Inl f \<Rightarrow> Inl f
                            | Inr (lhs', rhs', lhsZp, rhsZp, c) \<Rightarrow>
                               (let matmul = Op ''linalg.quantized_matmul''
                                               (Some (getType e zeroFill)) []
                                               [lhs', rhs', lhsZp, rhsZp, zeroFill] []
                                in finish (c @ [matmul]) matmul))
                       | _ \<Rightarrow>
                           (let matmul = Op ''linalg.matmul'' (Some (getType e zeroFill))
                                           (if isUnsigned then [TypeFn_cast_unsigned] else [])
                                           [lhs, rhs, zeroFill] []
                            in finish [matmul] matmul))
                | _ \<Rightarrow> Inl (Crash ''cast<TensorType>(result type)''))
          | _ \<Rightarrow> Inl (Crash ''cast<RankedTensorType>(rhs type)''))
      | _ \<Rightarrow> Inl (Crash ''cast<RankedTensorType>(lhs type)''))"

text \<open>The assertion that \<open>mmContractingDimCheck\<close> creates for the operands \<open>lhs\<close> and \<open>rhs\<close>.\<close>

definition mmAssertOp :: "val \<Rightarrow> val \<Rightarrow> val" where
  "mmAssertOp lhs rhs =
     Op ''cf.assert'' None [StringAttr ''mismatching contracting dimension for torch.aten.mm'']
       [Op ''arith.cmpi'' None [CmpIPredicate_eq]
          [Op ''tensor.dim'' (Some IndexType) [IndexAttr 1] [lhs] [],
           Op ''tensor.dim'' (Some IndexType) [IndexAttr 0] [rhs] []] []] []"

text \<open>
  The element types for which the quantized path can shift an operand: an integer type,
  of a width from 1 to 31 when the operand's dtype is unsigned (the widths at which
  \<open>minSI\<close> is defined; the unsigned quantized dtype \<open>quint8\<close> has width 8).
\<close>

definition signShiftDefined :: "env \<Rightarrow> mtype \<Rightarrow> mtype \<Rightarrow> bool" where
  "signShiftDefined e dtype elem =
     (case elem of
        IntegerType w s \<Rightarrow> \<not> isUnsignedTorchType e dtype \<or> (1 \<le> w \<and> w \<le> 31)
      | _ \<Rightarrow> False)"

subsection \<open>Concrete inputs\<close>

definition f32 :: mtype where
  "f32 = FloatType 32"

definition exampleEnv :: env where
  "exampleEnv = \<lparr> verifyLinalgCompatibleTypes = True,
                  isAssumingStrictSymbolicShapes = False,
                  isUnsignedTorchType = (\<lambda>t. case t of IntegerType w s \<Rightarrow> s = Unsigned
                                             | OtherType n \<Rightarrow> n = ''!torch.quint8''
                                             | _ \<Rightarrow> False),
                  getDefaultAccType = (\<lambda>t. t),
                  broadcastToGivenShape = (\<lambda>v shape t. True),
                  inferredType = (\<lambda>v. OtherType ''inferred'') \<rparr>"

definition floatArg :: "string \<Rightarrow> int list \<Rightarrow> tensor_arg" where
  "floatArg name shape =
     \<lparr> ta_value = Operand name (RankedTensorType shape f32), ta_dtype = f32, ta_make = None \<rparr>"

definition mmExample :: mm_op where
  "mmExample = \<lparr> mm_self = floatArg ''self'' [2, 3], mm_mat2 = floatArg ''mat2'' [4, 5],
                 mm_resultType = RankedTensorType [2, 5] f32 \<rparr>"

subsection \<open>The arithmetic of the operations that signShift creates\<close>

text \<open>
  An integer of width \<open>w\<close> is held as its bit pattern, a number from 0 to \<open>2 ^ w - 1\<close>.
  \<open>wrap w\<close> reduces a number to a pattern, and \<open>signedValue w\<close> reads a pattern as a
  two's complement number. \<open>evalInt \<rho> v\<close> is the pattern that \<open>v\<close> computes when \<open>\<rho>\<close>
  gives the patterns of the operands and block arguments: \<open>arith.constant\<close> of an integer
  is the pattern of its attribute and \<open>arith.addi\<close> adds modulo \<open>2 ^ w\<close>.
\<close>

definition wrap :: "nat \<Rightarrow> int \<Rightarrow> int" where
  "wrap w x = x mod 2 ^ w"

definition signedValue :: "nat \<Rightarrow> int \<Rightarrow> int" where
  "signedValue w x = (if wrap w x < 2 ^ (w - 1) then wrap w x else wrap w x - 2 ^ w)"

fun evalInt :: "(val \<Rightarrow> int) \<Rightarrow> val \<Rightarrow> int" where
  "evalInt \<rho> (Op k (Some (IntegerType w s)) as vs r) =
     (if k = ''arith.constant_int''
      then (case as of IntegerAttr m # rest \<Rightarrow> wrap w m
                     | _ \<Rightarrow> \<rho> (Op k (Some (IntegerType w s)) as vs r))
      else if k = ''arith.addi''
      then (case vs of [a, b] \<Rightarrow> wrap w (evalInt \<rho> a + evalInt \<rho> b)
                     | _ \<Rightarrow> \<rho> (Op k (Some (IntegerType w s)) as vs r))
      else \<rho> (Op k (Some (IntegerType w s)) as vs r))"
| "evalInt \<rho> v = \<rho> v"

text \<open>A \<open>uint8\<close> tensor with zero-point 128, and an element of value 200.\<close>

definition u8Tensor :: val where
  "u8Tensor = Operand ''self'' (RankedTensorType [2, 3] (IntegerType 8 Signless))"

definition zp128 :: val where
  "zp128 = Operand ''zero_point'' (IntegerType 32 Signless)"

definition rho200 :: "val \<Rightarrow> int" where
  "rho200 v = (if v = BlockArgument 0 then 200 else 128)"

subsection \<open>ConvertAtenMatmulOp\<close>

record matmul_op =
  mt_self :: tensor_arg
  mt_other :: tensor_arg
  mt_resultType :: mtype

text \<open>
  Modelled from the spec: \<^verbatim>\<open>makeShapeTorchCompatible\<close> is declared outside this file; it
  gives a shape in which a dimension is "either a known constant or dynamic" with Torch's
  marker \<open>kUnknownSize\<close> in place of the builtin marker \<open>kDynamic\<close>, and
  \<^verbatim>\<open>makeShapeLLVMCompatible\<close> goes back.
\<close>

definition makeShapeTorchCompatible :: "int list \<Rightarrow> int list" where
  "makeShapeTorchCompatible shape = map (\<lambda>d. if d = kDynamic then kUnknownSize else d) shape"

definition makeShapeLLVMCompatible :: "int list \<Rightarrow> int list" where
  "makeShapeLLVMCompatible shape = map (\<lambda>d. if d = kUnknownSize then kDynamic else d) shape"

definition getDimOp :: "val \<Rightarrow> nat \<Rightarrow> val" where
  "getDimOp v i = Op ''getDimOp'' None [IndexAttr (int i)] [v] []"

definition checkDimEqualHelper :: "val \<Rightarrow> val \<Rightarrow> val" where
  "checkDimEqualHelper a b = Op ''checkDimEqualHelper'' None [] [a, b] []"

definition createZeroInitTensor :: "val list \<Rightarrow> mtype \<Rightarrow> val" where
  "createZeroInitTensor sizes elementType =
     Op ''createZeroInitTensor'' None [TypeAttr elementType] sizes []"

text \<open>
  The quantized vector cases: a rank-1 operand is expanded to a matrix, the product is a
  \<open>linalg.quantized_matmul\<close>, and its result is collapsed to the result type.
\<close>

definition matmulQuantizedVec ::
  "env \<Rightarrow> bool \<Rightarrow> bool \<Rightarrow> val \<Rightarrow> val \<Rightarrow> int list \<Rightarrow> mtype \<Rightarrow> int list \<Rightarrow> mtype \<Rightarrow> val \<Rightarrow> val \<Rightarrow>
   mtype \<Rightarrow> int list \<Rightarrow> mtype \<Rightarrow> val list \<Rightarrow> rewrite" where
  "matmulQuantizedVec e lhsVec rhsVec lhs rhs lhsShape lhsElem rhsShape rhsElem lhsZeroPoint
     rhsZeroPoint newResultType resultShape elementType pre =
     (let reassociation = [[0, 1]];
          lhsExpand = (if lhsVec
                       then [Op ''tensor.expand_shape''
                               (Some (RankedTensorType [1, lhsShape ! 0] lhsElem))
                               [ReassociationAttr reassociation] [lhs] []]
                       else []);
          lhs' = (if lhsVec then hd lhsExpand else lhs);
          rhsExpand = (if rhsVec
                       then [Op ''tensor.expand_shape''
                               (Some (RankedTensorType [rhsShape ! 0, 1] rhsElem))
                               [ReassociationAttr reassociation] [rhs] []]
                       else []);
          rhs' = (if rhsVec then hd rhsExpand else rhs);
          lhsDim0 = getDimOp lhs' 0;
          lhsDim1 = getDimOp lhs' 1;
          rhsDim0 = getDimOp rhs' 0;
          rhsDim1 = getDimOp rhs' 1;
          check = checkDimEqualHelper lhsDim1 rhsDim0;
          zeroTensor = createZeroInitTensor [lhsDim0, rhsDim1] elementType;
          matmul = Op ''linalg.quantized_matmul'' (Some (getType e zeroTensor)) []
                     [lhs', rhs', lhsZeroPoint, rhsZeroPoint, zeroTensor] [];
          reassociation' = (if length resultShape = 0 then [] else reassociation);
          collapse = Op ''tensor.collapse_shape'' (Some newResultType)
                       [ReassociationAttr reassociation'] [matmul] [];
          cast = Op ''tensor.cast'' (Some newResultType) [] [collapse] []
      in \<lparr> created = pre @ lhsExpand @ rhsExpand @
           [lhsDim0, lhsDim1, rhsDim0, rhsDim1, check, zeroTensor, matmul, collapse, cast],
           replacement = cast \<rparr>)"

text \<open>First case: dot product.\<close>

definition matmulDot :: "env \<Rightarrow> val \<Rightarrow> val \<Rightarrow> mtype \<Rightarrow> mtype \<Rightarrow> val list \<Rightarrow> rewrite" where
  "matmulDot e lhs rhs newResultType elementType pre =
     (let lhsDim0 = getDimOp lhs 0;
          rhsDim0 = getDimOp rhs 0;
          check = checkDimEqualHelper lhsDim0 rhsDim0;
          zeroTensor = createZeroInitTensor [] elementType;
          dotProd = Op ''linalg.dot'' (Some (getType e zeroTensor)) [] [lhs, rhs, zeroTensor] [];
          cast = Op ''tensor.cast'' (Some newResultType) [] [dotProd] []
      in \<lparr> created = pre @ [lhsDim0, rhsDim0, check, zeroTensor, dotProd, cast],
           replacement = cast \<rparr>)"

text \<open>Second case: vector-matrix multiplication.\<close>

definition matmulVecMat :: "env \<Rightarrow> val \<Rightarrow> val \<Rightarrow> mtype \<Rightarrow> mtype \<Rightarrow> val list \<Rightarrow> rewrite" where
  "matmulVecMat e lhs rhs newResultType elementType pre =
     (let lhsDim0 = getDimOp lhs 0;
          rhsDim0 = getDimOp rhs 0;
          rhsDim1 = getDimOp rhs 1;
          check = checkDimEqualHelper lhsDim0 rhsDim0;
          zeroTensor = createZeroInitTensor [rhsDim1] elementType;
          matmul = Op ''linalg.vecmat'' (Some (getType e zeroTensor)) [] [lhs, rhs, zeroTensor] [];
          cast = Op ''tensor.cast'' (Some newResultType) [] [matmul] []
      in \<lparr> created = pre @ [lhsDim0, rhsDim0, rhsDim1, check, zeroTensor, matmul, cast],
           replacement = cast \<rparr>)"

text \<open>Third case: matrix-vector multiplication.\<close>

definition matmulMatVec :: "env \<Rightarrow> val \<Rightarrow> val \<Rightarrow> mtype \<Rightarrow> mtype \<Rightarrow> val list \<Rightarrow> rewrite" where
  "matmulMatVec e lhs rhs newResultType elementType pre =
     (let lhsDim0 = getDimOp lhs 0;
          lhsDim1 = getDimOp lhs 1;
          rhsDim0 = getDimOp rhs 0;
          check = checkDimEqualHelper lhsDim1 rhsDim0;
          zeroTensor = createZeroInitTensor [lhsDim0] elementType;
          matmul = Op ''linalg.matvec'' (Some (getType e zeroTensor)) [] [lhs, rhs, zeroTensor] [];
          cast = Op ''tensor.cast'' (Some newResultType) [] [matmul] []
      in \<lparr> created = pre @ [lhsDim0, lhsDim1, rhsDim0, check, zeroTensor, matmul, cast],
           replacement = cast \<rparr>)"

text \<open>Fourth case: matrix-matrix multiplication, quantized when there are zero-points.\<close>

definition matmulMatMat ::
  "env \<Rightarrow> val \<Rightarrow> val \<Rightarrow> (val \<times> val) option \<Rightarrow> mtype \<Rightarrow> mtype \<Rightarrow> val list \<Rightarrow> rewrite" where
  "matmulMatMat e lhs rhs zeroPoints newResultType elementType pre =
     (let lhsDim0 = getDimOp lhs 0;
          lhsDim1 = getDimOp lhs 1;
          rhsDim0 = getDimOp rhs 0;
          rhsDim1 = getDimOp rhs 1;
          check = checkDimEqualHelper lhsDim1 rhsDim0;
          zeroTensor = createZeroInitTensor [lhsDim0, rhsDim1] elementType;
          matmul = (case zeroPoints of
                      Some (lhsZeroPoint, rhsZeroPoint) \<Rightarrow>
                        Op ''linalg.quantized_matmul'' (Some (getType e zeroTensor)) []
                          [lhs, rhs, lhsZeroPoint, rhsZeroPoint, zeroTensor] []
                    | None \<Rightarrow>
                        Op ''linalg.matmul'' (Some (getType e zeroTensor)) []
                          [lhs, rhs, zeroTensor] []);
          cast = Op ''tensor.cast'' (Some newResultType) [] [matmul] []
      in \<lparr> created = pre @ [lhsDim0, lhsDim1, rhsDim0, rhsDim1, check, zeroTensor, matmul,
                            cast],
           replacement = cast \<rparr>)"

text \<open>
  Fifth case: batch-matrix multiplication. One iteration \<open>i\<close> (from 1 to \<open>batchRank\<close>) of
  the loop that fills \<open>broadcastedBatchShape[batchRank - i]\<close>: the operations it creates,
  the last of which is \<open>maxDim\<close>. The ranks are unsigned in the source; no subtraction
  below goes under zero, since \<open>i \<le> minRank - 2\<close> in the first branch and
  \<open>i \<le> maxRank - 2\<close> in the second.
\<close>

definition batchDimStep :: "val \<Rightarrow> val \<Rightarrow> nat \<Rightarrow> nat \<Rightarrow> nat \<Rightarrow> val list" where
  "batchDimStep lhs rhs lhsRank rhsRank i =
     (let maxRank = max lhsRank rhsRank;
          minRank = min lhsRank rhsRank;
          maxRankMatrix = (if lhsRank > rhsRank then lhs else rhs)
      in if i \<le> minRank - 2
         then let lhsDim = getDimOp lhs (lhsRank - 2 - i);
                  rhsDim = getDimOp rhs (rhsRank - 2 - i)
              in [lhsDim, rhsDim, Op ''arith.maxui'' None [] [lhsDim, rhsDim] []]
         else [getDimOp maxRankMatrix (maxRank - 2 - i)])"

definition broadcastedBatchShape :: "val \<Rightarrow> val \<Rightarrow> nat \<Rightarrow> nat \<Rightarrow> val list" where
  "broadcastedBatchShape lhs rhs lhsRank rhsRank =
     (let batchRank = max lhsRank rhsRank - 2
      in map (\<lambda>i. last (batchDimStep lhs rhs lhsRank rhsRank i)) (rev [1..<Suc batchRank]))"

text \<open>
  The loop \<^verbatim>\<open>for (i = 0, j = 0; i < maxRank; i++) { if (i >= batchRank) j++;
  reassociation[j].push_back(i); }\<close> on three empty groups. It is only run with
  \<open>maxRank = batchRank + 2\<close>, where \<open>j\<close> stays below 3.
\<close>

definition reassociationStep :: "nat \<Rightarrow> nat \<Rightarrow> nat \<times> nat list list \<Rightarrow> nat \<times> nat list list" where
  "reassociationStep batchRank i s =
     (let j = (if i \<ge> batchRank then fst s + 1 else fst s)
      in (j, (snd s)[j := snd s ! j @ [i]]))"

definition collapseReassociation :: "nat \<Rightarrow> nat \<Rightarrow> nat list list" where
  "collapseReassociation maxRank batchRank =
     snd (fold (reassociationStep batchRank) [0..<maxRank] (0, [[], [], []]))"

text \<open>
  \<^verbatim>\<open>collapsedResultShape[0]\<close>: the successive products of the batch extents; the list
  holds each \<open>arith.muli\<close> created.
\<close>

fun mulChain :: "val \<Rightarrow> val list \<Rightarrow> val list" where
  "mulChain acc [] = []"
| "mulChain acc (d # ds) =
     (let m = Op ''arith.muli'' None [] [acc, d] [] in m # mulChain m ds)"

definition matmulBatchCollapsed ::
  "env \<Rightarrow> val \<Rightarrow> val \<Rightarrow> val list \<Rightarrow> val \<Rightarrow> val \<Rightarrow> nat \<Rightarrow> (val \<times> val) option \<Rightarrow> mtype \<Rightarrow> mtype \<Rightarrow>
   val list \<Rightarrow> rewrite" where
  "matmulBatchCollapsed e broadcastedLhs broadcastedRhs batchShape lhsDim0 rhsDim1 maxRank
     zeroPoints newResultType elementType pre =
     (let batchRank = maxRank - 2;
          reassociation = collapseReassociation maxRank batchRank;
          collapsedLhs = Op ''tensor.collapse_shape'' None [ReassociationAttr reassociation]
                           [broadcastedLhs] [];
          collapsedRhs = Op ''tensor.collapse_shape'' None [ReassociationAttr reassociation]
                           [broadcastedRhs] [];
          muls = mulChain (batchShape ! 0) (drop 1 batchShape);
          collapsedResultShape = [last (batchShape ! 0 # muls), lhsDim0, rhsDim1];
          initTensor = Op ''tensor.empty'' None [TypeAttr elementType] collapsedResultShape [];
          c0 = Op ''arith.constant'' (Some elementType) [ZeroAttr elementType] [] [];
          zeroTensor = Op ''linalg.fill'' None [] [c0, initTensor] [];
          batchMatMul = (case zeroPoints of
                           Some (lhsZeroPoint, rhsZeroPoint) \<Rightarrow>
                             Op ''linalg.quantized_batch_matmul'' (Some (getType e zeroTensor)) []
                               [collapsedLhs, collapsedRhs, lhsZeroPoint, rhsZeroPoint,
                                zeroTensor] []
                         | None \<Rightarrow>
                             Op ''linalg.batch_matmul'' (Some (getType e zeroTensor)) []
                               [collapsedLhs, collapsedRhs, zeroTensor] []);
          expandResult = Op ''tensor.expand_shape'' (Some newResultType)
                           [ReassociationAttr reassociation] [batchMatMul] [];
          cast = Op ''tensor.cast'' (Some newResultType) [] [expandResult] []
      in \<lparr> created = pre @ [collapsedLhs, collapsedRhs] @ muls @
                     [initTensor, c0, zeroTensor, batchMatMul, expandResult, cast],
           replacement = cast \<rparr>)"

definition matmulBatchGeneric ::
  "env \<Rightarrow> val \<Rightarrow> val \<Rightarrow> val list \<Rightarrow> val \<Rightarrow> val \<Rightarrow> nat \<Rightarrow> mtype \<Rightarrow> mtype \<Rightarrow> val list \<Rightarrow>
   rewrite" where
  "matmulBatchGeneric e broadcastedLhs broadcastedRhs batchShape lhsDim0 rhsDim1 batchRank
     newResultType elementType pre =
     (let lhsExpr = [0..<batchRank] @ [batchRank, batchRank + 1];
          rhsExpr = [0..<batchRank] @ [batchRank + 1, batchRank + 2];
          outExpr = [0..<batchRank] @ [batchRank, batchRank + 2];
          resultShape = batchShape @ [lhsDim0, rhsDim1];
          zeroTensor = createZeroInitTensor resultShape elementType;
          iteratorTypes = replicate batchRank parallel @ [parallel, reduction, parallel];
          mul = Op ''arith.mulf'' None [] [BlockArgument 0, BlockArgument 1] [];
          add = Op ''arith.addf'' None [] [mul, BlockArgument 2] [];
          finalRes = Op ''linalg.generic'' (Some (getType e zeroTensor))
                       [AffineMapsAttr [lhsExpr, rhsExpr, outExpr],
                        IteratorTypesAttr iteratorTypes]
                       [broadcastedLhs, broadcastedRhs, zeroTensor]
                       [mul, add, Op ''linalg.yield'' None [] [add] []];
          cast = Op ''tensor.cast'' (Some newResultType) [] [finalRes] []
      in \<lparr> created = pre @ [zeroTensor, finalRes, cast], replacement = cast \<rparr>)"

text \<open>
  \<^verbatim>\<open>lhsBroadcastToShape\<close> and \<^verbatim>\<open>rhsBroadcastToShape\<close>: the batch shape followed by the
  operand's own two matrix dimensions, each cast from index to \<open>i64\<close>.
\<close>

definition castIndexToInt64 :: "val \<Rightarrow> val" where
  "castIndexToInt64 v = Op ''castIndexToInt64'' None [] [v] []"

definition broadcastToShapeOf :: "val list \<Rightarrow> val \<Rightarrow> val \<Rightarrow> val list" where
  "broadcastToShapeOf batchShape dim0 dim1 = map castIndexToInt64 (batchShape @ [dim0, dim1])"

text \<open>
  What the fifth case computes before it looks at the result type: the broadcast batch
  shape, the matrix dimensions, the shapes and types given to \<^verbatim>\<open>broadcastToGivenShape\<close>
  and the two broadcast operands, with the operations created on the way.
\<close>

record batch_operands =
  bo_batchShape :: "val list"
  bo_lhsDim0 :: val
  bo_rhsDim1 :: val
  bo_lhsBroadcastToShape :: "val list"
  bo_rhsBroadcastToShape :: "val list"
  bo_lhsBroadcastType :: mtype
  bo_rhsBroadcastType :: mtype
  bo_broadcastedLhs :: val
  bo_broadcastedRhs :: val
  bo_created :: "val list"

definition batchOperands :: "val \<Rightarrow> val \<Rightarrow> nat \<Rightarrow> nat \<Rightarrow> mtype \<Rightarrow> mtype \<Rightarrow> batch_operands" where
  "batchOperands lhs rhs lhsRank rhsRank lhsElem rhsElem =
     (let maxRank = max lhsRank rhsRank;
          batchRank = maxRank - 2;
          steps = concat (map (batchDimStep lhs rhs lhsRank rhsRank) [1..<Suc batchRank]);
          batchShape = broadcastedBatchShape lhs rhs lhsRank rhsRank;
          lhsDim0 = getDimOp lhs (lhsRank - 2);
          lhsDim1 = getDimOp lhs (lhsRank - 1);
          rhsDim0 = getDimOp rhs (rhsRank - 2);
          rhsDim1 = getDimOp rhs (rhsRank - 1);
          check = checkDimEqualHelper lhsDim1 rhsDim0;
          lhsBroadcastToShape = broadcastToShapeOf batchShape lhsDim0 lhsDim1;
          rhsBroadcastToShape = broadcastToShapeOf batchShape rhsDim0 rhsDim1;
          casts = concat (map (\<lambda>i. [lhsBroadcastToShape ! i, rhsBroadcastToShape ! i])
                            [0..<maxRank]);
          lhsBroadcastType = RankedTensorType
                               (replicate (length lhsBroadcastToShape) kDynamic) lhsElem;
          rhsBroadcastType = RankedTensorType
                               (replicate (length rhsBroadcastToShape) kDynamic) rhsElem;
          broadcastedLhs = Op ''broadcastToGivenShape'' None [TypeAttr lhsBroadcastType]
                             (lhs # lhsBroadcastToShape) [];
          broadcastedRhs = Op ''broadcastToGivenShape'' None [TypeAttr rhsBroadcastType]
                             (rhs # rhsBroadcastToShape) []
      in \<lparr> bo_batchShape = batchShape, bo_lhsDim0 = lhsDim0, bo_rhsDim1 = rhsDim1,
           bo_lhsBroadcastToShape = lhsBroadcastToShape,
           bo_rhsBroadcastToShape = rhsBroadcastToShape,
           bo_lhsBroadcastType = lhsBroadcastType, bo_rhsBroadcastType = rhsBroadcastType,
           bo_broadcastedLhs = broadcastedLhs, bo_broadcastedRhs = broadcastedRhs,
           bo_created = steps @ [lhsDim0, lhsDim1, rhsDim0, rhsDim1, check] @ casts
                        @ [broadcastedLhs, broadcastedRhs] \<rparr>)"

text \<open>The direct batched product, when the larger rank is 3.\<close>

definition matmulBatch3 ::
  "env \<Rightarrow> batch_operands \<Rightarrow> (val \<times> val) option \<Rightarrow> mtype \<Rightarrow> mtype \<Rightarrow> val list \<Rightarrow> rewrite" where
  "matmulBatch3 e b zeroPoints newResultType elementType pre =
     (let zeroTensor = createZeroInitTensor [bo_batchShape b ! 0, bo_lhsDim0 b, bo_rhsDim1 b]
                         elementType;
          matmul = (case zeroPoints of
                      Some (lhsZeroPoint, rhsZeroPoint) \<Rightarrow>
                        Op ''linalg.quantized_batch_matmul'' (Some (getType e zeroTensor)) []
                          [bo_broadcastedLhs b, bo_broadcastedRhs b, lhsZeroPoint, rhsZeroPoint,
                           zeroTensor] []
                    | None \<Rightarrow>
                        Op ''linalg.batch_matmul'' (Some (getType e zeroTensor)) []
                          [bo_broadcastedLhs b, bo_broadcastedRhs b, zeroTensor] []);
          cast = Op ''tensor.cast'' (Some newResultType) [] [matmul] []
      in \<lparr> created = pre @ [zeroTensor, matmul, cast], replacement = cast \<rparr>)"

definition matmulBatch ::
  "env \<Rightarrow> val \<Rightarrow> val \<Rightarrow> nat \<Rightarrow> nat \<Rightarrow> mtype \<Rightarrow> mtype \<Rightarrow> (val \<times> val) option \<Rightarrow> mtype \<Rightarrow> int list \<Rightarrow>
   mtype \<Rightarrow> val list \<Rightarrow> failure + rewrite" where
  "matmulBatch e lhs rhs lhsRank rhsRank lhsElem rhsElem zeroPoints newResultType resultShape
     elementType pre =
     (let maxRank = max lhsRank rhsRank;
          batchRank = maxRank - 2
      in if batchRank \<le> 0 then Inl (MatchFailure ''expected batch dimensions'')
         else
          (let b = batchOperands lhs rhs lhsRank rhsRank lhsElem rhsElem;
               common = pre @ bo_created b
           in if \<not> broadcastToGivenShape e lhs (bo_lhsBroadcastToShape b)
                      (bo_lhsBroadcastType b)
              then Inl (MatchFailure ''unable to perform broadcast operation'')
              else if \<not> broadcastToGivenShape e rhs (bo_rhsBroadcastToShape b)
                           (bo_rhsBroadcastType b)
              then Inl (MatchFailure ''unable to perform broadcast operation'')
              else if maxRank = 3
              then Inr (matmulBatch3 e b zeroPoints newResultType elementType common)
              else if length resultShape < 2
              then Inl (Crash ''pop_back on an empty vector'')
              else
               (let batchDimsInt = butlast (butlast (makeShapeTorchCompatible resultShape));
                    multipleDynamicBatchDims = (count_list batchDimsInt kUnknownSize > 1)
                in if \<not> multipleDynamicBatchDims
                   then Inr (matmulBatchCollapsed e (bo_broadcastedLhs b) (bo_broadcastedRhs b)
                               (bo_batchShape b) (bo_lhsDim0 b) (bo_rhsDim1 b) maxRank
                               zeroPoints newResultType elementType common)
                   else Inr (matmulBatchGeneric e (bo_broadcastedLhs b) (bo_broadcastedRhs b)
                               (bo_batchShape b) (bo_lhsDim0 b) (bo_rhsDim1 b) batchRank
                               newResultType elementType common))))"

text \<open>
  The five cases on the ranks, after the quantized vector cases. \<open>pre\<close> holds the operations
  created before; \<open>zeroPoints\<close> the two zero-points when the operands are quantized. The
  last line is the \<^verbatim>\<open>return failure();\<close> that ends the pattern.
\<close>

definition matmulDispatch ::
  "env \<Rightarrow> nat \<Rightarrow> nat \<Rightarrow> mtype \<Rightarrow> mtype \<Rightarrow> mtype \<Rightarrow> int list \<Rightarrow> mtype \<Rightarrow> val list \<Rightarrow> val \<Rightarrow> val \<Rightarrow>
   (val \<times> val) option \<Rightarrow> failure + rewrite" where
  "matmulDispatch e lhsRank rhsRank lhsElem rhsElem newResultType resultShape elementType pre
     lhs rhs zeroPoints =
     (if lhsRank = 1 \<and> rhsRank = 1
      then Inr (matmulDot e lhs rhs newResultType elementType pre)
      else if lhsRank = 1 \<and> rhsRank = 2
      then Inr (matmulVecMat e lhs rhs newResultType elementType pre)
      else if lhsRank = 2 \<and> rhsRank = 1
      then Inr (matmulMatVec e lhs rhs newResultType elementType pre)
      else if lhsRank = 2 \<and> rhsRank = 2
      then Inr (matmulMatMat e lhs rhs zeroPoints newResultType elementType pre)
      else if lhsRank > 1 \<and> rhsRank > 1
      then matmulBatch e lhs rhs lhsRank rhsRank lhsElem rhsElem zeroPoints newResultType
             resultShape elementType pre
      else Inl Failure)"

definition ConvertAtenMatmulOp :: "env \<Rightarrow> matmul_op \<Rightarrow> failure + rewrite" where
  "ConvertAtenMatmulOp e op =
     (let lhs = ta_value (mt_self op); rhs = ta_value (mt_other op) in
      if \<not> verifyLinalgCompatibleTypes e then Inl Failure
      else case getType e lhs of
        RankedTensorType lhsShape lhsElem \<Rightarrow>
         (case getType e rhs of
            RankedTensorType rhsShape rhsElem \<Rightarrow>
             (let lhsRank = length lhsShape; rhsRank = length rhsShape in
              if (getZeroPoint (mt_self op) \<noteq> None) \<noteq> (getZeroPoint (mt_other op) \<noteq> None)
              then Inl (MatchFailure ''unsupported: aten.matmul with mixed quantization'')
              else if getZeroPoint (mt_self op) = None
                      \<and> ta_dtype (mt_self op) \<noteq> ta_dtype (mt_other op)
              then Inl (MatchFailure
                          ''unsupported: aten.matmul with different input element types'')
              else case mt_resultType op of
                RankedTensorType resultShape elementType \<Rightarrow>
                 (let newResultType = mt_resultType op in
                  case (ta_make (mt_self op), ta_make (mt_other op)) of
                    (Some lmake, Some rmake) \<Rightarrow>
                      (case prepareZeroPoints e (mt_self op) (mt_other op) lhs rhs
                              lhsElem rhsElem lmake rmake of
                         Inl f \<Rightarrow> Inl f
                       | Inr (lhs', rhs', lhsZeroPoint, rhsZeroPoint, c) \<Rightarrow>
                          (let lhsVec = (lhsRank = 1 \<and> rhsRank \<le> 2);
                               rhsVec = (lhsRank \<le> 2 \<and> rhsRank = 1)
                           in if lhsVec \<or> rhsVec
                              then Inr (matmulQuantizedVec e lhsVec rhsVec lhs' rhs'
                                          lhsShape lhsElem rhsShape rhsElem lhsZeroPoint
                                          rhsZeroPoint newResultType resultShape elementType c)
                              else matmulDispatch e lhsRank rhsRank lhsElem rhsElem
                                     newResultType resultShape elementType c lhs' rhs'
                                     (Some (lhsZeroPoint, rhsZeroPoint))))
                  | _ \<Rightarrow> matmulDispatch e lhsRank rhsRank lhsElem rhsElem newResultType
                           resultShape elementType [] lhs rhs None)
              | _ \<Rightarrow> Inl (Crash ''cast<RankedTensorType>(result type)''))
          | _ \<Rightarrow> Inl (Crash ''cast<RankedTensorType>(rhs type)''))
      | _ \<Rightarrow> Inl (Crash ''cast<RankedTensorType>(lhs type)''))"

subsection \<open>Reading the operations a pattern created\<close>

definition opName :: "val \<Rightarrow> opname" where
  "opName v = (case v of Op k ty as vs r \<Rightarrow> k | _ \<Rightarrow> [])"

definition isContraction :: "val \<Rightarrow> bool" where
  "isContraction v = (opName v \<in> set [''linalg.dot'', ''linalg.vecmat'', ''linalg.matvec'',
      ''linalg.matmul'', ''linalg.quantized_matmul'', ''linalg.batch_matmul'',
      ''linalg.quantized_batch_matmul'', ''linalg.generic''])"

text \<open>
  The rank of the accumulator of a contraction, its last operand: the number of sizes
  given to \<^verbatim>\<open>createZeroInitTensor\<close>, or to the \<open>tensor.empty\<close> that a \<open>linalg.fill\<close>
  fills. The result of the contraction has the accumulator's type.
\<close>

definition accumulatorSizes :: "val \<Rightarrow> nat" where
  "accumulatorSizes a =
     (case a of
        Op k ty as vs r \<Rightarrow>
          (if k = ''linalg.fill''
           then (case vs of [c, Op k' ty' as' sizes r'] \<Rightarrow> length sizes | _ \<Rightarrow> 0)
           else length vs)
      | _ \<Rightarrow> 0)"

definition accumulatorRank :: "val \<Rightarrow> nat" where
  "accumulatorRank v =
     (case v of
        Op k ty as vs r \<Rightarrow> (if vs = [] then 0 else accumulatorSizes (last vs))
      | _ \<Rightarrow> 0)"

definition contractions :: "rewrite \<Rightarrow> (opname \<times> nat) list" where
  "contractions r = map (\<lambda>v. (opName v, accumulatorRank v)) (filter isContraction (created r))"

definition outcome :: "failure + rewrite \<Rightarrow> failure + (opname \<times> nat) list" where
  "outcome x = map_sum id contractions x"

subsection \<open>The extents that the batch shape computes at run time\<close>

text \<open>
  Modelled from the spec: \<^verbatim>\<open>getDimOp\<close> and \<^verbatim>\<open>castIndexToInt64\<close> are declared outside
  this file. "Given a tensor value and a dimension index, return that dimension's extent":
  \<open>evalDim sh v\<close> is the extent that \<open>v\<close> computes when \<open>sh\<close> gives the run-time shape of
  each tensor; \<open>arith.maxui\<close> is the maximum, \<open>arith.muli\<close> the product, and the cast
  keeps the number.
\<close>

fun evalDim :: "(val \<Rightarrow> nat list) \<Rightarrow> val \<Rightarrow> nat option" where
  "evalDim sh (Op k ty as vs r) =
     (if k = ''getDimOp''
      then (case as of
              [IndexAttr i] \<Rightarrow>
                (case vs of
                   [v] \<Rightarrow> (if 0 \<le> i \<and> nat i < length (sh v) then Some (sh v ! nat i) else None)
                 | _ \<Rightarrow> None)
            | _ \<Rightarrow> None)
      else if k = ''arith.maxui''
      then (case vs of
              [a, b] \<Rightarrow>
                (case evalDim sh a of
                   Some x \<Rightarrow> (case evalDim sh b of Some y \<Rightarrow> Some (max x y) | None \<Rightarrow> None)
                 | None \<Rightarrow> None)
            | _ \<Rightarrow> None)
      else if k = ''castIndexToInt64''
      then (case vs of [a] \<Rightarrow> evalDim sh a | _ \<Rightarrow> None)
      else if k = ''arith.muli''
      then (case vs of
              [a, b] \<Rightarrow>
                (case evalDim sh a of
                   Some x \<Rightarrow> (case evalDim sh b of Some y \<Rightarrow> Some (x * y) | None \<Rightarrow> None)
                 | None \<Rightarrow> None)
            | _ \<Rightarrow> None)
      else None)"
| "evalDim sh v = None"

text \<open>
  The broadcast of two batch shapes in the words of the specification: the shapes are
  aligned at the right, and each extent is the maximum of the two aligned extents, an
  absent extent letting the other one win.
\<close>

definition broadcastBatchSpec :: "nat list \<Rightarrow> nat list \<Rightarrow> nat list" where
  "broadcastBatchSpec a b =
     (let n = max (length a) (length b)
      in map2 max (replicate (n - length a) 0 @ a) (replicate (n - length b) 0 @ b))"

definition shapesOf :: "val \<Rightarrow> nat list \<Rightarrow> val \<Rightarrow> nat list \<Rightarrow> val \<Rightarrow> nat list" where
  "shapesOf lhs ls rhs rs v = (if v = lhs then ls else if v = rhs then rs else [])"

definition i8 :: mtype where
  "i8 = IntegerType 8 Signless"

definition qint8 :: mtype where
  "qint8 = OtherType ''!torch.qint8''"

text \<open>An operand defined by a make-per-tensor-quantized-tensor operation, of dtype \<open>qint8\<close>.\<close>

definition quantArg :: "string \<Rightarrow> int list \<Rightarrow> tensor_arg" where
  "quantArg name shape =
     \<lparr> ta_value = Operand name (RankedTensorType shape i8), ta_dtype = qint8,
       ta_make = Some \<lparr> mq_self = Operand (name @ ''.int_repr'') (OtherType ''!torch.vtensor''),
                        mq_self_type = RankedTensorType shape i8,
                        mq_zero_point = Operand (name @ ''.zero_point'') (OtherType ''!torch.int''),
                        mq_zero_point_type = IntegerType 64 Signless \<rparr> \<rparr>"

definition matmulExample :: "int list \<Rightarrow> int list \<Rightarrow> int list \<Rightarrow> matmul_op" where
  "matmulExample ls rs res =
     \<lparr> mt_self = floatArg ''self'' ls, mt_other = floatArg ''other'' rs,
       mt_resultType = RankedTensorType res f32 \<rparr>"

definition matmulQuantExample :: "int list \<Rightarrow> int list \<Rightarrow> int list \<Rightarrow> matmul_op" where
  "matmulQuantExample ls rs res =
     \<lparr> mt_self = quantArg ''self'' ls, mt_other = quantArg ''other'' rs,
       mt_resultType = RankedTensorType res (IntegerType 32 Signless) \<rparr>"

text \<open>The names of the operations that the batched case creates before the contraction.\<close>

definition matmulOpNames :: "opname set" where
  "matmulOpNames = {''materializeTargetConversion'', ''arith.trunci'', ''arith.constant_int'',
     ''arith.addi'', ''createElementwiseLinalgGeneric'', ''getDimOp'', ''arith.maxui'',
     ''checkDimEqualHelper'', ''castIndexToInt64'', ''broadcastToGivenShape'', ''arith.muli''}"

subsection \<open>transposeValue\<close>

text \<open>\<^verbatim>\<open>cast<RankedTensorType>(v.getType())\<close>: the shape and the element type, when there are.\<close>

definition rankedTensor :: "env \<Rightarrow> val \<Rightarrow> (int list \<times> mtype) option" where
  "rankedTensor e v = (case getType e v of RankedTensorType shape elem \<Rightarrow> Some (shape, elem)
                                         | _ \<Rightarrow> None)"

text \<open>
  \<open>transposeValue e value perms\<close> returns the transposed value and the operations created:
  a \<open>tensor.dim\<close> for each dynamic extent of the output, the \<open>tensor.empty\<close> and the
  \<open>linalg.transpose\<close>. Reading the shape at a permutation index outside of it is a crash.
\<close>

definition transposeValue :: "env \<Rightarrow> val \<Rightarrow> int list \<Rightarrow> failure + (val \<times> val list)" where
  "transposeValue e v perms =
     (case rankedTensor e v of
        None \<Rightarrow> Inl (Crash ''cast<RankedTensorType>(value type)'')
      | Some (inShape, elem) \<Rightarrow>
          if \<exists>p \<in> set perms. p < 0 \<or> int (length inShape) \<le> p
          then Inl (Crash ''shape index out of range'')
          else
           (let outShape = map (\<lambda>p. inShape ! nat p) perms;
                dynDims = map (\<lambda>p. Op ''tensor.dim'' (Some IndexType) [IndexAttr p] [v] [])
                            (filter (\<lambda>p. inShape ! nat p = kDynamic) perms);
                outTy = RankedTensorType outShape elem;
                empty = Op ''tensor.empty'' (Some outTy) [] dynDims [];
                transpose = Op ''linalg.transpose'' (Some outTy) [PermutationAttr perms]
                              [v, empty] []
            in Inr (transpose, dynDims @ [empty, transpose])))"

subsection \<open>ConvertAtenConvolutionOp\<close>

text \<open>
  The operator as the pattern reads it. A compile-time constant that the pattern matches
  (\<^verbatim>\<open>m_TorchConstantBool\<close>, \<^verbatim>\<open>m_TorchListOfConstantInts\<close>, \<^verbatim>\<open>m_TorchConstantInt\<close>,
  \<^verbatim>\<open>getListConstructElements\<close>) is \<open>None\<close> when the match fails.
\<close>

record convolution_op =
  cv_input :: tensor_arg
  cv_weight :: tensor_arg
  cv_bias :: val
  cv_resultDTy :: mtype
  cv_resultType :: mtype
  cv_transposed :: "bool option"
  cv_padding :: "val list option"
  cv_outputPadding :: "val list option"
  cv_stride :: "int list option"
  cv_dilation :: "int list option"
  cv_groups :: "int option"
  cv_groupsValue :: val

text \<open>
  An operand defined by a make-per-tensor-quantized-tensor operation is replaced by the
  integer tensor under it, and its zero-point is converted and truncated to \<open>i32\<close>.
  Returns the operand, the zero-point (null when there is none), whether the dtype is
  unsigned, and the operations created.
\<close>

definition convUnwrap :: "env \<Rightarrow> tensor_arg \<Rightarrow> val \<times> val option \<times> bool \<times> val list" where
  "convUnwrap e a =
     (case ta_make a of
        None \<Rightarrow> (ta_value a, None, False, [])
      | Some mk \<Rightarrow>
         (let input = Op ''materializeTargetConversion'' (Some (mq_self_type mk)) []
                        [mq_self mk] [];
              zp1 = Op ''materializeTargetConversion'' (Some (mq_zero_point_type mk)) []
                      [mq_zero_point mk] [];
              zp2 = Op ''arith.trunci'' (Some i32) [] [zp1] []
          in (input, Some zp2, isUnsignedTorchType e (ta_dtype a), [input, zp1, zp2])))"

definition constantIndex :: "int \<Rightarrow> val" where
  "constantIndex n = Op ''arith.constant'' (Some IndexType) [IndexAttr n] [] []"

definition castIntToIndex :: "val \<Rightarrow> val" where
  "castIntToIndex v = Op ''castIntToIndex'' None [] [v] []"

definition castIndexToInt :: "val \<Rightarrow> val" where
  "castIndexToInt v = Op ''arith.index_cast'' (Some (IntegerType 64 Signless)) [] [v] []"

text \<open>The lambda \<^verbatim>\<open>validate\<close>: the run-time assertion that \<open>groups\<close> divides a size.\<close>

definition validate :: "val \<Rightarrow> val \<Rightarrow> string \<Rightarrow> val list" where
  "validate groups toValidate err =
     (let c0 = constantIndex 0;
          rem = Op ''arith.remsi'' (Some IndexType) [] [toValidate, groups] [];
          inputValid = Op ''arith.cmpi'' None [CmpIPredicate_eq] [c0, rem] []
      in [c0, rem, inputValid, Op ''cf.assert'' None [StringAttr err] [inputValid] []])"

text \<open>
  \<^verbatim>\<open>getTensorSizes\<close> (declared outside this file) returns one size per dimension of the
  tensor: one node per dimension.
\<close>

definition getTensorSizes :: "env \<Rightarrow> val \<Rightarrow> val list option" where
  "getTensorSizes e v =
     (case rankedTensor e v of
        None \<Rightarrow> None
      | Some (shape, elem) \<Rightarrow>
          Some (map (\<lambda>i. Op ''getTensorSizes'' None [IndexAttr (int i)] [v] [])
                  [0..<length shape]))"

text \<open>
  The fill value of the padding: the input zero-point when there is one, else a zero of the
  input element type; truncated to the input element type when its type differs.
\<close>

definition convPad :: "env \<Rightarrow> val option \<Rightarrow> mtype \<Rightarrow> failure + (val \<times> val list)" where
  "convPad e inputZp inputDTy =
     (let c = (case inputZp of
                 Some zp \<Rightarrow> []
               | None \<Rightarrow> (if isFloatType inputDTy \<or> isIntegerType inputDTy
                          then [Op ''arith.constant'' (Some inputDTy) [ZeroAttr inputDTy] [] []]
                          else []))
      in case (case inputZp of Some zp \<Rightarrow> Some zp
                             | None \<Rightarrow> (if c = [] then None else Some (hd c))) of
           None \<Rightarrow> Inl (Crash ''pad is null'')
         | Some pad \<Rightarrow>
             if getType e pad \<noteq> inputDTy
             then (if isFloatType inputDTy
                   then let t = Op ''arith.truncf'' (Some inputDTy) [] [pad] []
                        in Inr (t, c @ [t])
                   else if isIntegerType inputDTy
                   then let t = Op ''arith.trunci'' (Some inputDTy) [] [pad] []
                        in Inr (t, c @ [t])
                   else Inr (pad, c))
             else Inr (pad, c))"
text \<open>
  The transposed convolution. First the weight is transposed (dimensions 0 and 1) and
  flipped along its spatial dimensions by a \<open>linalg.generic\<close> that extracts from the old
  weight. \<open>weightInitDims\<close> are the sizes of the weight with the first two swapped.
\<close>

definition swap01 :: "'a list \<Rightarrow> 'a list" where
  "swap01 xs = (case xs of a # b # rest \<Rightarrow> b # a # rest | _ \<Rightarrow> xs)"

definition flipIndexOps :: "val list \<Rightarrow> val list \<Rightarrow> val \<Rightarrow> nat \<Rightarrow> val list" where
  "flipIndexOps weightInitDims indices c1 flipDim =
     (let inner = Op ''arith.subi'' (Some IndexType) [] [weightInitDims ! flipDim, c1] []
      in [inner, Op ''arith.subi'' (Some IndexType) [] [inner, indices ! flipDim] []])"

definition convTransposeWeight ::
  "env \<Rightarrow> val \<Rightarrow> mtype \<Rightarrow> nat \<Rightarrow> val \<Rightarrow> failure + (val \<times> val list \<times> val list)" where
  "convTransposeWeight e weight weightDTy inRank c1 =
     (case getTensorSizes e weight of
        None \<Rightarrow> Inl (Crash ''cast<RankedTensorType>(weight type)'')
      | Some sizes \<Rightarrow>
          if length sizes < 2 \<or> length sizes < inRank
          then Inl (Crash ''weight sizes index out of range'')
          else
           (let weightInitDims = swap01 sizes;
                weightInitTensor = createZeroInitTensor weightInitDims weightDTy;
                indexOps = map (\<lambda>i. Op ''linalg.index'' (Some IndexType) [IntegerAttr (int i)]
                                      [] []) [0..<inRank];
                swapped = swap01 indexOps;
                flips = map (flipIndexOps weightInitDims swapped c1) [2..<inRank];
                indices = take 2 swapped @ map last flips;
                res = Op ''tensor.extract'' None [] (weight # indices) [];
                weight' = Op ''linalg.generic'' (Some (getType e weightInitTensor))
                            [AffineMapsAttr [[0..<inRank]],
                             IteratorTypesAttr (replicate inRank parallel)]
                            [weightInitTensor]
                            (indexOps @ concat flips @ [res, Op ''linalg.yield'' None [] [res] []])
            in Inr (weight', weightInitDims, sizes @ [weightInitTensor, weight'])))"

text \<open>
  One spatial dimension \<open>i\<close> of the padded buffer of the transposed convolution: the
  operations created, of which the ninth is the offset and the last the outer size.
\<close>

definition transposePadStep ::
  "val list \<Rightarrow> val list \<Rightarrow> val list \<Rightarrow> val list \<Rightarrow> val list \<Rightarrow> val list \<Rightarrow> val \<Rightarrow> val \<Rightarrow> nat \<Rightarrow>
   val list" where
  "transposePadStep inDims weightDims strideIntValues dilationIntValues paddingIntValues
     outputPaddingIntValues c1 c2 i =
     (let inner1 = Op ''arith.subi'' (Some IndexType) [] [inDims ! i, c1] [];
          castS = castIntToIndex (strideIntValues ! i);
          inner2 = Op ''arith.muli'' (Some IndexType) [] [inner1, castS] [];
          inner3 = Op ''arith.addi'' (Some IndexType) [] [inner2, c1] [];
          offset1 = Op ''arith.subi'' (Some IndexType) [] [weightDims ! i, c1] [];
          castD = castIntToIndex (dilationIntValues ! i);
          offset2 = Op ''arith.muli'' (Some IndexType) [] [offset1, castD] [];
          castP = castIntToIndex (paddingIntValues ! i);
          offset3 = Op ''arith.subi'' (Some IndexType) [] [offset2, castP] [];
          outer1 = Op ''arith.muli'' (Some IndexType) [] [offset3, c2] [];
          outer2 = Op ''arith.addi'' (Some IndexType) [] [outer1, inner3] [];
          castO = castIntToIndex (outputPaddingIntValues ! i);
          outer3 = Op ''arith.addi'' (Some IndexType) [] [outer2, castO] []
      in [inner1, castS, inner2, inner3, offset1, castD, offset2, castP, offset3, outer1,
          outer2, castO, outer3])"

text \<open>
  What the pattern has in hand when it chooses the convolution primitive.
\<close>

record conv_state =
  cs_input :: val
  cs_weight :: val
  cs_inputZp :: "val option"
  cs_weightZp :: "val option"
  cs_paddedInput :: val
  cs_outputTensor :: val
  cs_strideInts :: "int list"
  cs_dilationInts :: "int list"
  cs_numSpatialDims :: nat
  cs_numGroups :: int
  cs_weightDTy :: mtype
  cs_accumulatorDType :: mtype
  cs_created :: "val list"

text \<open>
  Padding the input and computing the output dimensions. For the transposed convolution
  the strides become 1. Returns the weight, the padded input, the output dimensions, the
  strides and the operations created. A list shorter than the number of spatial
  dimensions is read out of range: a crash.
\<close>

definition convPadInput ::
  "env \<Rightarrow> bool \<Rightarrow> val \<Rightarrow> val \<Rightarrow> mtype \<Rightarrow> mtype \<Rightarrow> val \<Rightarrow> nat \<Rightarrow> val \<Rightarrow> val \<Rightarrow> val \<Rightarrow> val list \<Rightarrow>
   val list \<Rightarrow> val list \<Rightarrow> val list \<Rightarrow> val list \<Rightarrow> val list \<Rightarrow> int list \<Rightarrow>
   failure + (val \<times> val \<times> val list \<times> int list \<times> val list)" where
  "convPadInput e transposed input weight inputDTy weightDTy pad inRank inBatch inChannels
     weightBatch inDims weightDims paddingIntValues outputPaddingIntValues strideIntValues
     dilationIntValues strideInts =
     (let numSpatialDims = inRank - 2 in
      if length paddingIntValues < numSpatialDims \<or> length dilationIntValues < numSpatialDims
         \<or> length strideIntValues < numSpatialDims
         \<or> (transposed \<and> length outputPaddingIntValues < numSpatialDims)
      then Inl (Crash ''parameter list index out of range'')
      else if transposed
      then
       (let c0 = constantIndex 0; c1 = constantIndex 1; c2 = constantIndex 2
        in case convTransposeWeight e weight weightDTy inRank c1 of
             Inl f \<Rightarrow> Inl f
           | Inr (weight', weightInitDims, cw) \<Rightarrow>
              (case getTensorSizes e input of
                 None \<Rightarrow> Inl (Crash ''cast<RankedTensorType>(input type)'')
               | Some insertSizes \<Rightarrow>
                  (let steps = map (transposePadStep inDims weightDims strideIntValues
                                      dilationIntValues paddingIntValues outputPaddingIntValues
                                      c1 c2) [0..<numSpatialDims];
                       outerSizes = [inBatch, inChannels] @ map last steps;
                       offsets = [c0, c0] @ map (\<lambda>s. s ! 8) steps;
                       initTensor = Op ''createInitTensor'' None [TypeAttr inputDTy]
                                      (outerSizes @ [pad]) [];
                       strideCasts = map castIntToIndex strideIntValues;
                       strideIndexValues = [c1, c1] @ strideCasts;
                       unsized = Op ''removeSizeInformation'' None [] [input] [];
                       paddedInput = Op ''tensor.insert_slice'' None []
                                       ([unsized, initTensor] @ offsets @ insertSizes
                                        @ strideIndexValues) [];
                       outs = map (\<lambda>i.
                                [castIndexToInt (weightDims ! i),
                                 Op ''getOutputDimForConvTransposeOps'' None []
                                   [inDims ! i, paddingIntValues ! i, dilationIntValues ! i,
                                    castIndexToInt (weightDims ! i), strideIntValues ! i,
                                    outputPaddingIntValues ! i] []]) [0..<numSpatialDims];
                       outDims = [inBatch, hd weightInitDims] @ map last outs
                   in Inr (weight', paddedInput, outDims, replicate numSpatialDims 1,
                           [c0, c1, c2] @ cw @ concat steps @ [initTensor] @ strideCasts
                           @ insertSizes @ [unsized, paddedInput] @ concat outs))))
      else
       (let paddedInput = Op ''getDynamicZeroPaddedTensor'' None [IntegerAttr 2]
                            ([input] @ paddingIntValues @ [pad]) [];
            outs = map (\<lambda>i.
                     [castIndexToInt (weightDims ! i),
                      Op ''getOutputDimForConvOps'' None []
                        [inDims ! i, paddingIntValues ! i, dilationIntValues ! i,
                         castIndexToInt (weightDims ! i), strideIntValues ! i] []])
                     [0..<numSpatialDims];
            outDims = [inBatch, weightBatch] @ map last outs
        in Inr (weight, paddedInput, outDims, strideInts, [paddedInput] @ concat outs)))"

text \<open>
  The accumulator: filled with zero when there is no bias, else the bias broadcast along
  every dimension but the channels. The tests on the bias read the type of the operand;
  \<^verbatim>\<open>convertTensorToElementType\<close> returns a tensor of the same rank.
\<close>

definition convOutputTensor ::
  "env \<Rightarrow> val \<Rightarrow> mtype \<Rightarrow> mtype \<Rightarrow> val list \<Rightarrow> failure + (val \<times> val list)" where
  "convOutputTensor e bias accumulatorDType resultDTy outDims =
     (let initTensor = Op ''tensor.empty'' None [TypeAttr accumulatorDType] outDims [];
          biasIsNone = (getType e bias = TorchNoneType);
          conv = (if accumulatorDType \<noteq> resultDTy \<and> \<not> biasIsNone
                  then [Op ''convertTensorToElementType'' None [TypeAttr accumulatorDType]
                          [bias] []]
                  else []);
          bias' = (if conv = [] then bias else hd conv)
      in if biasIsNone
         then (if isFloatType accumulatorDType \<or> isIntegerType accumulatorDType
               then let c0 = Op ''arith.constant'' (Some accumulatorDType)
                               [ZeroAttr accumulatorDType] [] [];
                        outputTensor = Op ''linalg.fill'' None [] [c0, initTensor] []
                    in Inr (outputTensor, [initTensor] @ conv @ [c0, outputTensor])
               else Inl (Crash ''fill value is null''))
         else (case rankedTensor e bias of
                 None \<Rightarrow> Inl (Crash ''cast<RankedTensorType>(bias type)'')
               | Some (biasShape, biasElem) \<Rightarrow>
                   if length biasShape \<noteq> 1
                   then Inl (MatchFailure ''expect bias to be rank 1'')
                   else
                    (let addedDimensions = filter (\<lambda>i. i \<noteq> 1)
                                             (map int [0..<length outDims]);
                         outputTensor = Op ''linalg.broadcast'' None
                                          [DimensionsAttr addedDimensions]
                                          [bias', initTensor] []
                     in Inr (outputTensor, [initTensor] @ conv @ [outputTensor]))))"
text \<open>
  The check on the bias of a quantized convolution: with an input zero-point and a bias
  that is not \<open>None\<close>, the element type of the bias must be an integer of 32 bits.
\<close>

definition convBiasCheck :: "env \<Rightarrow> val option \<Rightarrow> val \<Rightarrow> failure option" where
  "convBiasCheck e inputZp bias =
     (if inputZp \<noteq> None \<and> getType e bias \<noteq> TorchNoneType
      then (case rankedTensor e bias of
              None \<Rightarrow> Some (Crash ''cast<RankedTensorType>(bias type)'')
            | Some (biasShape, biasDTy) \<Rightarrow>
                (if \<not> isInteger biasDTy 32
                 then Some (MatchFailure ''quantized result ty should be i32 accumulator'')
                 else None))
      else None)"

text \<open>
  The operands: unwrapped from their quantized construction, with the checks on the
  zero-points, the bias, the \<open>transposed\<close> flag, the element types and the rank.
  \<^verbatim>\<open>numSpatialDims\<close> is a \<^verbatim>\<open>size_t\<close>: for a rank below 2 the subtraction wraps to a
  number above 3, and the same failure is reported.
\<close>

record conv_operands =
  co_input :: val
  co_weight :: val
  co_inputZp :: "val option"
  co_weightZp :: "val option"
  co_inputUnsigned :: bool
  co_weightUnsigned :: bool
  co_transposed :: bool
  co_inRank :: nat
  co_inputDTy :: mtype
  co_weightDTy :: mtype
  co_created :: "val list"

definition convOperands :: "env \<Rightarrow> convolution_op \<Rightarrow> failure + conv_operands" where
  "convOperands e op =
     (case convUnwrap e (cv_input op) of (input, inputZp, inputUnsigned, cIn) \<Rightarrow>
       (case convUnwrap e (cv_weight op) of (weight, weightZp, weightUnsigned, cW) \<Rightarrow>
         (if (inputZp \<noteq> None) \<noteq> (weightZp \<noteq> None)
          then Inl (MatchFailure ''lhs and rhs of convolution must either be both int or fp'')
          else
           (case convBiasCheck e inputZp (cv_bias op) of
              Some f \<Rightarrow> Inl f
            | None \<Rightarrow>
               (case cv_transposed op of
                  None \<Rightarrow> Inl (MatchFailure
                                ''unimplemented: only constant transposed supported'')
                | Some transposed \<Rightarrow>
                   (case rankedTensor e input of
                      None \<Rightarrow> Inl (Crash ''cast<RankedTensorType>(input type)'')
                    | Some (inShape, inputDTy) \<Rightarrow>
                       (case rankedTensor e weight of
                          None \<Rightarrow> Inl (Crash ''cast<RankedTensorType>(weight type)'')
                        | Some (wShape, weightDTy) \<Rightarrow>
                           (if \<not> (isFloatType inputDTy \<or> isIntegerType inputDTy)
                               \<or> \<not> (isFloatType weightDTy \<or> isIntegerType weightDTy)
                               \<or> \<not> (isFloatType (cv_resultDTy op)
                                      \<or> isIntegerType (cv_resultDTy op))
                            then Inl (EmitError ''unimplemented: non-fp not-int type'')
                            else if length inShape < 2 \<or> length inShape - 2 < 1
                                    \<or> length inShape - 2 > 3
                            then Inl (MatchFailure
                                  ''unimplemented: only 1d-3d convolution currently supported'')
                            else Inr \<lparr> co_input = input, co_weight = weight,
                                       co_inputZp = inputZp, co_weightZp = weightZp,
                                       co_inputUnsigned = inputUnsigned,
                                       co_weightUnsigned = weightUnsigned,
                                       co_transposed = transposed,
                                       co_inRank = length inShape,
                                       co_inputDTy = inputDTy, co_weightDTy = weightDTy,
                                       co_created = cIn @ cW \<rparr>))))))))"

text \<open>
  The parameters that must be constants or list constructs, in the order in which the
  pattern matches them. The group count is matched after the dimensions of the operands
  are taken, which creates operations but cannot fail.
\<close>

record conv_params =
  cp_padding :: "val list"
  cp_outputPadding :: "val list"
  cp_strideInts :: "int list"
  cp_dilationInts :: "int list"
  cp_numGroups :: int

definition convParams :: "convolution_op \<Rightarrow> failure + conv_params" where
  "convParams op =
     (case cv_padding op of
        None \<Rightarrow> Inl (MatchFailure ''only support padding from a list construct'')
      | Some padding \<Rightarrow>
         (case cv_outputPadding op of
            None \<Rightarrow> Inl (MatchFailure ''only support output_padding from a list construct'')
          | Some outputPadding \<Rightarrow>
             (case cv_stride op of
                None \<Rightarrow> Inl (MatchFailure ''only support constant int strides'')
              | Some strideInts \<Rightarrow>
                 (case cv_dilation op of
                    None \<Rightarrow> Inl (MatchFailure ''only support constant int dilations'')
                  | Some dilationInts \<Rightarrow>
                     (case cv_groups op of
                        None \<Rightarrow> Inl (MatchFailure ''only constant group size supported.'')
                      | Some numGroups \<Rightarrow>
                          Inr \<lparr> cp_padding = padding, cp_outputPadding = outputPadding,
                                cp_strideInts = strideInts, cp_dilationInts = dilationInts,
                                cp_numGroups = numGroups \<rparr>)))))"

text \<open>\<^verbatim>\<open>signShift\<close> is called only for an integer element type, with its width.\<close>

definition convSignShift ::
  "env \<Rightarrow> mtype \<Rightarrow> val \<Rightarrow> val option \<Rightarrow> bool \<Rightarrow> failure + (val \<times> val option \<times> val list)" where
  "convSignShift e dty arg zp isUnsigned =
     (case dty of
        IntegerType w s \<Rightarrow> signShift e arg zp isUnsigned (int w)
      | _ \<Rightarrow> Inr (arg, zp, []))"

definition bindR :: "failure + 'a \<Rightarrow> ('a \<Rightarrow> failure + 'b) \<Rightarrow> failure + 'b" where
  "bindR x f = (case x of Inl err \<Rightarrow> Inl err | Inr a \<Rightarrow> f a)"

text \<open>
  The first part of the pattern, up to the choice of the primitive: every early failure,
  the run-time assertions on the group count, the sign shift, the padding and the
  accumulator.
\<close>

definition convPrepare :: "env \<Rightarrow> convolution_op \<Rightarrow> failure + conv_state" where
  "convPrepare e op =
     bindR (convOperands e op) (\<lambda>co.
     bindR (convParams op) (\<lambda>cp.
       (let input = co_input co; weight = co_weight co; inRank = co_inRank co;
            paddingIntValues = map (\<lambda>v. Op ''getTypeConvertedValues'' None [] [v] [])
                                 (cp_padding cp);
            outputPaddingIntValues = map (\<lambda>v. Op ''getTypeConvertedValues'' None [] [v] [])
                                       (cp_outputPadding cp);
            inBatch = getDimOp input 0;
            inChannels = getDimOp input 1;
            inDims = map (getDimOp input) [2..<inRank];
            weightBatch = getDimOp weight 0;
            weightChannels = getDimOp weight 1;
            weightDims = map (getDimOp weight) [2..<inRank];
            groups = castIntToIndex (cv_groupsValue op);
            checks = validate groups inChannels
                       ''invalid: groups must divide input channel size evenly.''
                     @ validate groups weightBatch
                       ''invalid: groups must divide weight batch size evenly.'';
            dilationIntValues = map (\<lambda>d. Op ''getAsConstantIntValues'' None [IntegerAttr d]
                                          [] []) (cp_dilationInts cp);
            strideIntValues = map (\<lambda>d. Op ''getAsConstantIntValues'' None [IntegerAttr d]
                                        [] []) (cp_strideInts cp);
            before = co_created co @ paddingIntValues @ outputPaddingIntValues
                     @ [inBatch, inChannels] @ inDims @ [weightBatch, weightChannels]
                     @ weightDims @ [groups] @ checks @ dilationIntValues @ strideIntValues;
            accumulatorDType = getDefaultAccType e (co_inputDTy co)
        in
     bindR (convSignShift e (co_inputDTy co) input (co_inputZp co) (co_inputUnsigned co))
       (\<lambda>(input', inputZp', cSI).
     bindR (convSignShift e (co_weightDTy co) weight (co_weightZp co) (co_weightUnsigned co))
       (\<lambda>(weight', weightZp', cSW).
     bindR (convPad e inputZp' (co_inputDTy co)) (\<lambda>(pad, cPad).
     bindR (convPadInput e (co_transposed co) input' weight' (co_inputDTy co)
              (co_weightDTy co) pad inRank inBatch inChannels weightBatch inDims weightDims
              paddingIntValues outputPaddingIntValues strideIntValues dilationIntValues
              (cp_strideInts cp))
       (\<lambda>(weight'', paddedInput, outDims, strideInts', cPI).
     bindR (convOutputTensor e (cv_bias op) accumulatorDType (cv_resultDTy op) outDims)
       (\<lambda>(outputTensor, cOut).
         Inr \<lparr> cs_input = input', cs_weight = weight'', cs_inputZp = inputZp',
               cs_weightZp = weightZp', cs_paddedInput = paddedInput,
               cs_outputTensor = outputTensor, cs_strideInts = strideInts',
               cs_dilationInts = cp_dilationInts cp, cs_numSpatialDims = inRank - 2,
               cs_numGroups = cp_numGroups cp, cs_weightDTy = co_weightDTy co,
               cs_accumulatorDType = accumulatorDType,
               cs_created = before @ cSI @ cSW @ cPad @ cPI @ cOut
                            @ [Op ''arith.floordivsi'' (Some IndexType) []
                                 [inChannels, groups] [],
                               Op ''arith.floordivsi'' (Some IndexType) []
                                 [weightBatch, groups] [],
                               constantIndex 0, constantIndex 1] \<rparr>))))))))"
text \<open>
  The end of every branch: the result is converted to the result element type when the
  accumulator has another one, and cast to the result type, which replaces the operator.
\<close>

definition convFinish ::
  "env \<Rightarrow> convolution_op \<Rightarrow> conv_state \<Rightarrow> val list \<Rightarrow> val \<Rightarrow> failure + rewrite" where
  "convFinish e op st ops conv =
     (if cs_accumulatorDType st \<noteq> cv_resultDTy op
      then (case cv_resultType op of
              RankedTensorType shape resultElementType \<Rightarrow>
                (let conv' = Op ''convertTensorToElementType'' None [TypeAttr resultElementType]
                               [conv] [];
                     cast = Op ''tensor.cast'' (Some (cv_resultType op)) [] [conv'] []
                 in Inr \<lparr> created = cs_created st @ ops @ [conv', cast], replacement = cast \<rparr>)
            | _ \<Rightarrow> Inl (Crash ''cast<RankedTensorType>(result type)''))
      else (let cast = Op ''tensor.cast'' (Some (cv_resultType op)) [] [conv] []
            in Inr \<lparr> created = cs_created st @ ops @ [cast], replacement = cast \<rparr>))"

definition convAttrs :: "conv_state \<Rightarrow> attr list" where
  "convAttrs st = [I64VectorAttr (cs_strideInts st), I64VectorAttr (cs_dilationInts st)]"

text \<open>Case 1: one group, no zero-point: the named convolution of the spatial rank.\<close>

definition convDirect :: "env \<Rightarrow> convolution_op \<Rightarrow> conv_state \<Rightarrow> failure + rewrite" where
  "convDirect e op st =
     (let name = (if cs_numSpatialDims st = 1 then Some ''linalg.conv_1d_ncw_fcw''
                  else if cs_numSpatialDims st = 2 then Some ''linalg.conv_2d_nchw_fchw''
                  else if cs_numSpatialDims st = 3 then Some ''linalg.conv_3d_ncdhw_fcdhw''
                  else None)
      in case name of
           None \<Rightarrow> Inl (MatchFailure
                         ''unimplemented: only 1D, 2D, and 3D convolution supported'')
         | Some k \<Rightarrow>
            (let conv = Op k (Some (getType e (cs_outputTensor st))) (convAttrs st)
                          [cs_paddedInput st, cs_weight st, cs_outputTensor st] []
             in convFinish e op st [conv] conv))"

text \<open>
  Case 2: one group, with zero-points: the operands are permuted to the channel-last
  layout, convolved by the quantized primitive, and the result is permuted back.
\<close>

definition convQuantized ::
  "env \<Rightarrow> convolution_op \<Rightarrow> conv_state \<Rightarrow> val \<Rightarrow> val \<Rightarrow> failure + rewrite" where
  "convQuantized e op st inputZp weightZp =
     (let n = cs_numSpatialDims st;
          spatial = map (\<lambda>i. int i + 2) [0..<n];
          inPerms = [0] @ spatial @ [1];
          weightPerms = spatial @ [1, 0];
          outPerms = [0, int (length inPerms) - 1] @ map (\<lambda>i. int i + 1) [0..<n];
          name = (if n = 2 then Some ''linalg.conv_2d_nhwc_hwcf_q''
                  else if n = 3 then Some ''linalg.conv_3d_ndhwc_dhwcf_q''
                  else None)
      in
      bindR (transposeValue e (cs_paddedInput st) inPerms) (\<lambda>(paddedInput, c1).
      bindR (transposeValue e (cs_weight st) weightPerms) (\<lambda>(weight, c2).
      bindR (transposeValue e (cs_outputTensor st) inPerms) (\<lambda>(outputTensor, c3).
        (case name of
           None \<Rightarrow> Inl (MatchFailure
                         ''unimplemented: only 1D, 2D, and 3D convolution supported'')
         | Some k \<Rightarrow>
            (let conv = Op k (Some (getType e outputTensor)) (convAttrs st)
                          [paddedInput, weight, inputZp, weightZp, outputTensor] []
             in bindR (transposeValue e conv outPerms) (\<lambda>(conv', c4).
                  convFinish e op st (c1 @ c2 @ c3 @ [conv] @ c4) conv')))))))"

text \<open>
  Case 3, the depthwise special case: the first two dimensions of the weight are
  collapsed into one, and the depthwise primitive is used: 1-D or 2-D without
  zero-points, 2-D only with zero-points, in the channel-last layout.
\<close>

definition convDepthwise ::
  "env \<Rightarrow> convolution_op \<Rightarrow> conv_state \<Rightarrow> int list \<Rightarrow> failure + rewrite" where
  "convDepthwise e op st weightShape =
     (let n = cs_numSpatialDims st in
      if length weightShape < n + 2
      then Inl (Crash ''weight shape index out of range'')
      else
       (let collapsedDims = [[0, 1]] @ map (\<lambda>i. [i + 2]) [0..<n];
            collapsedShape = [weightShape ! 0 * weightShape ! 1]
                             @ map (\<lambda>i. weightShape ! (i + 2)) [0..<n];
            collapsedType = RankedTensorType (makeShapeLLVMCompatible collapsedShape)
                              (cs_weightDTy st);
            collapsedWeight = Op ''tensor.collapse_shape'' (Some collapsedType)
                                [ReassociationAttr collapsedDims] [cs_weight st] []
        in case (cs_inputZp st, cs_weightZp st) of
             (Some inputZp, Some weightZp) \<Rightarrow>
               (if n \<noteq> 2
                then Inl (MatchFailure (''unimplemented: only 2D depthwise quantized convolution ''
                            @ ''supported for special case of group convolution''))
                else
                 (let inPerms = [0] @ map (\<lambda>i. int i + 2) [0..<n] @ [1];
                      weightPerms = map (\<lambda>i. int i + 1) [0..<n] @ [0];
                      resultPerms = [0, int n + 1] @ map (\<lambda>i. int i + 1) [0..<n]
                  in
                  bindR (transposeValue e (cs_paddedInput st) inPerms) (\<lambda>(paddedInput, c1).
                  bindR (transposeValue e collapsedWeight weightPerms) (\<lambda>(weight, c2).
                  bindR (transposeValue e (cs_outputTensor st) inPerms)
                    (\<lambda>(outputTensor, c3).
                    (let conv = Op ''linalg.depthwise_conv_2d_nhwc_hwc_q''
                                  (Some (getType e outputTensor)) (convAttrs st)
                                  [paddedInput, weight, inputZp, weightZp, outputTensor] []
                     in bindR (transposeValue e conv resultPerms) (\<lambda>(conv', c4).
                          convFinish e op st
                            ([collapsedWeight] @ c1 @ c2 @ c3 @ [conv] @ c4) conv')))))))
           | (Some inputZp, None) \<Rightarrow> Inl (Crash ''weight zero-point is null'')
           | (None, w) \<Rightarrow>
               (let name = (if n = 1 then Some ''linalg.depthwise_conv_1d_ncw_cw''
                            else if n = 2 then Some ''linalg.depthwise_conv_2d_nchw_chw''
                            else None)
                in case name of
                     None \<Rightarrow> Inl (MatchFailure
                                  (''unimplemented: only 1D and 2D depthwise convolution ''
                                   @ ''supported for special case of group convolution''))
                   | Some k \<Rightarrow>
                      (let conv = Op k (Some (getType e (cs_outputTensor st))) (convAttrs st)
                                    [cs_paddedInput st, collapsedWeight, cs_outputTensor st] []
                       in convFinish e op st [collapsedWeight, conv] conv))))"
text \<open>
  Case 4, the general grouped convolution, two spatial dimensions only. The division of
  \<^verbatim>\<open>int64_t\<close> truncates towards zero and is undefined for a zero divisor.
\<close>

definition truncDiv :: "int \<Rightarrow> int \<Rightarrow> int" where
  "truncDiv a b = sgn a * sgn b * (\<bar>a\<bar> div \<bar>b\<bar>)"

definition groupExtent :: "int \<Rightarrow> int \<Rightarrow> int" where
  "groupExtent numGroups d = (if d = kUnknownSize then kUnknownSize else truncDiv d numGroups)"

text \<open>
  The lambda \<^verbatim>\<open>expandGroups\<close>: the dimension \<open>dim\<close> is split into the groups and the rest;
  the group count is inserted before dimension 1 of the shape.
\<close>

definition expandGroupsShape :: "int \<Rightarrow> int list \<Rightarrow> nat \<Rightarrow> int list" where
  "expandGroupsShape numGroups inShape dim =
     concat (map (\<lambda>i. (if i = 1 then [numGroups] else [])
                       @ [if i = dim then groupExtent numGroups (inShape ! i) else inShape ! i])
               [0..<length inShape])"

definition expandGroupsIndices :: "nat \<Rightarrow> nat \<Rightarrow> nat list list" where
  "expandGroupsIndices rank dim =
     map (\<lambda>i. if i = dim then [i, i + 1] else [i])
       (filter (\<lambda>i. i \<noteq> dim + 1) [0..<rank + 1])"

definition expandGroups :: "env \<Rightarrow> int \<Rightarrow> val \<Rightarrow> nat \<Rightarrow> failure + val" where
  "expandGroups e numGroups tensor dim =
     (case rankedTensor e tensor of
        None \<Rightarrow> Inl (Crash ''cast<RankedTensorType>(tensor type)'')
      | Some (shape, elem) \<Rightarrow>
         (let inShape = makeShapeTorchCompatible shape in
          if dim < length inShape \<and> inShape ! dim \<noteq> kUnknownSize \<and> numGroups = 0
          then Inl (Crash ''division by zero'')
          else Inr (Op ''tensor.expand_shape''
                      (Some (RankedTensorType
                               (makeShapeLLVMCompatible (expandGroupsShape numGroups inShape dim))
                               elem))
                      [ReassociationAttr (expandGroupsIndices (length inShape) dim)]
                      [tensor] [])))"

definition expandWeight :: "env \<Rightarrow> int \<Rightarrow> val \<Rightarrow> failure + val" where
  "expandWeight e numGroups tensor =
     (case rankedTensor e tensor of
        None \<Rightarrow> Inl (Crash ''cast<RankedTensorType>(tensor type)'')
      | Some (shape, elem) \<Rightarrow>
         (let inShape = makeShapeTorchCompatible shape in
          if inShape = [] then Inl (Crash ''shape index out of range'')
          else if hd inShape \<noteq> kUnknownSize \<and> numGroups = 0
          then Inl (Crash ''division by zero'')
          else Inr (Op ''tensor.expand_shape''
                      (Some (RankedTensorType
                               (makeShapeLLVMCompatible
                                  ([numGroups, groupExtent numGroups (hd inShape)] @ tl inShape))
                               elem))
                      [ReassociationAttr ([[0, 1]] @ map (\<lambda>i. [i]) [2..<length inShape + 1])]
                      [tensor] [])))"

definition convGrouped :: "env \<Rightarrow> convolution_op \<Rightarrow> conv_state \<Rightarrow> failure + rewrite" where
  "convGrouped e op st =
     (if cs_numSpatialDims st \<noteq> 2
      then Inl (MatchFailure ''unimplemented: only 2D grouped convolution supported'')
      else
       bindR (expandGroups e (cs_numGroups st) (cs_paddedInput st) 1) (\<lambda>paddedInputExpanded.
       bindR (expandWeight e (cs_numGroups st) (cs_weight st)) (\<lambda>weightExpanded.
       bindR (expandGroups e (cs_numGroups st) (cs_outputTensor st) 1) (\<lambda>expandOutputTensor.
         (case (cs_inputZp st, cs_weightZp st, rankedTensor e (cs_outputTensor st)) of
            (Some inputZp, None, r) \<Rightarrow> Inl (Crash ''weight zero-point is null'')
          | (zp, w, None) \<Rightarrow> Inl (Crash ''cast<RankedTensorType>(tensor type)'')
          | (zp, w, Some (outShape, outElem)) \<Rightarrow>
             (let conv = (case zp of
                            None \<Rightarrow>
                              Op ''linalg.conv_2d_ngchw_gfchw''
                                (Some (getType e expandOutputTensor)) (convAttrs st)
                                [paddedInputExpanded, weightExpanded, expandOutputTensor] []
                          | Some inputZp \<Rightarrow>
                              Op ''linalg.conv_2d_ngchw_gfchw_q''
                                (Some (getType e expandOutputTensor)) (convAttrs st)
                                [paddedInputExpanded, weightExpanded, inputZp, the w,
                                 expandOutputTensor] []);
                  collapsed = Op ''tensor.collapse_shape''
                                (Some (getType e (cs_outputTensor st)))
                                [ReassociationAttr
                                   (expandGroupsIndices
                                      (length (makeShapeTorchCompatible outShape)) 1)]
                                [conv] []
              in convFinish e op st
                   [paddedInputExpanded, weightExpanded, expandOutputTensor, conv, collapsed]
                   collapsed))))))"

text \<open>
  The test of the depthwise special case, on the shapes of the input and of the weight as
  they are at this point. The conjunction is evaluated from the left, and reading a shape
  beyond its rank is a crash.
\<close>

definition isDepthwise :: "int list \<Rightarrow> int list \<Rightarrow> int \<Rightarrow> bool option" where
  "isDepthwise inShape weightShape numGroups =
     (if length inShape < 2 then None
      else if inShape ! 1 \<noteq> numGroups then Some False
      else if length weightShape < 1 then None
      else if weightShape ! 0 \<noteq> numGroups then Some False
      else if length weightShape < 2 then None
      else Some (weightShape ! 1 = 1))"

text \<open>The choice of the primitive, in the order of the source.\<close>

definition convDispatch :: "env \<Rightarrow> convolution_op \<Rightarrow> conv_state \<Rightarrow> failure + rewrite" where
  "convDispatch e op st =
     (if cs_numGroups st = 1 \<and> cs_inputZp st = None then convDirect e op st
      else if cs_numGroups st = 1 \<and> cs_inputZp st \<noteq> None
      then (case cs_weightZp st of
              None \<Rightarrow> Inl (Crash ''weight zero-point is null'')
            | Some weightZp \<Rightarrow> convQuantized e op st (the (cs_inputZp st)) weightZp)
      else
       (case (rankedTensor e (cs_input st), rankedTensor e (cs_weight st)) of
          (None, w) \<Rightarrow> Inl (Crash ''cast<RankedTensorType>(input type)'')
        | (Some i, None) \<Rightarrow> Inl (Crash ''cast<RankedTensorType>(weight type)'')
        | (Some (inShape, inElem), Some (weightShape, weightElem)) \<Rightarrow>
           (case isDepthwise (makeShapeTorchCompatible inShape)
                   (makeShapeTorchCompatible weightShape) (cs_numGroups st) of
              None \<Rightarrow> Inl (Crash ''shape index out of range'')
            | Some True \<Rightarrow> convDepthwise e op st (makeShapeTorchCompatible weightShape)
            | Some False \<Rightarrow> convGrouped e op st)))"

definition ConvertAtenConvolutionOp :: "env \<Rightarrow> convolution_op \<Rightarrow> failure + rewrite" where
  "ConvertAtenConvolutionOp e op = bindR (convPrepare e op) (convDispatch e op)"
subsection \<open>Reading the outcome of the convolution pattern\<close>

text \<open>
  A failure that leaves the operator to another pattern: \<^verbatim>\<open>failure()\<close> or
  \<^verbatim>\<open>notifyMatchFailure\<close>; an emitted error and a crash are not.
\<close>

fun isMatchFailure :: "failure \<Rightarrow> bool" where
  "isMatchFailure Failure = True"
| "isMatchFailure (MatchFailure m) = True"
| "isMatchFailure (EmitError m) = False"
| "isMatchFailure (Crash m) = False"

text \<open>The convolution primitives of the pattern, and those that it created.\<close>

definition convPrimitives :: "opname list" where
  "convPrimitives =
     [''linalg.conv_1d_ncw_fcw'', ''linalg.conv_2d_nchw_fchw'', ''linalg.conv_3d_ncdhw_fcdhw'',
      ''linalg.conv_2d_nhwc_hwcf_q'', ''linalg.conv_3d_ndhwc_dhwcf_q'',
      ''linalg.depthwise_conv_1d_ncw_cw'', ''linalg.depthwise_conv_2d_nchw_chw'',
      ''linalg.depthwise_conv_2d_nhwc_hwc_q'',
      ''linalg.conv_2d_ngchw_gfchw'', ''linalg.conv_2d_ngchw_gfchw_q'']"

definition isConvolution :: "val \<Rightarrow> bool" where
  "isConvolution v = (opName v \<in> set convPrimitives)"

definition convolutions :: "rewrite \<Rightarrow> val list" where
  "convolutions r = filter isConvolution (created r)"

fun operands :: "val \<Rightarrow> val list" where
  "operands (Op k t as vs r) = vs"
| "operands v = []"


definition convExample ::
  "tensor_arg \<Rightarrow> tensor_arg \<Rightarrow> val \<Rightarrow> mtype \<Rightarrow> int \<Rightarrow> convolution_op" where
  "convExample input weight bias resultDTy groups =
     \<lparr> cv_input = input, cv_weight = weight, cv_bias = bias, cv_resultDTy = resultDTy,
       cv_resultType = RankedTensorType [kDynamic, kDynamic, kDynamic, kDynamic] resultDTy,
       cv_transposed = Some False,
       cv_padding = Some [Operand ''padding0'' (OtherType ''!torch.int''),
                          Operand ''padding1'' (OtherType ''!torch.int'')],
       cv_outputPadding = Some [Operand ''output_padding0'' (OtherType ''!torch.int''),
                                Operand ''output_padding1'' (OtherType ''!torch.int'')],
       cv_stride = Some [1, 1], cv_dilation = Some [1, 1], cv_groups = Some groups,
       cv_groupsValue = Operand ''groups'' (IntegerType 64 Signless) \<rparr>"

definition noBias :: val where
  "noBias = Operand ''bias'' TorchNoneType"


definition i32Bias :: val where
  "i32Bias = Operand ''bias'' (RankedTensorType [4] i32)"


subsection \<open>Reading the batched matrix product\<close>


text \<open>
  The calls of \<^verbatim>\<open>broadcastToGivenShape\<close> among the operations created: the tensor that is
  broadcast, the type asked for, and the extents that the shape operands compute at run
  time.
\<close>

definition isBroadcast :: "val \<Rightarrow> bool" where
  "isBroadcast v = (opName v = ''broadcastToGivenShape'')"


text \<open>
  The extents of the accumulator of a contraction, its last operand: those of the sizes
  given to \<^verbatim>\<open>createZeroInitTensor\<close>, or to the \<open>tensor.empty\<close> that a \<open>linalg.fill\<close> fills.
\<close>

definition accumulatorExtents :: "(val \<Rightarrow> nat list) \<Rightarrow> val \<Rightarrow> nat option list" where
  "accumulatorExtents sh v =
     (if operands v = [] then []
      else case last (operands v) of
             Op k ty as vs r \<Rightarrow>
               (if k = ''linalg.fill''
                then (case vs of
                        [c, Op k' ty' as' sizes r'] \<Rightarrow> map (evalDim sh) sizes
                      | _ \<Rightarrow> [])
                else map (evalDim sh) vs)
           | _ \<Rightarrow> [])"

text \<open>Examples of batched products: a result type with two dynamic batch dimensions.\<close>

definition matmulDynExample :: matmul_op where
  "matmulDynExample =
     \<lparr> mt_self = floatArg ''self'' [kDynamic, kDynamic, 4, 5],
       mt_other = floatArg ''other'' [kDynamic, kDynamic, 5, 6],
       mt_resultType = RankedTensorType [kDynamic, kDynamic, 4, 6] f32 \<rparr>"

section \<open>Theorems\<close>

subsection \<open>aten.mm: the contracting dimensions are checked at run time\<close>

lemma filter_mmContractingDimCheck:
  "filter isAssertOp (mmContractingDimCheck e lhs rhs) =
     (if isAssumingStrictSymbolicShapes e then [] else [mmAssertOp lhs rhs])"
  by (simp add: mmContractingDimCheck_def isAssertOp_def mmAssertOp_def Let_def)

lemma signShift_no_assert:
  "signShift e arg zp u n = Inr (arg', zp', c) \<Longrightarrow> filter isAssertOp c = []"
  by (auto simp: signShift_def isAssertOp_def Let_def
           split: if_splits option.splits mtype.splits)

lemma prepareZeroPoints_no_assert:
  "prepareZeroPoints e self other lhs rhs le re lm rm = Inr (lhs', rhs', lz, rz, c)
   \<Longrightarrow> filter isAssertOp c = []"
  by (auto simp: prepareZeroPoints_def isAssertOp_def Let_def dest!: signShift_no_assert
           split: if_splits option.splits mtype.splits sum.splits)

lemma signShift_succeeds:
  assumes "signShiftDefined e dtype (IntegerType w s)"
    and "getType e arg = RankedTensorType shape elem"
    and "getType e z = IntegerType zw zs"
  shows "\<exists>arg' zp' c.
           signShift e arg (Some z) (isUnsignedTorchType e dtype) (int w) = Inr (arg', Some zp', c)"
  using assms by (auto simp: signShift_def signShiftDefined_def minSI_def Let_def)

lemma prepareZeroPoints_succeeds:
  assumes "signShiftDefined e (ta_dtype self) lhsElem"
    and "signShiftDefined e (ta_dtype other) rhsElem"
    and "getType e lhs = RankedTensorType ls lhsElem"
    and "getType e rhs = RankedTensorType rs rhsElem"
  shows "\<exists>lhs' rhs' lz rz c. prepareZeroPoints e self other lhs rhs lhsElem rhsElem lm rm
           = Inr (lhs', rhs', lz, rz, c)"
proof -
  obtain lw lsg where l: "lhsElem = IntegerType lw lsg"
    using assms(1) by (cases lhsElem) (simp_all add: signShiftDefined_def)
  obtain rw rsg where r: "rhsElem = IntegerType rw rsg"
    using assms(2) by (cases rhsElem) (simp_all add: signShiftDefined_def)
  let ?lz = "Op ''arith.trunci'' (Some i32) []
              [Op ''materializeTargetConversion'' (Some (mq_zero_point_type lm)) []
                 [mq_zero_point lm] []] []"
  let ?rz = "Op ''arith.trunci'' (Some i32) []
              [Op ''materializeTargetConversion'' (Some (mq_zero_point_type rm)) []
                 [mq_zero_point rm] []] []"
  have tl: "getType e ?lz = IntegerType 32 Signless"
    and tr: "getType e ?rz = IntegerType 32 Signless"
    by (simp_all add: i32_def)
  obtain la lz lc where sl:
    "signShift e lhs (Some ?lz) (isUnsignedTorchType e (ta_dtype self)) (int lw)
       = Inr (la, Some lz, lc)"
    using signShift_succeeds [OF assms(1) [unfolded l] assms(3) tl] by blast
  obtain ra rz rc where sr:
    "signShift e rhs (Some ?rz) (isUnsignedTorchType e (ta_dtype other)) (int rw)
       = Inr (ra, Some rz, rc)"
    using signShift_succeeds [OF assms(2) [unfolded r] assms(4) tr] by blast
  show ?thesis
    by (simp add: prepareZeroPoints_def Let_def l r sl sr)
qed

text \<open>
  C1. For \<^verbatim>\<open>aten.mm\<close> with two operands of rank 2, whatever their extents, with the same
  dtype and no zero-point, or with a zero-point on both (and element types the sign shift
  is defined for), the lowering succeeds. The operations it creates hold exactly one
  assertion, that dimension 1 of the lhs equals dimension 0 of the rhs, with the message
  "mismatching contracting dimension for torch.aten.mm", and none at all when the context
  assumes strict symbolic shapes.
\<close>

theorem mm_contracting_dimension_is_runtime_assertion:
  assumes verify: "verifyLinalgCompatibleTypes e"
    and lhs: "getType e (ta_value (mm_self op)) = RankedTensorType [l0, l1] lhsElem"
    and rhs: "getType e (ta_value (mm_mat2 op)) = RankedTensorType [r0, r1] rhsElem"
    and res: "mm_resultType op = RankedTensorType resultShape resultElem"
    and quant: "(ta_make (mm_self op) = None \<and> ta_make (mm_mat2 op) = None
                  \<and> ta_dtype (mm_self op) = ta_dtype (mm_mat2 op))
              \<or> (ta_make (mm_self op) \<noteq> None \<and> ta_make (mm_mat2 op) \<noteq> None
                  \<and> signShiftDefined e (ta_dtype (mm_self op)) lhsElem
                  \<and> signShiftDefined e (ta_dtype (mm_mat2 op)) rhsElem)"
  shows "\<exists>r. ConvertAtenMmOp e op = Inr r
           \<and> filter isAssertOp (created r) =
               (if isAssumingStrictSymbolicShapes e then []
                else [mmAssertOp (ta_value (mm_self op)) (ta_value (mm_mat2 op))])"
  using quant
proof
  assume u: "ta_make (mm_self op) = None \<and> ta_make (mm_mat2 op) = None
                  \<and> ta_dtype (mm_self op) = ta_dtype (mm_mat2 op)"
  show ?thesis
    using u verify
    by (simp add: ConvertAtenMmOp_def Let_def lhs rhs res getZeroPoint_def
        filter_mmContractingDimCheck isAssertOp_def)
next
  assume q: "ta_make (mm_self op) \<noteq> None \<and> ta_make (mm_mat2 op) \<noteq> None
                  \<and> signShiftDefined e (ta_dtype (mm_self op)) lhsElem
                  \<and> signShiftDefined e (ta_dtype (mm_mat2 op)) rhsElem"
  then obtain lm rm where lm: "ta_make (mm_self op) = Some lm"
    and rm: "ta_make (mm_mat2 op) = Some rm"
    by auto
  obtain lhs' rhs' lz rz c where p: "prepareZeroPoints e (mm_self op) (mm_mat2 op)
       (ta_value (mm_self op)) (ta_value (mm_mat2 op)) lhsElem rhsElem lm rm
           = Inr (lhs', rhs', lz, rz, c)"
    using prepareZeroPoints_succeeds [OF _ _ lhs rhs] q by blast
  have c: "filter isAssertOp c = []"
    using prepareZeroPoints_no_assert [OF p] .
  show ?thesis
    using verify
    by (simp add: ConvertAtenMmOp_def Let_def lhs rhs res getZeroPoint_def lm rm p c
        filter_mmContractingDimCheck isAssertOp_def)
qed

theorem mm_contracting_dimension_is_runtime_assertion_witness:
  "\<exists>r. ConvertAtenMmOp exampleEnv mmExample = Inr r
       \<and> filter isAssertOp (created r) =
           [mmAssertOp (Operand ''self'' (RankedTensorType [2, 3] f32))
                       (Operand ''mat2'' (RankedTensorType [4, 5] f32))]"
  using mm_contracting_dimension_is_runtime_assertion
          [of exampleEnv mmExample 2 3 f32 4 5 f32 "[2, 5]" f32]
  by (simp add: exampleEnv_def mmExample_def floatArg_def)

subsection \<open>signShift\<close>

lemma signedValue_shift:
  assumes "1 \<le> N" "0 \<le> v" "v < 2 ^ N"
  shows "signedValue N (wrap N (v + wrap N (- (2 ^ (N - 1))))) = v - 2 ^ (N - 1)"
proof -
  obtain k where N: "N = Suc k" using assms(1) by (cases N) auto
  have h: "(2::int) ^ N = 2 * 2 ^ k" by (simp add: N)
  have w: "wrap N (v + wrap N (- (2 ^ (N - 1)))) = (v - 2 ^ k) mod 2 ^ N"
    unfolding wrap_def N by (simp add: mod_simps)
  show ?thesis
  proof (cases "v < 2 ^ k")
    case True
    have "(v - 2 ^ k) mod 2 ^ N = v - 2 ^ k + 2 ^ N"
      using True assms(2) h by (intro int_mod_pos_eq[where q="-1"]) auto
    then show ?thesis using True assms h
      unfolding signedValue_def w by (simp add: wrap_def N)
  next
    case False
    have "(v - 2 ^ k) mod 2 ^ N = v - 2 ^ k"
      using False assms h by (intro mod_pos_pos_trivial) auto
    then show ?thesis using False assms h
      unfolding signedValue_def w by (simp add: wrap_def N)
  qed
qed

lemma wrap_signedValue: "wrap w (signedValue w x) = wrap w x"
  by (simp add: signedValue_def wrap_def)

lemma wrap_idem: "wrap w (wrap w x) = wrap w x"
  by (simp add: wrap_def)

lemma wrap_diff_cong: "wrap w a = wrap w a' \<Longrightarrow> wrap w b = wrap w b' \<Longrightarrow> wrap w (a - b) = wrap w (a' - b')"
  unfolding wrap_def by (rule mod_diff_cong)

lemma signedValue_unique:
  assumes "1 \<le> w" "- (2 ^ (w - 1)) \<le> y" "y < 2 ^ (w - 1)" "wrap w x = wrap w y"
  shows "signedValue w x = y"
proof -
  obtain k where w: "w = Suc k" using assms(1) by (cases w) auto
  have h: "(2::int) ^ w = 2 * 2 ^ k" by (simp add: w)
  show ?thesis
  proof (cases "0 \<le> y")
    case True
    then have "wrap w y = y" using assms(3) h unfolding wrap_def w
      by (intro mod_pos_pos_trivial) auto
    then show ?thesis using assms True unfolding signedValue_def by (simp add: w)
  next
    case False
    then have "y mod 2 ^ w = y + 2 ^ w" using assms(2) h unfolding w
      by (intro int_mod_pos_eq[where q="-1"]) auto
    then have "wrap w y = y + 2 ^ w" by (simp add: wrap_def)
    then show ?thesis using assms False h unfolding signedValue_def by (simp add: w)
  qed
qed

lemma signedValue_bounds:
  assumes "1 \<le> w"
  shows "- (2 ^ (w - 1)) \<le> signedValue w x" "signedValue w x < 2 ^ (w - 1)"
proof -
  obtain k where w: "w = Suc k" using assms(1) by (cases w) auto
  have h: "(2::int) ^ w = 2 * 2 ^ k" by (simp add: w)
  have b: "0 \<le> wrap w x" "wrap w x < 2 ^ w" by (simp_all add: wrap_def)
  show "- (2 ^ (w - 1)) \<le> signedValue w x" using b h by (auto simp: signedValue_def w)
  show "signedValue w x < 2 ^ (w - 1)" using b h by (auto simp: signedValue_def w)
qed

lemma zero_point_shift_exact:
  assumes "1 \<le> w" "- (2 ^ (w - 1)) + 2 ^ (N - 1) \<le> signedValue w z"
  shows "signedValue w (wrap w (z + wrap w (- (2 ^ (N - 1))))) = signedValue w z - 2 ^ (N - 1)"
proof (rule signedValue_unique [OF assms(1)])
  show "- (2 ^ (w - 1)) \<le> signedValue w z - 2 ^ (N - 1)" using assms(2) by simp
  have "signedValue w z < 2 ^ (w - 1)" by (rule signedValue_bounds [OF assms(1)])
  moreover have "(0::int) < 2 ^ (N - 1)" by simp
  ultimately show "signedValue w z - 2 ^ (N - 1) < 2 ^ (w - 1)" by linarith
  have "wrap w (signedValue w z - 2 ^ (N - 1)) = wrap w (z - 2 ^ (N - 1))"
    by (rule wrap_diff_cong) (simp_all add: wrap_signedValue)
  moreover have "wrap w (wrap w (z + wrap w (- (2 ^ (N - 1))))) = wrap w (z - 2 ^ (N - 1))"
    by (simp add: wrap_def mod_simps)
  ultimately show "wrap w (wrap w (z + wrap w (- (2 ^ (N - 1))))) = wrap w (signedValue w z - 2 ^ (N - 1))"
    by simp
qed

lemma difference_preserved_mod:
  assumes "1 \<le> N" "0 \<le> v" "v < 2 ^ N"
  shows "wrap w (signedValue N (wrap N (v + wrap N (- (2 ^ (N - 1)))))
                 - signedValue w (wrap w (z + wrap w (- (2 ^ (N - 1))))))
         = wrap w (v - signedValue w z)"
proof -
  have "wrap w (signedValue w (wrap w (z + wrap w (- (2 ^ (N - 1)))))) = wrap w (z - 2 ^ (N - 1))"
    by (simp add: wrap_signedValue) (simp add: wrap_def mod_simps)
  then have "wrap w (v - 2 ^ (N - 1) - signedValue w (wrap w (z + wrap w (- (2 ^ (N - 1))))))
        = wrap w (v - 2 ^ (N - 1) - (z - 2 ^ (N - 1)))"
    by (intro wrap_diff_cong) simp_all
  also have "\<dots> = wrap w (v - z)" by simp
  also have "\<dots> = wrap w (v - signedValue w z)"
    by (intro wrap_diff_cong) (simp_all add: wrap_signedValue)
  finally show ?thesis unfolding signedValue_shift [OF assms] .
qed

text \<open>
  C4. signShift changes nothing and creates nothing when \<open>isUnsignedType\<close> is false. When
  it is true (for a width \<open>N\<close> from 1 to 31, where \<open>minSI\<close> is defined) it adds the constant
  \<open>- 2 ^ (N - 1)\<close> to the zero-point, in the width \<open>w\<close> of the zero-point, and to every
  element of the operand, in the width \<open>N\<close>. For every unsigned \<open>N\<close>-bit value the shifted
  element read as a signed number is the value minus \<open>2 ^ (N - 1)\<close>; the difference
  between element and zero-point is the same after the shift, in the arithmetic of the
  zero-point's width always, and as integers whenever the shifted zero-point is
  representable in that width.
\<close>

theorem signShift_preserves_value_minus_zero_point:
  assumes N: "1 \<le> N" "N \<le> 31"
    and zt: "getType e z = IntegerType w s" and w: "1 \<le> w"
    and at: "getType e arg = RankedTensorType shape (IntegerType N s')"
    and v: "0 \<le> \<rho> (BlockArgument 0)" "\<rho> (BlockArgument 0) < 2 ^ N"
  shows "signShift e arg zp False numBits = Inr (arg, zp, [])
       \<and> (\<exists>payload zp' c.
            signShift e arg (Some z) True (int N) =
              Inr (Op ''createElementwiseLinalgGeneric'' None [TypeAttr (IntegerType N s')] [arg]
                     [payload, Op ''linalg.yield'' None [] [payload] []], Some zp', c)
          \<and> evalInt \<rho> payload = wrap N (\<rho> (BlockArgument 0) + wrap N (- (2 ^ (N - 1))))
          \<and> evalInt \<rho> zp' = wrap w (evalInt \<rho> z + wrap w (- (2 ^ (N - 1))))
          \<and> signedValue N (evalInt \<rho> payload) = \<rho> (BlockArgument 0) - 2 ^ (N - 1)
          \<and> wrap w (signedValue N (evalInt \<rho> payload) - signedValue w (evalInt \<rho> zp'))
              = wrap w (\<rho> (BlockArgument 0) - signedValue w (evalInt \<rho> z))
          \<and> (- (2 ^ (w - 1)) + 2 ^ (N - 1) \<le> signedValue w (evalInt \<rho> z) \<longrightarrow>
               signedValue N (evalInt \<rho> payload) - signedValue w (evalInt \<rho> zp')
                 = \<rho> (BlockArgument 0) - signedValue w (evalInt \<rho> z)))"
proof -
  have m: "minSI (int N) = Some (- (2 ^ (N - 1)))"
    using N by (simp add: minSI_def nat_diff_distrib')
  show ?thesis
    using signedValue_shift [OF N(1) v] difference_preserved_mod [OF N(1) v, of w "evalInt \<rho> z"]
      zero_point_shift_exact [OF w, of N "evalInt \<rho> z"]
    by (simp add: signShift_def m zt at Let_def)
qed

theorem signShift_preserves_value_minus_zero_point_witness:
  "signShift exampleEnv u8Tensor (Some zp128) False 8 = Inr (u8Tensor, Some zp128, [])
   \<and> (\<exists>payload zp' c.
        signShift exampleEnv u8Tensor (Some zp128) True 8 =
          Inr (Op ''createElementwiseLinalgGeneric'' None [TypeAttr (IntegerType 8 Signless)]
                 [u8Tensor] [payload, Op ''linalg.yield'' None [] [payload] []], Some zp', c)
      \<and> signedValue 8 (evalInt rho200 payload) = 72
      \<and> signedValue 32 (evalInt rho200 zp') = 0
      \<and> signedValue 8 (evalInt rho200 payload) - signedValue 32 (evalInt rho200 zp')
           = 200 - 128)"
proof -
  have n: "1 \<le> (8::nat)" "(8::nat) \<le> 31" "1 \<le> (32::nat)"
    by simp_all
  have zt: "getType exampleEnv zp128 = IntegerType 32 Signless"
    by (simp add: zp128_def)
  have at: "getType exampleEnv u8Tensor = RankedTensorType [2, 3] (IntegerType 8 Signless)"
    by (simp add: u8Tensor_def)
  have v: "0 \<le> rho200 (BlockArgument 0)" "rho200 (BlockArgument 0) < 2 ^ 8"
    by (simp_all add: rho200_def)
  have b: "rho200 (BlockArgument 0) = 200" and z: "evalInt rho200 zp128 = 128"
    by (simp_all add: rho200_def zp128_def)
  have sz: "signedValue 32 128 = 128"
    by (simp add: signedValue_def wrap_def)
  note T = signShift_preserves_value_minus_zero_point
             [where \<rho> = rho200 and zp = "Some zp128" and numBits = 8,
              OF n(1) n(2) zt n(3) at v]
  from T obtain payload zp' c where
    s: "signShift exampleEnv u8Tensor (Some zp128) True (int 8) =
          Inr (Op ''createElementwiseLinalgGeneric'' None [TypeAttr (IntegerType 8 Signless)]
                 [u8Tensor] [payload, Op ''linalg.yield'' None [] [payload] []], Some zp', c)"
    and p: "signedValue 8 (evalInt rho200 payload) = rho200 (BlockArgument 0) - 2 ^ (8 - 1)"
    and d: "- (2 ^ (32 - 1)) + 2 ^ (8 - 1) \<le> signedValue 32 (evalInt rho200 zp128) \<longrightarrow>
            signedValue 8 (evalInt rho200 payload) - signedValue 32 (evalInt rho200 zp')
              = rho200 (BlockArgument 0) - signedValue 32 (evalInt rho200 zp128)"
    by blast
  have p': "signedValue 8 (evalInt rho200 payload) = 72"
    using p by (simp add: b)
  have d': "signedValue 8 (evalInt rho200 payload) - signedValue 32 (evalInt rho200 zp') = 72"
    using d by (simp add: b z sz)
  have z': "signedValue 32 (evalInt rho200 zp') = 0"
    using p' d' by simp
  have "signShift exampleEnv u8Tensor (Some zp128) False 8 = Inr (u8Tensor, Some zp128, [])"
    using T by simp
  moreover have "signShift exampleEnv u8Tensor (Some zp128) True 8 =
          Inr (Op ''createElementwiseLinalgGeneric'' None [TypeAttr (IntegerType 8 Signless)]
                 [u8Tensor] [payload, Op ''linalg.yield'' None [] [payload] []], Some zp', c)"
    using s by simp
  ultimately show ?thesis
    using p' z' by auto
qed

subsection \<open>Mixed quantization\<close>

lemma bindR_Inl: "bindR (Inl f) g = Inl f"
  by (simp add: bindR_def)


lemma getZeroPoint_None: "(getZeroPoint a = None) = (ta_make a = None)"
  by (simp add: getZeroPoint_def split: option.splits)

lemma ConvertAtenMmOp_mixed:
  assumes "(ta_make (mm_self op) = None) \<noteq> (ta_make (mm_mat2 op) = None)"
    and "getType e (ta_value (mm_self op)) = RankedTensorType sa ea"
    and "getType e (ta_value (mm_mat2 op)) = RankedTensorType sb eb"
  shows "ConvertAtenMmOp e op =
           Inl (if \<not> verifyLinalgCompatibleTypes e then Failure
                else if length sa \<noteq> 2 \<or> length sb \<noteq> 2
                then MatchFailure ''expected both operands to aten.mm to be rank 2''
                else MatchFailure ''unsupported: aten.mm with mixed quantization'')"
  using assms by (simp add: ConvertAtenMmOp_def Let_def getZeroPoint_None)

lemma ConvertAtenMatmulOp_mixed:
  assumes "(ta_make (mt_self op) = None) \<noteq> (ta_make (mt_other op) = None)"
    and "getType e (ta_value (mt_self op)) = RankedTensorType sa ea"
    and "getType e (ta_value (mt_other op)) = RankedTensorType sb eb"
  shows "ConvertAtenMatmulOp e op =
           Inl (if \<not> verifyLinalgCompatibleTypes e then Failure
                else MatchFailure ''unsupported: aten.matmul with mixed quantization'')"
  using assms by (simp add: ConvertAtenMatmulOp_def Let_def getZeroPoint_None)

lemma convUnwrap_zeroPoint:
  "(fst (snd (convUnwrap e a)) = None) = (ta_make a = None)"
  by (simp add: convUnwrap_def Let_def split: option.splits)

lemma convOperands_mixed:
  assumes "(ta_make (cv_input op) = None) \<noteq> (ta_make (cv_weight op) = None)"
  shows "convOperands e op =
           Inl (MatchFailure ''lhs and rhs of convolution must either be both int or fp'')"
proof -
  obtain input inputZp inputUnsigned cIn
    where i: "convUnwrap e (cv_input op) = (input, inputZp, inputUnsigned, cIn)"
    by (cases "convUnwrap e (cv_input op)") auto
  obtain weight weightZp weightUnsigned cW
    where w: "convUnwrap e (cv_weight op) = (weight, weightZp, weightUnsigned, cW)"
    by (cases "convUnwrap e (cv_weight op)") auto
  have "(inputZp = None) = (ta_make (cv_input op) = None)"
    using convUnwrap_zeroPoint [of e "cv_input op"] i by simp
  moreover have "(weightZp = None) = (ta_make (cv_weight op) = None)"
    using convUnwrap_zeroPoint [of e "cv_weight op"] w by simp
  ultimately have "(inputZp \<noteq> None) \<noteq> (weightZp \<noteq> None)"
    using assms by simp
  then show ?thesis
    unfolding convOperands_def i w prod.case by (rule if_P)
qed

lemma ConvertAtenConvolutionOp_mixed:
  assumes "(ta_make (cv_input op) = None) \<noteq> (ta_make (cv_weight op) = None)"
  shows "ConvertAtenConvolutionOp e op =
           Inl (MatchFailure ''lhs and rhs of convolution must either be both int or fp'')"
  unfolding ConvertAtenConvolutionOp_def convPrepare_def convOperands_mixed [OF assms]
    bindR_Inl ..

text \<open>
  C3. When exactly one of the two operands is defined by a
  make-per-tensor-quantized-tensor operation, the three patterns fail and replace nothing.
  The failure of the convolution is the match failure of the mixed quantization. For
  \<^verbatim>\<open>aten.mm\<close> and \<^verbatim>\<open>aten.matmul\<close>, whose operands are ranked tensors, it is the failure of
  \<^verbatim>\<open>verifyLinalgCompatibleTypes\<close> when that check fails, for \<^verbatim>\<open>aten.mm\<close> the match
  failure of the ranks when an operand is not a matrix, and else the match failure of the
  mixed quantization. No case is an emitted error, a crash or a success.
\<close>

theorem mixed_quantization_is_match_failure:
  assumes mixed: "(ta_make a = None) \<noteq> (ta_make b = None)"
    and lhs: "getType e (ta_value a) = RankedTensorType sa ea"
    and rhs: "getType e (ta_value b) = RankedTensorType sb eb"
  shows "ConvertAtenMmOp e \<lparr> mm_self = a, mm_mat2 = b, mm_resultType = t \<rparr> =
           Inl (if \<not> verifyLinalgCompatibleTypes e then Failure
                else if length sa \<noteq> 2 \<or> length sb \<noteq> 2
                then MatchFailure ''expected both operands to aten.mm to be rank 2''
                else MatchFailure ''unsupported: aten.mm with mixed quantization'')
       \<and> ConvertAtenMatmulOp e \<lparr> mt_self = a, mt_other = b, mt_resultType = t \<rparr> =
           Inl (if \<not> verifyLinalgCompatibleTypes e then Failure
                else MatchFailure ''unsupported: aten.matmul with mixed quantization'')
       \<and> ConvertAtenConvolutionOp e (cv \<lparr> cv_input := a, cv_weight := b \<rparr>) =
           Inl (MatchFailure ''lhs and rhs of convolution must either be both int or fp'')
       \<and> (\<exists>f. ConvertAtenMmOp e \<lparr> mm_self = a, mm_mat2 = b, mm_resultType = t \<rparr> = Inl f
              \<and> isMatchFailure f)
       \<and> (\<exists>f. ConvertAtenMatmulOp e \<lparr> mt_self = a, mt_other = b, mt_resultType = t \<rparr> = Inl f
              \<and> isMatchFailure f)
       \<and> (\<exists>f. ConvertAtenConvolutionOp e (cv \<lparr> cv_input := a, cv_weight := b \<rparr>) = Inl f
              \<and> isMatchFailure f)"
proof -
  have mm: "ConvertAtenMmOp e \<lparr> mm_self = a, mm_mat2 = b, mm_resultType = t \<rparr> =
           Inl (if \<not> verifyLinalgCompatibleTypes e then Failure
                else if length sa \<noteq> 2 \<or> length sb \<noteq> 2
                then MatchFailure ''expected both operands to aten.mm to be rank 2''
                else MatchFailure ''unsupported: aten.mm with mixed quantization'')"
    by (rule ConvertAtenMmOp_mixed) (simp_all add: mixed lhs rhs)
  have mt: "ConvertAtenMatmulOp e \<lparr> mt_self = a, mt_other = b, mt_resultType = t \<rparr> =
           Inl (if \<not> verifyLinalgCompatibleTypes e then Failure
                else MatchFailure ''unsupported: aten.matmul with mixed quantization'')"
    by (rule ConvertAtenMatmulOp_mixed [where sa = sa and sb = sb]) (simp_all add: mixed lhs rhs)
  have cv: "ConvertAtenConvolutionOp e (cv \<lparr> cv_input := a, cv_weight := b \<rparr>) =
           Inl (MatchFailure ''lhs and rhs of convolution must either be both int or fp'')"
    by (rule ConvertAtenConvolutionOp_mixed) (simp add: mixed)
  have "\<exists>f. ConvertAtenMmOp e \<lparr> mm_self = a, mm_mat2 = b, mm_resultType = t \<rparr> = Inl f
              \<and> isMatchFailure f"
    unfolding mm by simp
  moreover have "\<exists>f. ConvertAtenMatmulOp e \<lparr> mt_self = a, mt_other = b, mt_resultType = t \<rparr>
              = Inl f \<and> isMatchFailure f"
    unfolding mt by simp
  moreover have "\<exists>f. ConvertAtenConvolutionOp e (cv \<lparr> cv_input := a, cv_weight := b \<rparr>) = Inl f
              \<and> isMatchFailure f"
    unfolding cv by simp
  ultimately show ?thesis
    using mm mt cv by (intro conjI)
qed

theorem mixed_quantization_is_match_failure_witness:
  "ConvertAtenMmOp exampleEnv
     \<lparr> mm_self = quantArg ''lhs'' [2, 3], mm_mat2 = floatArg ''rhs'' [3, 4],
       mm_resultType = RankedTensorType [2, 4] f32 \<rparr>
     = Inl (MatchFailure ''unsupported: aten.mm with mixed quantization'')
   \<and> ConvertAtenMatmulOp exampleEnv
     \<lparr> mt_self = quantArg ''lhs'' [2, 3], mt_other = floatArg ''rhs'' [3, 4],
       mt_resultType = RankedTensorType [2, 4] f32 \<rparr>
     = Inl (MatchFailure ''unsupported: aten.matmul with mixed quantization'')
   \<and> ConvertAtenConvolutionOp exampleEnv
       (convExample (quantArg ''lhs'' [2, 3]) (floatArg ''rhs'' [3, 4]) noBias f32 1)
     = Inl (MatchFailure ''lhs and rhs of convolution must either be both int or fp'')"
  using mixed_quantization_is_match_failure
          [of "quantArg ''lhs'' [2, 3]" "floatArg ''rhs'' [3, 4]" exampleEnv "[2, 3]" i8
              "[3, 4]" f32 "RankedTensorType [2, 4] f32"
              "convExample (quantArg ''lhs'' [2, 3]) (floatArg ''rhs'' [3, 4]) noBias f32 1"]
  by (simp add: exampleEnv_def quantArg_def floatArg_def convExample_def)

subsection \<open>aten.matmul: the cases on the ranks\<close>

lemma filter_opName_empty:
  assumes "opName ` set xs \<subseteq> S" and "\<And>v. opName v \<in> S \<Longrightarrow> \<not> P v"
  shows "filter P xs = []"
  using assms by (auto simp: filter_empty_conv)

lemma signShift_opNames:
  "signShift e arg zp u n = Inr (arg', zp', c) \<Longrightarrow>
   opName ` set c \<subseteq> {''arith.constant_int'', ''arith.addi'', ''createElementwiseLinalgGeneric''}"
  by (auto simp: signShift_def opName_def Let_def split: if_splits option.splits mtype.splits)

lemma prepareZeroPoints_opNames:
  assumes "prepareZeroPoints e self other lhs rhs le re lm rm = Inr (lhs', rhs', lz, rz, c)"
  shows "opName ` set c \<subseteq> {''materializeTargetConversion'', ''arith.trunci'',
           ''arith.constant_int'', ''arith.addi'', ''createElementwiseLinalgGeneric''}"
proof -
  obtain lw rw a1 z1 c1 a2 z2 c2 where
    s1: "signShift e lhs (Some (Op ''arith.trunci'' (Some i32) []
           [Op ''materializeTargetConversion'' (Some (mq_zero_point_type lm)) []
              [mq_zero_point lm] []] []))
           (isUnsignedTorchType e (ta_dtype self)) (int lw) = Inr (a1, z1, c1)"
    and s2: "signShift e rhs (Some (Op ''arith.trunci'' (Some i32) []
           [Op ''materializeTargetConversion'' (Some (mq_zero_point_type rm)) []
              [mq_zero_point rm] []] []))
           (isUnsignedTorchType e (ta_dtype other)) (int rw) = Inr (a2, z2, c2)"
    and c: "c = [Op ''materializeTargetConversion'' (Some (mq_zero_point_type lm)) []
                   [mq_zero_point lm] [],
                 Op ''materializeTargetConversion'' (Some (mq_zero_point_type rm)) []
                   [mq_zero_point rm] [],
                 Op ''arith.trunci'' (Some i32) []
                   [Op ''materializeTargetConversion'' (Some (mq_zero_point_type lm)) []
                      [mq_zero_point lm] []] [],
                 Op ''arith.trunci'' (Some i32) []
                   [Op ''materializeTargetConversion'' (Some (mq_zero_point_type rm)) []
                      [mq_zero_point rm] []] []] @ c1 @ c2"
    using assms
    by (auto simp: prepareZeroPoints_def Let_def
             split: mtype.splits sum.splits option.splits prod.splits)
  show ?thesis
    using signShift_opNames [OF s1] signShift_opNames [OF s2]
    by (auto simp: c opName_def)
qed

lemma prepareZeroPoints_no_contraction:
  assumes "prepareZeroPoints e self other lhs rhs le re lm rm = Inr (lhs', rhs', lz, rz, c)"
  shows "filter isContraction c = []"
  by (rule filter_opName_empty [OF prepareZeroPoints_opNames [OF assms]])
     (auto simp: isContraction_def)

lemma contractions_matmulDot:
  "filter isContraction pre = [] \<Longrightarrow>
   contractions (matmulDot e lhs rhs t el pre) = [(''linalg.dot'', 0)]"
  by (simp add: contractions_def matmulDot_def Let_def isContraction_def opName_def
      accumulatorRank_def accumulatorSizes_def getDimOp_def checkDimEqualHelper_def
      createZeroInitTensor_def)

lemma contractions_matmulVecMat:
  "filter isContraction pre = [] \<Longrightarrow>
   contractions (matmulVecMat e lhs rhs t el pre) = [(''linalg.vecmat'', 1)]"
  by (simp add: contractions_def matmulVecMat_def Let_def isContraction_def opName_def
      accumulatorRank_def accumulatorSizes_def getDimOp_def checkDimEqualHelper_def
      createZeroInitTensor_def)

lemma contractions_matmulMatVec:
  "filter isContraction pre = [] \<Longrightarrow>
   contractions (matmulMatVec e lhs rhs t el pre) = [(''linalg.matvec'', 1)]"
  by (simp add: contractions_def matmulMatVec_def Let_def isContraction_def opName_def
      accumulatorRank_def accumulatorSizes_def getDimOp_def checkDimEqualHelper_def
      createZeroInitTensor_def)

lemma contractions_matmulMatMat:
  "filter isContraction pre = [] \<Longrightarrow>
   contractions (matmulMatMat e lhs rhs zps t el pre)
     = [(if zps = None then ''linalg.matmul'' else ''linalg.quantized_matmul'', 2)]"
  by (cases zps) (auto simp add: contractions_def matmulMatMat_def Let_def isContraction_def
      opName_def accumulatorRank_def accumulatorSizes_def getDimOp_def checkDimEqualHelper_def
      createZeroInitTensor_def)


lemma ConvertAtenMatmulOp_unquantized:
  assumes "verifyLinalgCompatibleTypes e"
    and "getType e (ta_value (mt_self op)) = RankedTensorType lhsShape lhsElem"
    and "getType e (ta_value (mt_other op)) = RankedTensorType rhsShape rhsElem"
    and "mt_resultType op = RankedTensorType resultShape resultElem"
    and "ta_make (mt_self op) = None" and "ta_make (mt_other op) = None"
    and "ta_dtype (mt_self op) = ta_dtype (mt_other op)"
  shows "ConvertAtenMatmulOp e op =
           matmulDispatch e (length lhsShape) (length rhsShape) lhsElem rhsElem
             (mt_resultType op) resultShape resultElem [] (ta_value (mt_self op))
             (ta_value (mt_other op)) None"
  using assms by (simp add: ConvertAtenMatmulOp_def Let_def getZeroPoint_def)

lemma ConvertAtenMatmulOp_quantized:
  assumes "verifyLinalgCompatibleTypes e"
    and "getType e (ta_value (mt_self op)) = RankedTensorType lhsShape lhsElem"
    and "getType e (ta_value (mt_other op)) = RankedTensorType rhsShape rhsElem"
    and "mt_resultType op = RankedTensorType resultShape resultElem"
    and "ta_make (mt_self op) = Some lm" and "ta_make (mt_other op) = Some rm"
    and "prepareZeroPoints e (mt_self op) (mt_other op) (ta_value (mt_self op))
           (ta_value (mt_other op)) lhsElem rhsElem lm rm = Inr (lhs', rhs', lz, rz, c)"
  shows "ConvertAtenMatmulOp e op =
           (if (length lhsShape = 1 \<and> length rhsShape \<le> 2)
               \<or> (length lhsShape \<le> 2 \<and> length rhsShape = 1)
            then Inr (matmulQuantizedVec e (length lhsShape = 1 \<and> length rhsShape \<le> 2)
                        (length lhsShape \<le> 2 \<and> length rhsShape = 1) lhs' rhs' lhsShape lhsElem
                        rhsShape rhsElem lz rz (mt_resultType op) resultShape resultElem c)
            else matmulDispatch e (length lhsShape) (length rhsShape) lhsElem rhsElem
                   (mt_resultType op) resultShape resultElem c lhs' rhs' (Some (lz, rz)))"
  using assms by (simp add: ConvertAtenMatmulOp_def Let_def getZeroPoint_def)

lemma prepareZeroPoints_signShift:
  assumes "prepareZeroPoints e self other lhs rhs le re lm rm = Inr (lhs', rhs', lz, rz, c)"
  shows "\<exists>lw ls rw rs c1 c2.
           le = IntegerType lw ls \<and> re = IntegerType rw rs
           \<and> signShift e lhs
                (Some (Op ''arith.trunci'' (Some i32) []
                         [Op ''materializeTargetConversion'' (Some (mq_zero_point_type lm)) []
                            [mq_zero_point lm] []] []))
                (isUnsignedTorchType e (ta_dtype self)) (int lw) = Inr (lhs', Some lz, c1)
           \<and> signShift e rhs
                (Some (Op ''arith.trunci'' (Some i32) []
                         [Op ''materializeTargetConversion'' (Some (mq_zero_point_type rm)) []
                            [mq_zero_point rm] []] []))
                (isUnsignedTorchType e (ta_dtype other)) (int rw) = Inr (rhs', Some rz, c2)"
  using assms
  by (auto simp: prepareZeroPoints_def Let_def
           split: mtype.splits sum.splits option.splits prod.splits)

text \<open>
  C2. For the rank pairs (1,1), (1,2), (2,1) and (2,2), with operands that are ranked
  tensors, the lowering succeeds, creates exactly one contraction, and replaces the
  operator by a \<open>tensor.cast\<close> to the result type of what follows.

  Without zero-points: \<open>linalg.dot\<close> on an accumulator of rank 0 (no size), \<open>linalg.vecmat\<close>
  on an accumulator of rank 1 (the columns of the rhs), \<open>linalg.matvec\<close> on an accumulator
  of rank 1 (the rows of the lhs), and \<open>linalg.matmul\<close> on an accumulator of rank 2, each on
  the two operands as they are.

  With a zero-point on both operands, on the operands and zero-points that \<open>signShift\<close>
  returns: for two matrices \<open>linalg.quantized_matmul\<close> on an accumulator of rank 2; for a
  vector, the vector is first expanded to a matrix (\<open>[1, n]\<close> for the lhs, \<open>[n, 1]\<close> for the
  rhs, reassociation \<open>[[0, 1]]\<close>), the product is \<open>linalg.quantized_matmul\<close> on an
  accumulator of rank 2, and its result is collapsed to the result type, with the
  reassociation \<open>[[0, 1]]\<close>, or with none when the result type has rank 0.
\<close>

theorem matmul_rank_dispatch:
  assumes verify: "verifyLinalgCompatibleTypes e"
    and lhs: "getType e (ta_value (mt_self op)) = RankedTensorType lhsShape lhsElem"
    and rhs: "getType e (ta_value (mt_other op)) = RankedTensorType rhsShape rhsElem"
    and res: "mt_resultType op = RankedTensorType resultShape resultElem"
    and quant: "(ta_make (mt_self op) = None \<and> ta_make (mt_other op) = None
                  \<and> ta_dtype (mt_self op) = ta_dtype (mt_other op))
              \<or> (ta_make (mt_self op) = Some lm \<and> ta_make (mt_other op) = Some rm
                  \<and> signShiftDefined e (ta_dtype (mt_self op)) lhsElem
                  \<and> signShiftDefined e (ta_dtype (mt_other op)) rhsElem)"
    and ranks: "(length lhsShape, length rhsShape) \<in> {(1, 1), (1, 2), (2, 1), (2, 2)}"
  shows
    "let L = ta_value (mt_self op); R = ta_value (mt_other op);
         dim = (\<lambda>v i. Op ''getDimOp'' None [IndexAttr i] [v] []);
         zero = (\<lambda>sizes. Op ''createZeroInitTensor'' None [TypeAttr resultElem] sizes []);
         prim = (\<lambda>k ins acc. Op k (Some (getType e acc)) [] (ins @ [acc]) []);
         cast = (\<lambda>v. Op ''tensor.cast'' (Some (mt_resultType op)) [] [v] []);
         zeroPoint = (\<lambda>mk. Op ''arith.trunci'' (Some i32) []
                            [Op ''materializeTargetConversion''
                               (Some (mq_zero_point_type mk)) [] [mq_zero_point mk] []] [])
     in if ta_make (mt_self op) = None
        then \<exists>r. ConvertAtenMatmulOp e op = Inr r
               \<and> replacement r =
                   cast (if (length lhsShape, length rhsShape) = (1, 1)
                         then prim ''linalg.dot'' [L, R] (zero [])
                         else if (length lhsShape, length rhsShape) = (1, 2)
                         then prim ''linalg.vecmat'' [L, R] (zero [dim R 1])
                         else if (length lhsShape, length rhsShape) = (2, 1)
                         then prim ''linalg.matvec'' [L, R] (zero [dim L 0])
                         else prim ''linalg.matmul'' [L, R] (zero [dim L 0, dim R 1]))
               \<and> filter isContraction (created r) = operands (replacement r)
        else \<exists>r lw ls rw rs lhs' lz c1 rhs' rz c2.
               lhsElem = IntegerType lw ls \<and> rhsElem = IntegerType rw rs
               \<and> signShift e L (Some (zeroPoint lm))
                    (isUnsignedTorchType e (ta_dtype (mt_self op))) (int lw)
                  = Inr (lhs', Some lz, c1)
               \<and> signShift e R (Some (zeroPoint rm))
                    (isUnsignedTorchType e (ta_dtype (mt_other op))) (int rw)
                  = Inr (rhs', Some rz, c2)
               \<and> ConvertAtenMatmulOp e op = Inr r
               \<and> (let lhsM = (if length lhsShape = 1
                               then Op ''tensor.expand_shape''
                                      (Some (RankedTensorType [1, lhsShape ! 0] lhsElem))
                                      [ReassociationAttr [[0, 1]]] [lhs'] []
                               else lhs');
                       rhsM = (if length rhsShape = 1
                               then Op ''tensor.expand_shape''
                                      (Some (RankedTensorType [rhsShape ! 0, 1] rhsElem))
                                      [ReassociationAttr [[0, 1]]] [rhs'] []
                               else rhs');
                       product = prim ''linalg.quantized_matmul'' [lhsM, rhsM, lz, rz]
                                   (zero [dim lhsM 0, dim rhsM 1])
                   in replacement r =
                        cast (if (length lhsShape, length rhsShape) = (2, 2) then product
                              else Op ''tensor.collapse_shape'' (Some (mt_resultType op))
                                     [ReassociationAttr
                                        (if length resultShape = 0 then [] else [[0, 1]])]
                                     [product] [])
                      \<and> filter isContraction (created r) = [product]
                      \<and> (length lhsShape = 1 \<longrightarrow> lhsM \<in> set (created r))
                      \<and> (length rhsShape = 1 \<longrightarrow> rhsM \<in> set (created r)))"
  using quant
proof
  assume u: "ta_make (mt_self op) = None \<and> ta_make (mt_other op) = None
                  \<and> ta_dtype (mt_self op) = ta_dtype (mt_other op)"
  note red = ConvertAtenMatmulOp_unquantized [OF verify lhs rhs res u [THEN conjunct1]
        u [THEN conjunct2, THEN conjunct1] u [THEN conjunct2, THEN conjunct2]]
  from ranks consider "length lhsShape = 1 \<and> length rhsShape = 1"
    | "length lhsShape = 1 \<and> length rhsShape = 2"
    | "length lhsShape = 2 \<and> length rhsShape = 1"
    | "length lhsShape = 2 \<and> length rhsShape = 2"
    by auto
  then show ?thesis
  proof cases
    case 1
    then show ?thesis
      unfolding Let_def red using u
      by (simp add: matmulDispatch_def matmulDot_def Let_def getDimOp_def
          checkDimEqualHelper_def createZeroInitTensor_def isContraction_def opName_def)
  next
    case 2
    then show ?thesis
      unfolding Let_def red using u
      by (simp add: matmulDispatch_def matmulVecMat_def Let_def getDimOp_def
          checkDimEqualHelper_def createZeroInitTensor_def isContraction_def opName_def)
  next
    case 3
    then show ?thesis
      unfolding Let_def red using u
      by (simp add: matmulDispatch_def matmulMatVec_def Let_def getDimOp_def
          checkDimEqualHelper_def createZeroInitTensor_def isContraction_def opName_def)
  next
    case 4
    then show ?thesis
      unfolding Let_def red using u
      by (simp add: matmulDispatch_def matmulMatMat_def Let_def getDimOp_def
          checkDimEqualHelper_def createZeroInitTensor_def isContraction_def opName_def)
  qed
next
  assume q: "ta_make (mt_self op) = Some lm \<and> ta_make (mt_other op) = Some rm
                  \<and> signShiftDefined e (ta_dtype (mt_self op)) lhsElem
                  \<and> signShiftDefined e (ta_dtype (mt_other op)) rhsElem"
  then have lm: "ta_make (mt_self op) = Some lm"
    and rm: "ta_make (mt_other op) = Some rm"
    by auto
  obtain lhs' rhs' lz rz c where p: "prepareZeroPoints e (mt_self op) (mt_other op)
       (ta_value (mt_self op)) (ta_value (mt_other op)) lhsElem rhsElem lm rm
           = Inr (lhs', rhs', lz, rz, c)"
    using prepareZeroPoints_succeeds [OF _ _ lhs rhs] q by blast
  have c: "filter isContraction c = []"
    using prepareZeroPoints_no_contraction [OF p] .
  from prepareZeroPoints_signShift [OF p] obtain lw ls rw rs c1 c2
    where le: "lhsElem = IntegerType lw ls" and re: "rhsElem = IntegerType rw rs"
      and s1: "signShift e (ta_value (mt_self op))
                (Some (Op ''arith.trunci'' (Some i32) []
                         [Op ''materializeTargetConversion'' (Some (mq_zero_point_type lm)) []
                            [mq_zero_point lm] []] []))
                (isUnsignedTorchType e (ta_dtype (mt_self op))) (int lw)
               = Inr (lhs', Some lz, c1)"
      and s2: "signShift e (ta_value (mt_other op))
                (Some (Op ''arith.trunci'' (Some i32) []
                         [Op ''materializeTargetConversion'' (Some (mq_zero_point_type rm)) []
                            [mq_zero_point rm] []] []))
                (isUnsignedTorchType e (ta_dtype (mt_other op))) (int rw)
               = Inr (rhs', Some rz, c2)"
    by blast
  note red = ConvertAtenMatmulOp_quantized [OF verify lhs rhs res lm rm p]
  from ranks consider "length lhsShape = 1 \<and> length rhsShape = 1"
    | "length lhsShape = 1 \<and> length rhsShape = 2"
    | "length lhsShape = 2 \<and> length rhsShape = 1"
    | "length lhsShape = 2 \<and> length rhsShape = 2"
    by auto
  then show ?thesis
  proof cases
    case 1
    show ?thesis
      unfolding Let_def red
      apply (simp only: lm option.distinct if_False)
      apply (rule exI [of _ "matmulQuantizedVec e True True lhs' rhs' lhsShape lhsElem
                 rhsShape rhsElem lz rz (mt_resultType op) resultShape resultElem c"])
      apply (rule exI [of _ lw], rule exI [of _ ls], rule exI [of _ rw], rule exI [of _ rs],
          rule exI [of _ lhs'], rule exI [of _ lz], rule exI [of _ c1],
          rule exI [of _ rhs'], rule exI [of _ rz], rule exI [of _ c2])
      using 1 le re s1 s2 c
      by (simp add: matmulQuantizedVec_def Let_def getDimOp_def checkDimEqualHelper_def
          createZeroInitTensor_def isContraction_def opName_def)
  next
    case 2
    show ?thesis
      unfolding Let_def red
      apply (simp only: lm option.distinct if_False)
      apply (rule exI [of _ "matmulQuantizedVec e True False lhs' rhs' lhsShape lhsElem
                 rhsShape rhsElem lz rz (mt_resultType op) resultShape resultElem c"])
      apply (rule exI [of _ lw], rule exI [of _ ls], rule exI [of _ rw], rule exI [of _ rs],
          rule exI [of _ lhs'], rule exI [of _ lz], rule exI [of _ c1],
          rule exI [of _ rhs'], rule exI [of _ rz], rule exI [of _ c2])
      using 2 le re s1 s2 c
      by (simp add: matmulQuantizedVec_def Let_def getDimOp_def checkDimEqualHelper_def
          createZeroInitTensor_def isContraction_def opName_def)
  next
    case 3
    show ?thesis
      unfolding Let_def red
      apply (simp only: lm option.distinct if_False)
      apply (rule exI [of _ "matmulQuantizedVec e False True lhs' rhs' lhsShape lhsElem
                 rhsShape rhsElem lz rz (mt_resultType op) resultShape resultElem c"])
      apply (rule exI [of _ lw], rule exI [of _ ls], rule exI [of _ rw], rule exI [of _ rs],
          rule exI [of _ lhs'], rule exI [of _ lz], rule exI [of _ c1],
          rule exI [of _ rhs'], rule exI [of _ rz], rule exI [of _ c2])
      using 3 le re s1 s2 c
      by (simp add: matmulQuantizedVec_def Let_def getDimOp_def checkDimEqualHelper_def
          createZeroInitTensor_def isContraction_def opName_def)
  next
    case 4
    show ?thesis
      unfolding Let_def red
      apply (simp only: lm option.distinct if_False)
      apply (rule exI [of _ "matmulMatMat e lhs' rhs' (Some (lz, rz)) (mt_resultType op)
                 resultElem c"])
      apply (rule exI [of _ lw], rule exI [of _ ls], rule exI [of _ rw], rule exI [of _ rs],
          rule exI [of _ lhs'], rule exI [of _ lz], rule exI [of _ c1],
          rule exI [of _ rhs'], rule exI [of _ rz], rule exI [of _ c2])
      using 4 le re s1 s2 c
      by (simp add: matmulDispatch_def matmulMatMat_def Let_def getDimOp_def
          checkDimEqualHelper_def createZeroInitTensor_def isContraction_def opName_def)
  qed
qed

theorem matmul_rank_dispatch_witness:
  "(\<exists>r. ConvertAtenMatmulOp exampleEnv (matmulExample [3] [3, 4] [4]) = Inr r
        \<and> replacement r =
            Op ''tensor.cast'' (Some (RankedTensorType [4] f32)) []
              [Op ''linalg.vecmat'' (Some (OtherType ''inferred'')) []
                 [Operand ''self'' (RankedTensorType [3] f32),
                  Operand ''other'' (RankedTensorType [3, 4] f32),
                  Op ''createZeroInitTensor'' None [TypeAttr f32]
                    [Op ''getDimOp'' None [IndexAttr 1]
                       [Operand ''other'' (RankedTensorType [3, 4] f32)] []] []] []] []
        \<and> filter isContraction (created r) = operands (replacement r))
   \<and> (\<exists>r. ConvertAtenMatmulOp exampleEnv (matmulQuantExample [3] [3] []) = Inr r
        \<and> replacement r =
            Op ''tensor.cast'' (Some (RankedTensorType [] i32)) []
              [Op ''tensor.collapse_shape'' (Some (RankedTensorType [] i32))
                 [ReassociationAttr []]
                 [Op ''linalg.quantized_matmul'' (Some (OtherType ''inferred'')) []
                    [Op ''tensor.expand_shape'' (Some (RankedTensorType [1, 3] i8))
                       [ReassociationAttr [[0, 1]]]
                       [Operand ''self'' (RankedTensorType [3] i8)] [],
                     Op ''tensor.expand_shape'' (Some (RankedTensorType [3, 1] i8))
                       [ReassociationAttr [[0, 1]]]
                       [Operand ''other'' (RankedTensorType [3] i8)] [],
                     Op ''arith.trunci'' (Some i32) []
                       [Op ''materializeTargetConversion'' (Some (IntegerType 64 Signless)) []
                          [Operand ''self.zero_point'' (OtherType ''!torch.int'')] []] [],
                     Op ''arith.trunci'' (Some i32) []
                       [Op ''materializeTargetConversion'' (Some (IntegerType 64 Signless)) []
                          [Operand ''other.zero_point'' (OtherType ''!torch.int'')] []] [],
                     Op ''createZeroInitTensor'' None [TypeAttr i32]
                       [Op ''getDimOp'' None [IndexAttr 0]
                          [Op ''tensor.expand_shape'' (Some (RankedTensorType [1, 3] i8))
                             [ReassociationAttr [[0, 1]]]
                             [Operand ''self'' (RankedTensorType [3] i8)] []] [],
                        Op ''getDimOp'' None [IndexAttr 1]
                          [Op ''tensor.expand_shape'' (Some (RankedTensorType [3, 1] i8))
                             [ReassociationAttr [[0, 1]]]
                             [Operand ''other'' (RankedTensorType [3] i8)] []] []] []] []] []] []
        \<and> filter isContraction (created r) =
            [Op ''linalg.quantized_matmul'' (Some (OtherType ''inferred'')) []
               [Op ''tensor.expand_shape'' (Some (RankedTensorType [1, 3] i8))
                  [ReassociationAttr [[0, 1]]]
                  [Operand ''self'' (RankedTensorType [3] i8)] [],
                Op ''tensor.expand_shape'' (Some (RankedTensorType [3, 1] i8))
                  [ReassociationAttr [[0, 1]]]
                  [Operand ''other'' (RankedTensorType [3] i8)] [],
                Op ''arith.trunci'' (Some i32) []
                  [Op ''materializeTargetConversion'' (Some (IntegerType 64 Signless)) []
                     [Operand ''self.zero_point'' (OtherType ''!torch.int'')] []] [],
                Op ''arith.trunci'' (Some i32) []
                  [Op ''materializeTargetConversion'' (Some (IntegerType 64 Signless)) []
                     [Operand ''other.zero_point'' (OtherType ''!torch.int'')] []] [],
                Op ''createZeroInitTensor'' None [TypeAttr i32]
                  [Op ''getDimOp'' None [IndexAttr 0]
                     [Op ''tensor.expand_shape'' (Some (RankedTensorType [1, 3] i8))
                        [ReassociationAttr [[0, 1]]]
                        [Operand ''self'' (RankedTensorType [3] i8)] []] [],
                   Op ''getDimOp'' None [IndexAttr 1]
                     [Op ''tensor.expand_shape'' (Some (RankedTensorType [3, 1] i8))
                        [ReassociationAttr [[0, 1]]]
                        [Operand ''other'' (RankedTensorType [3] i8)] []] []] []] []]
        \<and> Op ''tensor.expand_shape'' (Some (RankedTensorType [1, 3] i8))
              [ReassociationAttr [[0, 1]]]
              [Operand ''self'' (RankedTensorType [3] i8)] []
            \<in> set (created r)
        \<and> Op ''tensor.expand_shape'' (Some (RankedTensorType [3, 1] i8))
              [ReassociationAttr [[0, 1]]]
              [Operand ''other'' (RankedTensorType [3] i8)] []
            \<in> set (created r))"
  using matmul_rank_dispatch
          [of exampleEnv "matmulExample [3] [3, 4] [4]" "[3]" f32 "[3, 4]" f32 "[4]" f32]
        matmul_rank_dispatch
          [of exampleEnv "matmulQuantExample [3] [3] []" "[3]" i8 "[3]" i8 "[]" i32
              "the (ta_make (quantArg ''self'' [3]))" "the (ta_make (quantArg ''other'' [3]))"]
  by (simp add: exampleEnv_def matmulExample_def matmulQuantExample_def floatArg_def
      quantArg_def signShiftDefined_def signShift_def i8_def qint8_def i32_def f32_def Let_def)

subsection \<open>aten.matmul: the rank pairs without a case\<close>






subsection \<open>aten.matmul: the broadcast batch shape\<close>

lemma evalDim_getDimOp [simp]:
  "evalDim sh (getDimOp v i) = (if i < length (sh v) then Some (sh v ! i) else None)"
  by (simp add: getDimOp_def)

lemma evalDim_cast [simp]: "evalDim sh (castIndexToInt64 v) = evalDim sh v"
  by (simp add: castIndexToInt64_def)

lemma broadcastedBatchShape_length:
  "length (broadcastedBatchShape lhs rhs m n) = max m n - 2"
  by (simp add: broadcastedBatchShape_def Let_def del: upt_Suc)

lemma broadcastBatchSpec_length:
  "length (broadcastBatchSpec a b) = max (length a) (length b)"
  by (simp add: broadcastBatchSpec_def Let_def)

lemma broadcastedBatchShape_nth:
  assumes "p < max m n - 2"
  shows "broadcastedBatchShape lhs rhs m n ! p =
           last (batchDimStep lhs rhs m n (max m n - 2 - p))"
proof -
  have "rev [1..<Suc (max m n - 2)] ! p = max m n - 2 - p"
    using assms by (simp add: rev_nth del: upt_Suc)
  then show ?thesis
    using assms by (simp add: broadcastedBatchShape_def Let_def del: upt_Suc)
qed

lemma evalDim_batchDimStep:
  assumes sl: "sh lhs = ls" and sr: "sh rhs = rs"
    and l2: "2 \<le> length ls" and r2: "2 \<le> length rs"
    and i1: "1 \<le> i" and ib: "i \<le> max (length ls) (length rs) - 2"
  shows "evalDim sh (last (batchDimStep lhs rhs (length ls) (length rs) i)) =
           Some (if i \<le> min (length ls) (length rs) - 2
                 then max (ls ! (length ls - 2 - i)) (rs ! (length rs - 2 - i))
                 else if length ls > length rs then ls ! (length ls - 2 - i)
                 else rs ! (length rs - 2 - i))"
proof (cases "i \<le> min (length ls) (length rs) - 2")
  case True
  have "length ls - 2 - i < length ls" "length rs - 2 - i < length rs"
    using l2 r2 by linarith+
  then show ?thesis
    using True by (simp add: batchDimStep_def Let_def sl sr)
next
  case False
  show ?thesis
  proof (cases "length ls > length rs")
    case True
    have "length ls - 2 - i < length ls" using l2 by linarith
    then show ?thesis
      using \<open>\<not> i \<le> min (length ls) (length rs) - 2\<close> True
      by (simp add: batchDimStep_def Let_def sl sr max_absorb1)
  next
    case F: False
    have "length rs - 2 - i < length rs" using r2 by linarith
    then show ?thesis
      using \<open>\<not> i \<le> min (length ls) (length rs) - 2\<close> F
      by (simp add: batchDimStep_def Let_def sl sr max_absorb2)
  qed
qed

lemma spec_nth_le:
  assumes "length a \<le> length b" "p < length b"
  shows "broadcastBatchSpec a b ! p =
           (if p < length b - length a then b ! p
            else max (a ! (p - (length b - length a))) (b ! p))"
  using assms by (simp add: broadcastBatchSpec_def Let_def nth_append max_absorb2)

lemma spec_nth_ge:
  assumes "length b \<le> length a" "p < length a"
  shows "broadcastBatchSpec a b ! p =
           (if p < length a - length b then a ! p
            else max (a ! p) (b ! (p - (length a - length b))))"
  using assms by (simp add: broadcastBatchSpec_def Let_def nth_append max_absorb1)

lemma broadcastBatchSpec_aligned:
  assumes l2: "2 \<le> length ls" and r2: "2 \<le> length rs"
    and p: "p < max (length ls) (length rs) - 2"
  shows "broadcastBatchSpec (butlast (butlast ls)) (butlast (butlast rs)) ! p =
           (let i = max (length ls) (length rs) - 2 - p in
            if i \<le> min (length ls) (length rs) - 2
            then max (ls ! (length ls - 2 - i)) (rs ! (length rs - 2 - i))
            else if length ls > length rs then ls ! (length ls - 2 - i)
            else rs ! (length rs - 2 - i))"
proof -
  define A where "A = length ls - 2"
  define B where "B = length rs - 2"
  let ?a = "butlast (butlast ls)" and ?b = "butlast (butlast rs)"
  have la: "length ?a = A" and lb: "length ?b = B" by (simp_all add: A_def B_def)
  have na: "k < A \<Longrightarrow> ?a ! k = ls ! k" for k by (simp add: nth_butlast A_def)
  have nb: "k < B \<Longrightarrow> ?b ! k = rs ! k" for k by (simp add: nth_butlast B_def)
  have mx: "max (length ls) (length rs) - 2 = max A B"
    and mn: "min (length ls) (length rs) - 2 = min A B"
    and gt: "(length ls > length rs) = (A > B)"
    using l2 r2 unfolding A_def B_def by linarith+
  have goal: "broadcastBatchSpec ?a ?b ! p =
           (if max A B - p \<le> min A B
            then max (ls ! (A - (max A B - p))) (rs ! (B - (max A B - p)))
            else if A > B then ls ! (A - (max A B - p))
            else rs ! (B - (max A B - p)))"
  proof (cases "A \<le> B")
    case True
    then have m: "max A B = B" "min A B = A" by simp_all
    have p': "p < B" using p mx m by simp
    have le: "length ?a \<le> length ?b" using True la lb by simp
    have pb: "p < length ?b" using p' lb by simp
    have e1: "B - (B - p) = p" using p' by simp
    have s: "broadcastBatchSpec ?a ?b ! p =
               (if p < B - A then ?b ! p else max (?a ! (p - (B - A))) (?b ! p))"
      using spec_nth_le [OF le pb] unfolding la lb .
    show ?thesis
    proof (cases "p < B - A")
      case T: True
      then have c: "\<not> B - p \<le> A" "\<not> A > B" using True by simp_all
      show ?thesis unfolding s m e1 using T c nb [OF p'] by simp
    next
      case F: False
      then have c: "B - p \<le> A" by simp
      have e2: "p - (B - A) = A - (B - p)" using F p' True by simp
      have "A - (B - p) < A" using F p' True by simp
      note na [OF this]
      then show ?thesis unfolding s m e1 e2 using F c nb [OF p'] by simp
    qed
  next
    case False
    then have m: "max A B = A" "min A B = B" by simp_all
    have g: "B < A" using False by simp
    have p': "p < A" using p mx m by simp
    have le: "length ?b \<le> length ?a" using False la lb by simp
    have pa: "p < length ?a" using p' la by simp
    have e1: "A - (A - p) = p" using p' by simp
    have s: "broadcastBatchSpec ?a ?b ! p =
               (if p < A - B then ?a ! p else max (?a ! p) (?b ! (p - (A - B))))"
      using spec_nth_ge [OF le pa] unfolding la lb .
    show ?thesis
    proof (cases "p < A - B")
      case T: True
      then have c: "\<not> A - p \<le> B" by simp
      show ?thesis unfolding s m e1 using T c g na [OF p'] by simp
    next
      case F: False
      then have c: "A - p \<le> B" by simp
      have e2: "p - (A - B) = B - (A - p)" using F p' g by simp
      have "B - (A - p) < B" using F p' g by simp
      note nb [OF this]
      then show ?thesis unfolding s m e1 e2 using F c na [OF p'] by simp
    qed
  qed
  show ?thesis
    unfolding Let_def mx mn gt A_def [symmetric] B_def [symmetric] using goal .
qed

lemma broadcastedBatchShape_refines:
  assumes sl: "sh lhs = ls" and sr: "sh rhs = rs"
    and l2: "2 \<le> length ls" and r2: "2 \<le> length rs"
  shows "map (evalDim sh) (broadcastedBatchShape lhs rhs (length ls) (length rs))
         = map Some (broadcastBatchSpec (butlast (butlast ls)) (butlast (butlast rs)))"
proof (rule nth_equalityI)
  show "length (map (evalDim sh) (broadcastedBatchShape lhs rhs (length ls) (length rs))) =
        length (map Some (broadcastBatchSpec (butlast (butlast ls)) (butlast (butlast rs))))"
    using l2 r2 by (simp add: broadcastedBatchShape_length broadcastBatchSpec_length)
next
  fix p
  assume "p < length (map (evalDim sh) (broadcastedBatchShape lhs rhs (length ls) (length rs)))"
  then have p: "p < max (length ls) (length rs) - 2"
    by (simp add: broadcastedBatchShape_length)
  have p': "p < length (broadcastBatchSpec (butlast (butlast ls)) (butlast (butlast rs)))"
    using p by (simp add: broadcastBatchSpec_length)
  have i: "1 \<le> max (length ls) (length rs) - 2 - p"
    "max (length ls) (length rs) - 2 - p \<le> max (length ls) (length rs) - 2"
    using p by linarith+
  have "map (evalDim sh) (broadcastedBatchShape lhs rhs (length ls) (length rs)) ! p
        = evalDim sh (last (batchDimStep lhs rhs (length ls) (length rs)
                              (max (length ls) (length rs) - 2 - p)))"
    using p by (simp add: broadcastedBatchShape_length broadcastedBatchShape_nth)
  also have "\<dots> = Some (broadcastBatchSpec (butlast (butlast ls)) (butlast (butlast rs)) ! p)"
    unfolding evalDim_batchDimStep [OF sl sr l2 r2 i] broadcastBatchSpec_aligned [OF l2 r2 p]
    by (simp add: Let_def)
  also have "\<dots> = map Some (broadcastBatchSpec (butlast (butlast ls)) (butlast (butlast rs))) ! p"
    using p' by simp
  finally show "map (evalDim sh) (broadcastedBatchShape lhs rhs (length ls) (length rs)) ! p =
        map Some (broadcastBatchSpec (butlast (butlast ls)) (butlast (butlast rs))) ! p" .
qed

lemma matmulDispatch_batch:
  assumes "1 < m" "1 < n" "3 \<le> max m n"
  shows "matmulDispatch e m n le re t rs el pre lhs rhs zps =
           matmulBatch e lhs rhs m n le re zps t rs el pre"
  using assms by (auto simp: matmulDispatch_def)


lemma matmulBatch_broadcast_succeeds:
  assumes "3 \<le> max m n"
    and "broadcastToGivenShape e lhs
             (bo_lhsBroadcastToShape (batchOperands lhs rhs m n le re))
             (bo_lhsBroadcastType (batchOperands lhs rhs m n le re))"
    and "broadcastToGivenShape e rhs
             (bo_rhsBroadcastToShape (batchOperands lhs rhs m n le re))
             (bo_rhsBroadcastType (batchOperands lhs rhs m n le re))"
    and "max m n = 3 \<or> 2 \<le> length rs"
  shows "\<exists>r. matmulBatch e lhs rhs m n le re zps t rs el pre = Inr r"
  using assms by (auto simp: matmulBatch_def Let_def)

subsection \<open>aten.matmul: the batched cases\<close>

lemma fold_reassociationStep_batch:
  "k \<le> b \<Longrightarrow> fold (reassociationStep b) [0..<k] (0, [[], [], []]) = (0, [[0..<k], [], []])"
  by (induction k) (simp_all add: reassociationStep_def)

lemma collapseReassociation_closed:
  "collapseReassociation (b + 2) b = [[0..<b], [b], [b + 1]]"
proof -
  have "[0..<b + 2] = [0..<b] @ [b, b + 1]"
    by (simp add: upt_rec [of b])
  then show ?thesis
    by (simp add: collapseReassociation_def fold_reassociationStep_batch reassociationStep_def)
qed

lemma collapseReassociation_Suc:
  "collapseReassociation (Suc (Suc b)) b = [[0..<b], [b], [Suc b]]"
  using collapseReassociation_closed [of b] by simp

lemma matmulOpNames_not_contraction: "opName v \<in> matmulOpNames \<Longrightarrow> \<not> isContraction v"
  by (auto simp: matmulOpNames_def isContraction_def)

lemma matmulOpNames_not_reshape:
  "''tensor.collapse_shape'' \<notin> matmulOpNames" "''tensor.expand_shape'' \<notin> matmulOpNames"
  by (simp_all add: matmulOpNames_def)

lemma opName_batchDimStep:
  "opName ` set (batchDimStep lhs rhs m n i) \<subseteq> matmulOpNames"
  by (simp add: batchDimStep_def Let_def opName_def getDimOp_def matmulOpNames_def)

lemma opName_broadcastToShapeOf:
  "v \<in> set (broadcastToShapeOf bs d0 d1) \<Longrightarrow> opName v \<in> matmulOpNames"
  by (auto simp: broadcastToShapeOf_def castIndexToInt64_def opName_def matmulOpNames_def)

lemma opName_batchOperands:
  assumes "2 \<le> max m n"
  shows "opName ` set (bo_created (batchOperands lhs rhs m n le re)) \<subseteq> matmulOpNames"
proof -
  let ?bs = "broadcastedBatchShape lhs rhs m n"
  have len: "length (broadcastToShapeOf ?bs d0 d1) = max m n" for d0 d1
    using assms by (simp add: broadcastToShapeOf_def broadcastedBatchShape_length)
  have casts: "i < max m n \<Longrightarrow> opName (broadcastToShapeOf ?bs d0 d1 ! i) \<in> matmulOpNames"
    for i d0 d1
    using len [of d0 d1] opName_broadcastToShapeOf [OF nth_mem, of i ?bs d0 d1] by simp
  have fixed: "opName (getDimOp v k) \<in> matmulOpNames"
    "opName (checkDimEqualHelper x y) \<in> matmulOpNames"
    "opName (Op ''broadcastToGivenShape'' ty as vs r) \<in> matmulOpNames" for v k x y ty as vs r
    by (simp_all add: getDimOp_def checkDimEqualHelper_def opName_def matmulOpNames_def)
  show ?thesis
    using opName_batchDimStep [of lhs rhs m n] casts fixed
    by (auto simp add: batchOperands_def Let_def simp del: upt_Suc)
qed

lemma opName_mulChain: "opName ` set (mulChain acc ds) \<subseteq> matmulOpNames"
  by (induction ds arbitrary: acc) (auto simp: Let_def opName_def matmulOpNames_def)

lemma ConvertAtenMatmulOp_batch:
  assumes verify: "verifyLinalgCompatibleTypes e"
    and lhs: "getType e (ta_value (mt_self op)) = RankedTensorType lhsShape lhsElem"
    and rhs: "getType e (ta_value (mt_other op)) = RankedTensorType rhsShape rhsElem"
    and res: "mt_resultType op = RankedTensorType resultShape resultElem"
    and quant: "(ta_make (mt_self op) = None \<and> ta_make (mt_other op) = None
                  \<and> ta_dtype (mt_self op) = ta_dtype (mt_other op))
              \<or> (ta_make (mt_self op) \<noteq> None \<and> ta_make (mt_other op) \<noteq> None
                  \<and> signShiftDefined e (ta_dtype (mt_self op)) lhsElem
                  \<and> signShiftDefined e (ta_dtype (mt_other op)) rhsElem)"
    and ranks: "1 < length lhsShape" "1 < length rhsShape"
               "3 \<le> max (length lhsShape) (length rhsShape)"
  shows "\<exists>pre l r zps.
           ConvertAtenMatmulOp e op =
             matmulBatch e l r (length lhsShape) (length rhsShape) lhsElem rhsElem zps
               (mt_resultType op) resultShape resultElem pre
         \<and> (zps = None) = (ta_make (mt_self op) = None)
         \<and> opName ` set pre \<subseteq> matmulOpNames"
  using quant
proof
  assume u: "ta_make (mt_self op) = None \<and> ta_make (mt_other op) = None
                  \<and> ta_dtype (mt_self op) = ta_dtype (mt_other op)"
  have "ConvertAtenMatmulOp e op =
          matmulBatch e (ta_value (mt_self op)) (ta_value (mt_other op)) (length lhsShape)
            (length rhsShape) lhsElem rhsElem None (mt_resultType op) resultShape resultElem []"
    unfolding ConvertAtenMatmulOp_unquantized [OF verify lhs rhs res u [THEN conjunct1]
        u [THEN conjunct2, THEN conjunct1] u [THEN conjunct2, THEN conjunct2]]
    by (rule matmulDispatch_batch [OF ranks])
  moreover have "((None :: (val \<times> val) option) = None) = (ta_make (mt_self op) = None)"
    using u by simp
  moreover have "opName ` set [] \<subseteq> matmulOpNames"
    by simp
  ultimately have "ConvertAtenMatmulOp e op =
          matmulBatch e (ta_value (mt_self op)) (ta_value (mt_other op)) (length lhsShape)
            (length rhsShape) lhsElem rhsElem None (mt_resultType op) resultShape resultElem []
        \<and> ((None :: (val \<times> val) option) = None) = (ta_make (mt_self op) = None)
        \<and> opName ` set [] \<subseteq> matmulOpNames"
    by (intro conjI)
  then show ?thesis by (intro exI)
next
  assume q: "ta_make (mt_self op) \<noteq> None \<and> ta_make (mt_other op) \<noteq> None
                  \<and> signShiftDefined e (ta_dtype (mt_self op)) lhsElem
                  \<and> signShiftDefined e (ta_dtype (mt_other op)) rhsElem"
  then obtain lm rm where lm: "ta_make (mt_self op) = Some lm"
    and rm: "ta_make (mt_other op) = Some rm"
    by auto
  obtain lhs' rhs' lz rz c where p: "prepareZeroPoints e (mt_self op) (mt_other op)
       (ta_value (mt_self op)) (ta_value (mt_other op)) lhsElem rhsElem lm rm
           = Inr (lhs', rhs', lz, rz, c)"
    using prepareZeroPoints_succeeds [OF _ _ lhs rhs] q by blast
  have c: "opName ` set c \<subseteq> matmulOpNames"
    using prepareZeroPoints_opNames [OF p] by (auto simp: matmulOpNames_def)
  have v: "\<not> ((length lhsShape = 1 \<and> length rhsShape \<le> 2)
               \<or> (length lhsShape \<le> 2 \<and> length rhsShape = 1))"
    using ranks by auto
  have "ConvertAtenMatmulOp e op =
          matmulBatch e lhs' rhs' (length lhsShape) (length rhsShape) lhsElem rhsElem
            (Some (lz, rz)) (mt_resultType op) resultShape resultElem c"
    unfolding ConvertAtenMatmulOp_quantized [OF verify lhs rhs res lm rm p] if_not_P [OF v]
    by (rule matmulDispatch_batch [OF ranks])
  moreover have "(Some (lz, rz) = None) = (ta_make (mt_self op) = None)"
    using lm by simp
  ultimately have "ConvertAtenMatmulOp e op =
          matmulBatch e lhs' rhs' (length lhsShape) (length rhsShape) lhsElem rhsElem
            (Some (lz, rz)) (mt_resultType op) resultShape resultElem c
        \<and> (Some (lz, rz) = None) = (ta_make (mt_self op) = None)
        \<and> opName ` set c \<subseteq> matmulOpNames"
    using c by (intro conjI)
  then show ?thesis by (intro exI)
qed

subsection \<open>aten.matmul: what the batched cases create\<close>

lemma evalDim_mulChain:
  assumes "evalDim sh a = Some x" and "map (evalDim sh) ds = map Some ys"
  shows "evalDim sh (last (a # mulChain a ds)) = Some (x * prod_list ys)"
  using assms
proof (induction ds arbitrary: a x ys)
  case Nil
  then show ?case by simp
next
  case (Cons d ds)
  then obtain y ys' where ys: "ys = y # ys'" and d: "evalDim sh d = Some y"
    and rest: "map (evalDim sh) ds = map Some ys'"
    by (cases ys) auto
  have m: "evalDim sh (Op ''arith.muli'' None [] [a, d] []) = Some (x * y)"
    using Cons.prems(1) d by simp
  from Cons.IH [OF m rest]
  have "evalDim sh (last (Op ''arith.muli'' None [] [a, d] []
          # mulChain (Op ''arith.muli'' None [] [a, d] []) ds)) = Some (x * y * prod_list ys')" .
  then show ?case
    by (simp add: ys Let_def mult.assoc)
qed

lemma isBroadcast_names:
  assumes "opName ` set xs \<subseteq> S" and "''broadcastToGivenShape'' \<notin> S"
  shows "filter isBroadcast xs = []"
  using assms by (auto simp: filter_empty_conv isBroadcast_def)

lemma filter_isBroadcast_batchDimStep:
  "filter isBroadcast (batchDimStep lhs rhs m n i) = []"
  by (simp add: batchDimStep_def Let_def isBroadcast_def opName_def getDimOp_def)

lemma filter_isBroadcast_steps:
  "filter isBroadcast (concat (map (batchDimStep lhs rhs m n) is)) = []"
  by (induction "is") (simp_all add: filter_isBroadcast_batchDimStep)

lemma filter_isBroadcast_casts:
  assumes "\<And>i. i \<in> set is \<Longrightarrow> i < length xs \<and> i < length ys"
  shows "filter isBroadcast
           (concat (map (\<lambda>i. [map castIndexToInt64 xs ! i, map castIndexToInt64 ys ! i]) is)) = []"
  using assms
  by (induction "is") (simp_all add: isBroadcast_def opName_def castIndexToInt64_def)

lemma batchOperands_fields:
  "bo_batchShape (batchOperands lhs rhs m n le re) = broadcastedBatchShape lhs rhs m n"
  "bo_lhsDim0 (batchOperands lhs rhs m n le re) = getDimOp lhs (m - 2)"
  "bo_rhsDim1 (batchOperands lhs rhs m n le re) = getDimOp rhs (n - 1)"
  "bo_lhsBroadcastToShape (batchOperands lhs rhs m n le re) =
     map castIndexToInt64 (broadcastedBatchShape lhs rhs m n
                           @ [getDimOp lhs (m - 2), getDimOp lhs (m - 1)])"
  "bo_rhsBroadcastToShape (batchOperands lhs rhs m n le re) =
     map castIndexToInt64 (broadcastedBatchShape lhs rhs m n
                           @ [getDimOp rhs (n - 2), getDimOp rhs (n - 1)])"
  "bo_broadcastedLhs (batchOperands lhs rhs m n le re) =
     Op ''broadcastToGivenShape'' None
       [TypeAttr (RankedTensorType (replicate (max m n - 2 + 2) kDynamic) le)]
       (lhs # bo_lhsBroadcastToShape (batchOperands lhs rhs m n le re)) []"
  "bo_broadcastedRhs (batchOperands lhs rhs m n le re) =
     Op ''broadcastToGivenShape'' None
       [TypeAttr (RankedTensorType (replicate (max m n - 2 + 2) kDynamic) re)]
       (rhs # bo_rhsBroadcastToShape (batchOperands lhs rhs m n le re)) []"
  "bo_lhsBroadcastType (batchOperands lhs rhs m n le re) =
     RankedTensorType (replicate (max m n - 2 + 2) kDynamic) le"
  "bo_rhsBroadcastType (batchOperands lhs rhs m n le re) =
     RankedTensorType (replicate (max m n - 2 + 2) kDynamic) re"
  by (simp_all add: batchOperands_def Let_def broadcastToShapeOf_def
      broadcastedBatchShape_length del: upt_Suc)

lemma batchOperands_broadcasts:
  assumes "2 \<le> max m n"
  shows "filter isBroadcast (bo_created (batchOperands lhs rhs m n le re)) =
           [bo_broadcastedLhs (batchOperands lhs rhs m n le re),
            bo_broadcastedRhs (batchOperands lhs rhs m n le re)]"
proof -
  let ?bs = "broadcastedBatchShape lhs rhs m n"
  have len: "length (?bs @ [d0, d1]) = max m n" for d0 d1
    using assms by (simp add: broadcastedBatchShape_length)
  have casts: "filter isBroadcast
           (concat (map (\<lambda>i. [map castIndexToInt64 (?bs @ [a, b]) ! i,
                               map castIndexToInt64 (?bs @ [c, d]) ! i]) [0..<max m n])) = []"
    for a b c d
  proof (rule filter_isBroadcast_casts)
    fix i
    assume "i \<in> set [0..<max m n]"
    then show "i < length (?bs @ [a, b]) \<and> i < length (?bs @ [c, d])"
      using assms by (simp add: broadcastedBatchShape_length)
  qed
  show ?thesis
    unfolding batchOperands_def Let_def broadcastToShapeOf_def batch_operands.select_convs
      filter_append casts filter_isBroadcast_steps
    by (simp add: isBroadcast_def opName_def getDimOp_def checkDimEqualHelper_def)
qed

lemma batchOperands_evalDim:
  assumes "length (sh lhs) = m" and "length (sh rhs) = n" and "2 \<le> m" and "2 \<le> n"
  shows "map (evalDim sh) (bo_lhsBroadcastToShape (batchOperands lhs rhs m n le re)) =
           map Some (broadcastBatchSpec (butlast (butlast (sh lhs))) (butlast (butlast (sh rhs)))
                     @ [sh lhs ! (m - 2), sh lhs ! (m - 1)])"
    and "map (evalDim sh) (bo_rhsBroadcastToShape (batchOperands lhs rhs m n le re)) =
           map Some (broadcastBatchSpec (butlast (butlast (sh lhs))) (butlast (butlast (sh rhs)))
                     @ [sh rhs ! (n - 2), sh rhs ! (n - 1)])"
    and "map (evalDim sh) (broadcastedBatchShape lhs rhs m n) =
           map Some (broadcastBatchSpec (butlast (butlast (sh lhs))) (butlast (butlast (sh rhs))))"
proof -
  have l2: "2 \<le> length (sh lhs)" and r2: "2 \<le> length (sh rhs)"
    using assms by simp_all
  show b: "map (evalDim sh) (broadcastedBatchShape lhs rhs m n) =
           map Some (broadcastBatchSpec (butlast (butlast (sh lhs))) (butlast (butlast (sh rhs))))"
    using broadcastedBatchShape_refines [where sh = sh and lhs = lhs and rhs = rhs,
        OF refl refl l2 r2] assms(1,2) by simp
  have c: "map (evalDim sh) (map castIndexToInt64 xs) = map (evalDim sh) xs" for xs
    by simp
  show "map (evalDim sh) (bo_lhsBroadcastToShape (batchOperands lhs rhs m n le re)) =
           map Some (broadcastBatchSpec (butlast (butlast (sh lhs))) (butlast (butlast (sh rhs)))
                     @ [sh lhs ! (m - 2), sh lhs ! (m - 1)])"
    unfolding batchOperands_fields c using b assms by simp
  show "map (evalDim sh) (bo_rhsBroadcastToShape (batchOperands lhs rhs m n le re)) =
           map Some (broadcastBatchSpec (butlast (butlast (sh lhs))) (butlast (butlast (sh rhs)))
                     @ [sh rhs ! (n - 2), sh rhs ! (n - 1)])"
    unfolding batchOperands_fields c using b assms by simp
qed

lemma prepareZeroPoints_of_signShift:
  assumes "signShift e lhs
             (Some (Op ''arith.trunci'' (Some i32) []
                      [Op ''materializeTargetConversion'' (Some (mq_zero_point_type lm)) []
                         [mq_zero_point lm] []] []))
             (isUnsignedTorchType e (ta_dtype self)) (int lw) = Inr (lhs', Some lz, c1)"
    and "signShift e rhs
             (Some (Op ''arith.trunci'' (Some i32) []
                      [Op ''materializeTargetConversion'' (Some (mq_zero_point_type rm)) []
                         [mq_zero_point rm] []] []))
             (isUnsignedTorchType e (ta_dtype other)) (int rw) = Inr (rhs', Some rz, c2)"
  shows "\<exists>c. prepareZeroPoints e self other lhs rhs (IntegerType lw ls) (IntegerType rw rs) lm rm
           = Inr (lhs', rhs', lz, rz, c)"
  using assms by (simp add: prepareZeroPoints_def Let_def)

text \<open>
  The operands of a batched product: the two operands as they are when there is no
  zero-point, and what \<open>signShift\<close> returns for each when both have one.
\<close>

lemma ConvertAtenMatmulOp_batch_operands:
  assumes verify: "verifyLinalgCompatibleTypes e"
    and lhs: "getType e (ta_value (mt_self op)) = RankedTensorType lhsShape lhsElem"
    and rhs: "getType e (ta_value (mt_other op)) = RankedTensorType rhsShape rhsElem"
    and res: "mt_resultType op = RankedTensorType resultShape resultElem"
    and quant: "(ta_make (mt_self op) = None \<and> ta_make (mt_other op) = None
                  \<and> ta_dtype (mt_self op) = ta_dtype (mt_other op)
                  \<and> lhs' = ta_value (mt_self op) \<and> rhs' = ta_value (mt_other op))
              \<or> (ta_make (mt_self op) = Some lm \<and> ta_make (mt_other op) = Some rm
                  \<and> lhsElem = IntegerType lw ls \<and> rhsElem = IntegerType rw rs
                  \<and> signShift e (ta_value (mt_self op))
                       (Some (Op ''arith.trunci'' (Some i32) []
                                [Op ''materializeTargetConversion''
                                   (Some (mq_zero_point_type lm)) [] [mq_zero_point lm] []] []))
                       (isUnsignedTorchType e (ta_dtype (mt_self op))) (int lw)
                     = Inr (lhs', Some lz, c1)
                  \<and> signShift e (ta_value (mt_other op))
                       (Some (Op ''arith.trunci'' (Some i32) []
                                [Op ''materializeTargetConversion''
                                   (Some (mq_zero_point_type rm)) [] [mq_zero_point rm] []] []))
                       (isUnsignedTorchType e (ta_dtype (mt_other op))) (int rw)
                     = Inr (rhs', Some rz, c2))"
    and ranks: "1 < length lhsShape" "1 < length rhsShape"
               "3 \<le> max (length lhsShape) (length rhsShape)"
  shows "\<exists>pre. ConvertAtenMatmulOp e op =
             matmulBatch e lhs' rhs' (length lhsShape) (length rhsShape) lhsElem rhsElem
               (if ta_make (mt_self op) = None then None else Some (lz, rz))
               (mt_resultType op) resultShape resultElem pre
         \<and> opName ` set pre \<subseteq> matmulOpNames
         \<and> filter isBroadcast pre = []"
  using quant
proof
  assume u: "ta_make (mt_self op) = None \<and> ta_make (mt_other op) = None
                  \<and> ta_dtype (mt_self op) = ta_dtype (mt_other op)
                  \<and> lhs' = ta_value (mt_self op) \<and> rhs' = ta_value (mt_other op)"
  then have u1: "ta_make (mt_self op) = None" and u2: "ta_make (mt_other op) = None"
    and u3: "ta_dtype (mt_self op) = ta_dtype (mt_other op)"
    and l: "lhs' = ta_value (mt_self op)" and r: "rhs' = ta_value (mt_other op)"
    by simp_all
  have "ConvertAtenMatmulOp e op =
          matmulBatch e lhs' rhs' (length lhsShape) (length rhsShape) lhsElem rhsElem
            (if ta_make (mt_self op) = None then None else Some (lz, rz))
            (mt_resultType op) resultShape resultElem []"
    unfolding ConvertAtenMatmulOp_unquantized [OF verify lhs rhs res u1 u2 u3] l r u1
    using matmulDispatch_batch [OF ranks] by simp
  then have "ConvertAtenMatmulOp e op =
          matmulBatch e lhs' rhs' (length lhsShape) (length rhsShape) lhsElem rhsElem
            (if ta_make (mt_self op) = None then None else Some (lz, rz))
            (mt_resultType op) resultShape resultElem []
         \<and> opName ` set [] \<subseteq> matmulOpNames \<and> filter isBroadcast [] = []"
    by simp
  then show ?thesis
    by (rule exI)
next
  assume q: "ta_make (mt_self op) = Some lm \<and> ta_make (mt_other op) = Some rm
                  \<and> lhsElem = IntegerType lw ls \<and> rhsElem = IntegerType rw rs
                  \<and> signShift e (ta_value (mt_self op))
                       (Some (Op ''arith.trunci'' (Some i32) []
                                [Op ''materializeTargetConversion''
                                   (Some (mq_zero_point_type lm)) [] [mq_zero_point lm] []] []))
                       (isUnsignedTorchType e (ta_dtype (mt_self op))) (int lw)
                     = Inr (lhs', Some lz, c1)
                  \<and> signShift e (ta_value (mt_other op))
                       (Some (Op ''arith.trunci'' (Some i32) []
                                [Op ''materializeTargetConversion''
                                   (Some (mq_zero_point_type rm)) [] [mq_zero_point rm] []] []))
                       (isUnsignedTorchType e (ta_dtype (mt_other op))) (int rw)
                     = Inr (rhs', Some rz, c2)"
  then have lm: "ta_make (mt_self op) = Some lm" and rm: "ta_make (mt_other op) = Some rm"
    and le: "lhsElem = IntegerType lw ls" and re: "rhsElem = IntegerType rw rs"
    by simp_all
  from q obtain c where p: "prepareZeroPoints e (mt_self op) (mt_other op)
       (ta_value (mt_self op)) (ta_value (mt_other op)) lhsElem rhsElem lm rm
           = Inr (lhs', rhs', lz, rz, c)"
    unfolding le re using prepareZeroPoints_of_signShift by blast
  have c: "opName ` set c \<subseteq> matmulOpNames"
    using prepareZeroPoints_opNames [OF p] by (auto simp: matmulOpNames_def)
  have cb: "filter isBroadcast c = []"
    by (rule isBroadcast_names [OF prepareZeroPoints_opNames [OF p]]) simp
  have v: "\<not> ((length lhsShape = 1 \<and> length rhsShape \<le> 2)
               \<or> (length lhsShape \<le> 2 \<and> length rhsShape = 1))"
    using ranks by auto
  have "ConvertAtenMatmulOp e op =
          matmulBatch e lhs' rhs' (length lhsShape) (length rhsShape) lhsElem rhsElem
            (Some (lz, rz)) (mt_resultType op) resultShape resultElem c"
    unfolding ConvertAtenMatmulOp_quantized [OF verify lhs rhs res lm rm p] if_not_P [OF v]
    by (rule matmulDispatch_batch [OF ranks])
  then have "ConvertAtenMatmulOp e op =
          matmulBatch e lhs' rhs' (length lhsShape) (length rhsShape) lhsElem rhsElem
            (if ta_make (mt_self op) = None then None else Some (lz, rz))
            (mt_resultType op) resultShape resultElem c
         \<and> opName ` set c \<subseteq> matmulOpNames \<and> filter isBroadcast c = []"
    using c cb lm by simp
  then show ?thesis
    by (rule exI)
qed

text \<open>What the two ways of contracting several batch dimensions create.\<close>

lemma matmulBatchCollapsed_explicit:
  assumes pre: "opName ` set pre \<subseteq> matmulOpNames"
  shows "let R = [[0..<b], [b], [b + 1]];
             acc = Op ''linalg.fill'' None []
                     [Op ''arith.constant'' (Some el) [ZeroAttr el] [] [],
                      Op ''tensor.empty'' None [TypeAttr el]
                        [last (bs ! 0 # mulChain (bs ! 0) (drop 1 bs)), d0, d1] []] [];
             product = Op (if zps = None then ''linalg.batch_matmul''
                           else ''linalg.quantized_batch_matmul'') (Some (getType e acc)) []
                         ([Op ''tensor.collapse_shape'' None [ReassociationAttr R] [bl] [],
                           Op ''tensor.collapse_shape'' None [ReassociationAttr R] [br] []]
                          @ (case zps of None \<Rightarrow> [] | Some (lz, rz) \<Rightarrow> [lz, rz]) @ [acc]) [];
             r = matmulBatchCollapsed e bl br bs d0 d1 (b + 2) zps t el pre
         in replacement r =
              Op ''tensor.cast'' (Some t) []
                [Op ''tensor.expand_shape'' (Some t) [ReassociationAttr R] [product] []] []
          \<and> filter isContraction (created r) = [product]
          \<and> filter isBroadcast (created r) = filter isBroadcast pre"
proof -
  have p: "filter isContraction pre = []"
    by (rule filter_opName_empty [OF pre matmulOpNames_not_contraction])
  have m: "filter isContraction (mulChain x ds) = []" for x ds
    by (rule filter_opName_empty [OF opName_mulChain matmulOpNames_not_contraction])
  have mb: "filter isBroadcast (mulChain x ds) = []" for x ds
    by (induction ds arbitrary: x) (simp_all add: Let_def isBroadcast_def opName_def)
  show ?thesis
    unfolding Let_def
    by (cases zps)
       (auto simp add: matmulBatchCollapsed_def Let_def collapseReassociation_Suc p m mb
          isContraction_def isBroadcast_def opName_def)
qed

lemma matmulBatchGeneric_explicit:
  assumes pre: "opName ` set pre \<subseteq> matmulOpNames"
  shows "let acc = Op ''createZeroInitTensor'' None [TypeAttr el] (bs @ [d0, d1]) [];
             mul = Op ''arith.mulf'' None [] [BlockArgument 0, BlockArgument 1] [];
             add = Op ''arith.addf'' None [] [mul, BlockArgument 2] [];
             product = Op ''linalg.generic'' (Some (getType e acc))
                         [AffineMapsAttr [[0..<b] @ [b, b + 1], [0..<b] @ [b + 1, b + 2],
                                          [0..<b] @ [b, b + 2]],
                          IteratorTypesAttr
                            (replicate b parallel @ [parallel, reduction, parallel])]
                         [bl, br, acc] [mul, add, Op ''linalg.yield'' None [] [add] []];
             r = matmulBatchGeneric e bl br bs d0 d1 b t el pre
         in replacement r = Op ''tensor.cast'' (Some t) [] [product] []
          \<and> filter isContraction (created r) = [product]
          \<and> filter isBroadcast (created r) = filter isBroadcast pre
          \<and> ''tensor.collapse_shape'' \<notin> opName ` set (created r)
          \<and> ''tensor.expand_shape'' \<notin> opName ` set (created r)"
proof -
  have p: "filter isContraction pre = []"
    by (rule filter_opName_empty [OF pre matmulOpNames_not_contraction])
  show ?thesis
    unfolding Let_def
    using pre matmulOpNames_not_reshape
    by (auto simp add: matmulBatchGeneric_def Let_def p isContraction_def isBroadcast_def
        opName_def createZeroInitTensor_def)
qed


lemma matmulBatch_branches:
  assumes ranks: "3 \<le> max m n"
    and okl: "broadcastToGivenShape e lhs
                (bo_lhsBroadcastToShape (batchOperands lhs rhs m n le re))
                (bo_lhsBroadcastType (batchOperands lhs rhs m n le re))"
    and okr: "broadcastToGivenShape e rhs
                (bo_rhsBroadcastToShape (batchOperands lhs rhs m n le re))
                (bo_rhsBroadcastType (batchOperands lhs rhs m n le re))"
    and rank: "max m n = 3 \<or> 2 \<le> length rs"
  shows "matmulBatch e lhs rhs m n le re zps t rs el pre =
           Inr (if max m n = 3
                then matmulBatch3 e (batchOperands lhs rhs m n le re) zps t el
                       (pre @ bo_created (batchOperands lhs rhs m n le re))
                else if count_list (butlast (butlast (makeShapeTorchCompatible rs))) kUnknownSize
                        \<le> 1
                then matmulBatchCollapsed e
                       (bo_broadcastedLhs (batchOperands lhs rhs m n le re))
                       (bo_broadcastedRhs (batchOperands lhs rhs m n le re))
                       (bo_batchShape (batchOperands lhs rhs m n le re))
                       (bo_lhsDim0 (batchOperands lhs rhs m n le re))
                       (bo_rhsDim1 (batchOperands lhs rhs m n le re))
                       (max m n - 2 + 2) zps t el
                       (pre @ bo_created (batchOperands lhs rhs m n le re))
                else matmulBatchGeneric e
                       (bo_broadcastedLhs (batchOperands lhs rhs m n le re))
                       (bo_broadcastedRhs (batchOperands lhs rhs m n le re))
                       (bo_batchShape (batchOperands lhs rhs m n le re))
                       (bo_lhsDim0 (batchOperands lhs rhs m n le re))
                       (bo_rhsDim1 (batchOperands lhs rhs m n le re))
                       (max m n - 2) t el
                       (pre @ bo_created (batchOperands lhs rhs m n le re)))"
proof -
  let ?c = "count_list (butlast (butlast (makeShapeTorchCompatible rs))) kUnknownSize"
  have m2: "max m n - 2 + 2 = max m n"
    and nb0: "\<not> max m n - 2 \<le> 0"
    using ranks by linarith+
  have b0: "(max m n - 2 \<le> 0) = False"
    using nb0 by simp
  have l: "broadcastToGivenShape e lhs
                (bo_lhsBroadcastToShape (batchOperands lhs rhs m n le re))
                (bo_lhsBroadcastType (batchOperands lhs rhs m n le re)) = True"
    and r: "broadcastToGivenShape e rhs
                (bo_rhsBroadcastToShape (batchOperands lhs rhs m n le re))
                (bo_rhsBroadcastType (batchOperands lhs rhs m n le re)) = True"
    using okl okr by simp_all
  have c: "(\<not> 1 < ?c) = (?c \<le> 1)"
    by (rule not_less)
  show ?thesis
  proof (cases "max m n = 3")
    case True
    then have m3: "(max m n = 3) = True"
      by simp
    show ?thesis
      by (simp only: matmulBatch_def Let_def b0 m3 l r if_False if_True
          not_False_eq_True not_True_eq_False)
  next
    case False
    with rank have nr: "(length rs < 2) = False"
      by simp
    have m3: "(max m n = 3) = False"
      using False by simp
    show ?thesis
      unfolding m2
      by (simp only: matmulBatch_def Let_def b0 m3 nr l r c if_False if_True
          not_False_eq_True not_True_eq_False if_distrib [of Inr])
  qed
qed


lemma accumulatorExtents_zeroInit:
  "accumulatorExtents sh (Op k ty as (xs @ [Op ''createZeroInitTensor'' None a sizes []]) rg)
     = map (evalDim sh) sizes"
  by (simp add: accumulatorExtents_def)





text \<open>
  C6. Let \<open>lhs'\<close> and \<open>rhs'\<close> be the operands of a batched \<^verbatim>\<open>aten.matmul\<close> (the operands
  themselves without zero-points, what \<open>signShift\<close> returns with zero-points), of ranks
  \<open>m\<close> and \<open>n\<close> above 1 with a batch rank \<open>b = max m n - 2\<close> above 1, and let the two calls
  of \<^verbatim>\<open>broadcastToGivenShape\<close> that the pattern makes succeed. The lowering succeeds. The
  only two broadcasts created are those of \<open>lhs'\<close> and of \<open>rhs'\<close>, each to the broadcast batch
  shape followed by its own two matrix dimensions (as run-time extents), with a type of
  rank \<open>b + 2\<close> that is dynamic everywhere.

  When at most one batch dimension of the result type is dynamic, each broadcast operand
  is collapsed with the reassociation \<open>[[0, ..., b - 1], [b], [b + 1]]\<close>; the only
  contraction is \<open>linalg.batch_matmul\<close> (\<open>linalg.quantized_batch_matmul\<close> with the two
  zero-points) on the two collapsed operands and an accumulator that is a zero-filled
  \<open>tensor.empty\<close> of three sizes: the product of all batch extents, the rows of the lhs and
  the columns of the rhs; its result is expanded with the same reassociation to the result
  type, and cast to it.

  When more than one is dynamic, nothing is collapsed or expanded; the only contraction is
  a \<open>linalg.generic\<close> on the two broadcast operands and a zero accumulator of the batch
  extents followed by the rows and the columns, with the indexing maps
  \<open>(batch, i, k)\<close>, \<open>(batch, k, j)\<close>, \<open>(batch, i, j)\<close>, the iterators parallel but for the
  reduction \<open>k\<close>, and the body that multiplies the two elements, adds the accumulator and
  yields the sum (\<open>arith.mulf\<close> and \<open>arith.addf\<close>, with or without zero-points, which this
  case does not use).
\<close>

theorem batched_matmul_collapse_policy:
  assumes verify: "verifyLinalgCompatibleTypes e"
    and lhs: "getType e (ta_value (mt_self op)) = RankedTensorType lhsShape lhsElem"
    and rhs: "getType e (ta_value (mt_other op)) = RankedTensorType rhsShape rhsElem"
    and res: "mt_resultType op = RankedTensorType resultShape resultElem"
    and quant: "(ta_make (mt_self op) = None \<and> ta_make (mt_other op) = None
                  \<and> ta_dtype (mt_self op) = ta_dtype (mt_other op)
                  \<and> lhs' = ta_value (mt_self op) \<and> rhs' = ta_value (mt_other op))
              \<or> (ta_make (mt_self op) = Some lm \<and> ta_make (mt_other op) = Some rm
                  \<and> lhsElem = IntegerType lw ls \<and> rhsElem = IntegerType rw rs
                  \<and> signShift e (ta_value (mt_self op))
                       (Some (Op ''arith.trunci'' (Some i32) []
                                [Op ''materializeTargetConversion''
                                   (Some (mq_zero_point_type lm)) [] [mq_zero_point lm] []] []))
                       (isUnsignedTorchType e (ta_dtype (mt_self op))) (int lw)
                     = Inr (lhs', Some lz, c1)
                  \<and> signShift e (ta_value (mt_other op))
                       (Some (Op ''arith.trunci'' (Some i32) []
                                [Op ''materializeTargetConversion''
                                   (Some (mq_zero_point_type rm)) [] [mq_zero_point rm] []] []))
                       (isUnsignedTorchType e (ta_dtype (mt_other op))) (int rw)
                     = Inr (rhs', Some rz, c2))"
    and ranks: "1 < length lhsShape" "1 < length rhsShape"
               "4 \<le> max (length lhsShape) (length rhsShape)"
    and rank: "2 \<le> length resultShape"
    and sl: "length (sh lhs') = length lhsShape"
    and sr: "length (sh rhs') = length rhsShape"
    and okl: "broadcastToGivenShape e lhs'
                (bo_lhsBroadcastToShape
                   (batchOperands lhs' rhs' (length lhsShape) (length rhsShape) lhsElem rhsElem))
                (bo_lhsBroadcastType
                   (batchOperands lhs' rhs' (length lhsShape) (length rhsShape) lhsElem rhsElem))"
    and okr: "broadcastToGivenShape e rhs'
                (bo_rhsBroadcastToShape
                   (batchOperands lhs' rhs' (length lhsShape) (length rhsShape) lhsElem rhsElem))
                (bo_rhsBroadcastType
                   (batchOperands lhs' rhs' (length lhsShape) (length rhsShape) lhsElem rhsElem))"
  shows
    "let m = length lhsShape; n = length rhsShape; k = max m n; b = k - 2;
         B = batchOperands lhs' rhs' m n lhsElem rhsElem;
         batch = broadcastBatchSpec (butlast (butlast (sh lhs'))) (butlast (butlast (sh rhs')));
         T = mt_resultType op;
         BL = Op ''broadcastToGivenShape'' None
                [TypeAttr (RankedTensorType (replicate k kDynamic) lhsElem)]
                (lhs' # bo_lhsBroadcastToShape B) [];
         BR = Op ''broadcastToGivenShape'' None
                [TypeAttr (RankedTensorType (replicate k kDynamic) rhsElem)]
                (rhs' # bo_rhsBroadcastToShape B) [];
         rows = Op ''getDimOp'' None [IndexAttr (int (m - 2))] [lhs'] [];
         cols = Op ''getDimOp'' None [IndexAttr (int (n - 1))] [rhs'] [];
         R = [[0..<b], [b], [b + 1]];
         quantized = (ta_make (mt_self op) \<noteq> None);
         zeroPoints = (if quantized then [lz, rz] else [])
     in map (evalDim sh) (bo_lhsBroadcastToShape B)
          = map Some (batch @ [sh lhs' ! (m - 2), sh lhs' ! (m - 1)])
      \<and> map (evalDim sh) (bo_rhsBroadcastToShape B)
          = map Some (batch @ [sh rhs' ! (n - 2), sh rhs' ! (n - 1)])
      \<and> evalDim sh rows = Some (sh lhs' ! (m - 2))
      \<and> evalDim sh cols = Some (sh rhs' ! (n - 1))
      \<and> (\<exists>r. ConvertAtenMatmulOp e op = Inr r
            \<and> filter isBroadcast (created r) = [BL, BR]
            \<and> (if count_list (butlast (butlast (makeShapeTorchCompatible resultShape)))
                    kUnknownSize \<le> 1
                then \<exists>P. evalDim sh P = Some (prod_list batch)
                      \<and> (let acc = Op ''linalg.fill'' None []
                                      [Op ''arith.constant'' (Some resultElem)
                                         [ZeroAttr resultElem] [] [],
                                       Op ''tensor.empty'' None [TypeAttr resultElem]
                                         [P, rows, cols] []] [];
                              product =
                                Op (if quantized then ''linalg.quantized_batch_matmul''
                                    else ''linalg.batch_matmul'') (Some (getType e acc)) []
                                  ([Op ''tensor.collapse_shape'' None [ReassociationAttr R]
                                      [BL] [],
                                    Op ''tensor.collapse_shape'' None [ReassociationAttr R]
                                      [BR] []] @ zeroPoints @ [acc]) []
                          in replacement r =
                               Op ''tensor.cast'' (Some T) []
                                 [Op ''tensor.expand_shape'' (Some T) [ReassociationAttr R]
                                    [product] []] []
                           \<and> filter isContraction (created r) = [product])
                else \<exists>bs. map (evalDim sh) bs = map Some batch
                      \<and> (let acc = Op ''createZeroInitTensor'' None [TypeAttr resultElem]
                                      (bs @ [rows, cols]) [];
                              mul = Op ''arith.mulf'' None [] [BlockArgument 0, BlockArgument 1]
                                      [];
                              add = Op ''arith.addf'' None [] [mul, BlockArgument 2] [];
                              product =
                                Op ''linalg.generic'' (Some (getType e acc))
                                  [AffineMapsAttr [[0..<b] @ [b, b + 1],
                                                   [0..<b] @ [b + 1, b + 2],
                                                   [0..<b] @ [b, b + 2]],
                                   IteratorTypesAttr
                                     (replicate b parallel @ [parallel, reduction, parallel])]
                                  [BL, BR, acc]
                                  [mul, add, Op ''linalg.yield'' None [] [add] []]
                          in replacement r = Op ''tensor.cast'' (Some T) [] [product] []
                           \<and> filter isContraction (created r) = [product]
                           \<and> ''tensor.collapse_shape'' \<notin> opName ` set (created r)
                           \<and> ''tensor.expand_shape'' \<notin> opName ` set (created r))))"
proof -
  let ?m = "length lhsShape" and ?n = "length rhsShape"
  let ?B = "batchOperands lhs' rhs' ?m ?n lhsElem rhsElem"
  let ?batch = "broadcastBatchSpec (butlast (butlast (sh lhs'))) (butlast (butlast (sh rhs')))"
  let ?z = "if ta_make (mt_self op) = None then None else Some (lz, rz)"
  let ?T = "mt_resultType op"
  have r3: "3 \<le> max ?m ?n" and r2: "2 \<le> max ?m ?n" and n3: "max ?m ?n \<noteq> 3"
    and m2: "2 \<le> ?m" and n2: "2 \<le> ?n" and k2: "max ?m ?n - 2 + 2 = max ?m ?n"
    using ranks by linarith+
  obtain pre where red: "ConvertAtenMatmulOp e op =
             matmulBatch e lhs' rhs' ?m ?n lhsElem rhsElem ?z ?T resultShape resultElem pre"
    and pn: "opName ` set pre \<subseteq> matmulOpNames"
    and pb: "filter isBroadcast pre = []"
    using ConvertAtenMatmulOp_batch_operands [OF verify lhs rhs res quant ranks(1) ranks(2) r3]
    by (elim exE conjE) (rule that)
  let ?common = "pre @ bo_created ?B"
  have cn: "opName ` set ?common \<subseteq> matmulOpNames"
    using pn opName_batchOperands [OF r2, of lhs' rhs' lhsElem rhsElem]
    by (simp only: set_append image_Un Un_subset_iff conj_commute)
  have cb: "filter isBroadcast ?common = [bo_broadcastedLhs ?B, bo_broadcastedRhs ?B]"
    unfolding filter_append pb batchOperands_broadcasts [OF r2] by simp
  note ev = batchOperands_evalDim(1) [OF sl sr m2 n2, of lhsElem rhsElem]
    batchOperands_evalDim(2) [OF sl sr m2 n2, of lhsElem rhsElem]
    batchOperands_evalDim(3) [OF sl sr m2 n2]
  have rows: "evalDim sh (Op ''getDimOp'' None [IndexAttr (int (?m - 2))] [lhs'] [])
                = Some (sh lhs' ! (?m - 2))"
    and cols: "evalDim sh (Op ''getDimOp'' None [IndexAttr (int (?n - 1))] [rhs'] [])
                = Some (sh rhs' ! (?n - 1))"
    using evalDim_getDimOp [of sh lhs' "?m - 2"] evalDim_getDimOp [of sh rhs' "?n - 1"]
      sl sr m2 n2 unfolding getDimOp_def by simp_all
  have zn: "(?z = None) = (ta_make (mt_self op) = None)"
    by simp
  have zo: "(case ?z of None \<Rightarrow> [] | Some (a, b) \<Rightarrow> [a, b])
              = (if ta_make (mt_self op) \<noteq> None then [lz, rz] else [])"
    by simp
  have nm: "(if ?z = None then ''linalg.batch_matmul'' else ''linalg.quantized_batch_matmul'')
              = (if ta_make (mt_self op) \<noteq> None then ''linalg.quantized_batch_matmul''
                 else ''linalg.batch_matmul'')"
    by simp
  note br = matmulBatch_branches [where zps = ?z and t = ?T and el = resultElem and pre = pre,
      OF r3 okl okr disjI2 [OF rank], unfolded if_not_P [OF n3]]
  note f67 = batchOperands_fields(6) [where m = ?m and n = ?n, unfolded k2]
    batchOperands_fields(7) [where m = ?m and n = ?n, unfolded k2]
  show ?thesis
  proof (cases "count_list (butlast (butlast (makeShapeTorchCompatible resultShape)))
                  kUnknownSize \<le> 1")
    case True
    let ?bs = "broadcastedBatchShape lhs' rhs' ?m ?n"
    let ?P = "last (?bs ! 0 # mulChain (?bs ! 0) (drop 1 ?bs))"
    define r where "r = matmulBatchCollapsed e (bo_broadcastedLhs ?B) (bo_broadcastedRhs ?B)
                (bo_batchShape ?B) (bo_lhsDim0 ?B) (bo_rhsDim1 ?B) (max ?m ?n - 2 + 2) ?z
                ?T resultElem ?common"
    have eq: "ConvertAtenMatmulOp e op = Inr r"
      unfolding r_def red br if_P [OF True] ..
    have len: "length ?bs = max ?m ?n - 2"
      by (rule broadcastedBatchShape_length)
    then obtain x xs where bs: "?bs = x # xs"
      using ranks(3) by (cases ?bs) auto
    from ev(3) obtain y ys where batch: "?batch = y # ys"
      and x: "evalDim sh x = Some y" and xs: "map (evalDim sh) xs = map Some ys"
      unfolding bs by (cases ?batch) auto
    have P: "evalDim sh ?P = Some (prod_list ?batch)"
      unfolding bs batch using evalDim_mulChain [OF x xs] by simp
    note ex = matmulBatchCollapsed_explicit [where b = "max ?m ?n - 2"
        and bs = "bo_batchShape ?B" and ?d0.0 = "bo_lhsDim0 ?B" and ?d1.0 = "bo_rhsDim1 ?B"
        and el = resultElem and zps = ?z and e = e and bl = "bo_broadcastedLhs ?B"
        and br = "bo_broadcastedRhs ?B" and t = ?T, OF cn, unfolded Let_def, folded r_def,
        unfolded cb zo nm batchOperands_fields(1,2,3,6,7) k2 getDimOp_def]
    show ?thesis
      unfolding Let_def if_P [OF True]
      apply (intro conjI)
          apply (rule ev(1))
         apply (rule ev(2))
        apply (rule rows)
       apply (rule cols)
      apply (rule exI [of _ r])
      apply (intro conjI)
        apply (rule eq)
       apply (rule ex [THEN conjunct2, THEN conjunct2])
      apply (rule exI [of _ ?P])
      apply (intro conjI)
        apply (rule P)
       apply (rule ex [THEN conjunct1])
      apply (rule ex [THEN conjunct2, THEN conjunct1])
      done
  next
    case False
    let ?bs = "broadcastedBatchShape lhs' rhs' ?m ?n"
    define r where "r = matmulBatchGeneric e (bo_broadcastedLhs ?B) (bo_broadcastedRhs ?B)
                (bo_batchShape ?B) (bo_lhsDim0 ?B) (bo_rhsDim1 ?B) (max ?m ?n - 2)
                ?T resultElem ?common"
    have eq: "ConvertAtenMatmulOp e op = Inr r"
      unfolding r_def red br if_not_P [OF False] ..
    note ex = matmulBatchGeneric_explicit [where b = "max ?m ?n - 2"
        and bs = "bo_batchShape ?B" and ?d0.0 = "bo_lhsDim0 ?B" and ?d1.0 = "bo_rhsDim1 ?B"
        and el = resultElem and e = e and bl = "bo_broadcastedLhs ?B"
        and br = "bo_broadcastedRhs ?B" and t = ?T, OF cn, unfolded Let_def, folded r_def,
        unfolded cb batchOperands_fields(1,2,3) f67 getDimOp_def]
    show ?thesis
      unfolding Let_def if_not_P [OF False]
      apply (intro conjI)
          apply (rule ev(1))
         apply (rule ev(2))
        apply (rule rows)
       apply (rule cols)
      apply (rule exI [of _ r])
      apply (intro conjI)
        apply (rule eq)
       apply (rule ex [THEN conjunct2, THEN conjunct2, THEN conjunct1])
      apply (rule exI [of _ ?bs])
      apply (intro conjI)
          apply (rule ev(3))
         apply (rule ex [THEN conjunct1])
        apply (rule ex [THEN conjunct2, THEN conjunct1])
       apply (rule ex [THEN conjunct2, THEN conjunct2, THEN conjunct2, THEN conjunct1])
      apply (rule ex [THEN conjunct2, THEN conjunct2, THEN conjunct2, THEN conjunct2])
      done
  qed
qed

theorem batched_matmul_collapse_policy_witness:
  "(\<exists>r. ConvertAtenMatmulOp exampleEnv (matmulExample [2, 1, 4, 5] [3, 5, 6] [2, 3, 4, 6]) = Inr r
        \<and> map opName (filter isBroadcast (created r))
            = [''broadcastToGivenShape'', ''broadcastToGivenShape'']
        \<and> map opName (operands (replacement r)) = [''tensor.expand_shape'']
        \<and> map opName (filter isContraction (created r)) = [''linalg.batch_matmul''])
   \<and> (\<exists>r. ConvertAtenMatmulOp exampleEnv matmulDynExample = Inr r
        \<and> map opName (filter isBroadcast (created r))
            = [''broadcastToGivenShape'', ''broadcastToGivenShape'']
        \<and> map opName (operands (replacement r)) = [''linalg.generic'']
        \<and> map opName (filter isContraction (created r)) = [''linalg.generic'']
        \<and> ''tensor.collapse_shape'' \<notin> opName ` set (created r)
        \<and> ''tensor.expand_shape'' \<notin> opName ` set (created r))"
proof -
  let ?e = exampleEnv
  let ?op = "matmulExample [2, 1, 4, 5] [3, 5, 6] [2, 3, 4, 6]"
  let ?L = "Operand ''self'' (RankedTensorType [2, 1, 4, 5] f32)"
  let ?R = "Operand ''other'' (RankedTensorType [3, 5, 6] f32)"
  let ?dy = matmulDynExample
  let ?DL = "Operand ''self'' (RankedTensorType [kDynamic, kDynamic, 4, 5] f32)"
  let ?DR = "Operand ''other'' (RankedTensorType [kDynamic, kDynamic, 5, 6] f32)"
  have v: "verifyLinalgCompatibleTypes ?e"
    by (simp add: exampleEnv_def)
  have l: "getType ?e (ta_value (mt_self ?op)) = RankedTensorType [2, 1, 4, 5] f32"
    and r: "getType ?e (ta_value (mt_other ?op)) = RankedTensorType [3, 5, 6] f32"
    and t: "mt_resultType ?op = RankedTensorType [2, 3, 4, 6] f32"
    and u: "ta_make (mt_self ?op) = None"
    by (simp_all add: matmulExample_def floatArg_def)
  have q: "(ta_make (mt_self ?op) = None \<and> ta_make (mt_other ?op) = None
              \<and> ta_dtype (mt_self ?op) = ta_dtype (mt_other ?op)
              \<and> ?L = ta_value (mt_self ?op) \<and> ?R = ta_value (mt_other ?op))
           \<or> (ta_make (mt_self ?op) = Some lm \<and> ta_make (mt_other ?op) = Some rm
              \<and> f32 = IntegerType lw ls \<and> f32 = IntegerType rw rs
              \<and> signShift ?e (ta_value (mt_self ?op))
                   (Some (Op ''arith.trunci'' (Some i32) []
                            [Op ''materializeTargetConversion''
                               (Some (mq_zero_point_type lm)) [] [mq_zero_point lm] []] []))
                   (isUnsignedTorchType ?e (ta_dtype (mt_self ?op))) (int lw)
                 = Inr (?L, Some lz, c1)
              \<and> signShift ?e (ta_value (mt_other ?op))
                   (Some (Op ''arith.trunci'' (Some i32) []
                            [Op ''materializeTargetConversion''
                               (Some (mq_zero_point_type rm)) [] [mq_zero_point rm] []] []))
                   (isUnsignedTorchType ?e (ta_dtype (mt_other ?op))) (int rw)
                 = Inr (?R, Some rz, c2))" for lm rm lw ls rw rs lz rz c1 c2
    by (simp add: matmulExample_def floatArg_def)
  have dl: "getType ?e (ta_value (mt_self ?dy)) = RankedTensorType [kDynamic, kDynamic, 4, 5] f32"
    and dr: "getType ?e (ta_value (mt_other ?dy))
               = RankedTensorType [kDynamic, kDynamic, 5, 6] f32"
    and dt: "mt_resultType ?dy = RankedTensorType [kDynamic, kDynamic, 4, 6] f32"
    and du: "ta_make (mt_self ?dy) = None"
    by (simp_all add: matmulDynExample_def floatArg_def)
  have dq: "(ta_make (mt_self ?dy) = None \<and> ta_make (mt_other ?dy) = None
              \<and> ta_dtype (mt_self ?dy) = ta_dtype (mt_other ?dy)
              \<and> ?DL = ta_value (mt_self ?dy) \<and> ?DR = ta_value (mt_other ?dy))
           \<or> (ta_make (mt_self ?dy) = Some lm \<and> ta_make (mt_other ?dy) = Some rm
              \<and> f32 = IntegerType lw ls \<and> f32 = IntegerType rw rs
              \<and> signShift ?e (ta_value (mt_self ?dy))
                   (Some (Op ''arith.trunci'' (Some i32) []
                            [Op ''materializeTargetConversion''
                               (Some (mq_zero_point_type lm)) [] [mq_zero_point lm] []] []))
                   (isUnsignedTorchType ?e (ta_dtype (mt_self ?dy))) (int lw)
                 = Inr (?DL, Some lz, c1)
              \<and> signShift ?e (ta_value (mt_other ?dy))
                   (Some (Op ''arith.trunci'' (Some i32) []
                            [Op ''materializeTargetConversion''
                               (Some (mq_zero_point_type rm)) [] [mq_zero_point rm] []] []))
                   (isUnsignedTorchType ?e (ta_dtype (mt_other ?dy))) (int rw)
                 = Inr (?DR, Some rz, c2))" for lm rm lw ls rw rs lz rz c1 c2
    by (simp add: matmulDynExample_def floatArg_def)
  have k: "1 < length [2, 1, 4, 5::int]" "1 < length [3, 5, 6::int]"
          "4 \<le> max (length [2, 1, 4, 5::int]) (length [3, 5, 6::int])"
          "2 \<le> length [2, 3, 4, 6::int]"
    and dk: "1 < length [kDynamic, kDynamic, 4, 5]" "1 < length [kDynamic, kDynamic, 5, 6]"
          "4 \<le> max (length [kDynamic, kDynamic, 4, 5]) (length [kDynamic, kDynamic, 5, 6])"
          "2 \<le> length [kDynamic, kDynamic, 4, 6]"
    by simp_all
  have s: "length (shapesOf ?L [2, 1, 4, 5] ?R [3, 5, 6] ?L) = length [2, 1, 4, 5::int]"
          "length (shapesOf ?L [2, 1, 4, 5] ?R [3, 5, 6] ?R) = length [3, 5, 6::int]"
    and ds: "length (shapesOf ?DL [2, 3, 4, 5] ?DR [2, 3, 5, 6] ?DL)
               = length [kDynamic, kDynamic, 4, 5]"
          "length (shapesOf ?DL [2, 3, 4, 5] ?DR [2, 3, 5, 6] ?DR)
               = length [kDynamic, kDynamic, 5, 6]"
    by (simp_all add: shapesOf_def)
  have h: "broadcastToGivenShape ?e x shape ty" for x shape ty
    by (simp add: exampleEnv_def)
  have cnt: "count_list (butlast (butlast (makeShapeTorchCompatible [2, 3, 4, 6]))) kUnknownSize
             \<le> 1"
    by (simp add: makeShapeTorchCompatible_def kDynamic_def kUnknownSize_def)
  have dcnt: "\<not> count_list (butlast (butlast (makeShapeTorchCompatible
                 [kDynamic, kDynamic, 4, 6]))) kUnknownSize \<le> 1"
    by (simp add: makeShapeTorchCompatible_def kDynamic_def kUnknownSize_def)
  note T = batched_matmul_collapse_policy [where lz = ?L and rz = ?R, OF v l r t q k s h h,
      unfolded Let_def if_P [OF cnt] u]
  note D = batched_matmul_collapse_policy [where lz = ?DL and rz = ?DR, OF v dl dr dt dq dk ds h h,
      unfolded Let_def if_not_P [OF dcnt] du]
  have one: "\<exists>r. ConvertAtenMatmulOp ?e ?op = Inr r
        \<and> map opName (filter isBroadcast (created r))
            = [''broadcastToGivenShape'', ''broadcastToGivenShape'']
        \<and> map opName (operands (replacement r)) = [''tensor.expand_shape'']
        \<and> map opName (filter isContraction (created r)) = [''linalg.batch_matmul'']"
    apply (insert T)
    apply (elim conjE exE)
    apply (intro exI conjI)
       apply assumption
      apply (simp_all add: opName_def)
    done
  have two: "\<exists>r. ConvertAtenMatmulOp ?e ?dy = Inr r
        \<and> map opName (filter isBroadcast (created r))
            = [''broadcastToGivenShape'', ''broadcastToGivenShape'']
        \<and> map opName (operands (replacement r)) = [''linalg.generic'']
        \<and> map opName (filter isContraction (created r)) = [''linalg.generic'']
        \<and> ''tensor.collapse_shape'' \<notin> opName ` set (created r)
        \<and> ''tensor.expand_shape'' \<notin> opName ` set (created r)"
    apply (insert D)
    apply (elim conjE exE)
    apply (intro exI conjI)
         apply assumption
        apply (simp_all add: opName_def)
    done
  from one two show ?thesis ..
qed

subsection \<open>Convolution: the bias of a quantized convolution\<close>






















end
